theory Spec2Isabelle
  imports Complex_Main "HOL-Library.Char_ord" "HOL-Library.List_Lexorder"
begin
section \<open>The runtime prelude emitted by the code generator\<close>

text \<open>
  \<open>PythonGenerator.emitPrelude\<close> pushes a fixed Python module, line by line, in front of
  every generated program.  The helpers of that module are translated here from the
  emitted Python text.  File identifiers are taken as strings, the type the generated
  code passes (\<open>str(x)\<close> is then the identity).
\<close>

datatype py_exception = RuntimeError string | ValueError string | OverflowError string

subsection \<open>Python numbers and \<open>int()\<close>\<close>

text \<open>
  The analyzer admits an \<open>INTEGER\<close> or a \<open>REAL\<close> expression as a bound or a step of a
  \<open>FOR\<close> loop (\<open>SEM007\<close>), and the generator passes the three expressions to
  \<open>__inclusive_range\<close> as they are.  So the helper receives Python numbers: an \<open>int\<close>
  (unbounded) or a \<open>float\<close>.  A finite float is given by the real number it denotes; the
  floats that denote none are infinity, negative infinity and NaN.

  \<open>int(x)\<close> leaves an \<open>int\<close> as it is, truncates a finite float toward zero, and raises
  \<open>OverflowError\<close> on an infinity and \<open>ValueError\<close> on NaN.
\<close>

datatype py_number = PyInt int | PyFloat real | PyInf | PyNegInf | PyNaN

fun py_int :: "py_number \<Rightarrow> py_exception + int" where
  "py_int (PyInt i) = Inr i"
| "py_int (PyFloat r) = Inr (if r < 0 then \<lceil>r\<rceil> else \<lfloor>r\<rfloor>)"
| "py_int PyInf = Inl (OverflowError ''cannot convert float infinity to integer'')"
| "py_int PyNegInf = Inl (OverflowError ''cannot convert float infinity to integer'')"
| "py_int PyNaN = Inl (ValueError ''cannot convert float NaN to integer'')"

text \<open>The number a finite Python number denotes.\<close>

fun py_value :: "py_number \<Rightarrow> real option" where
  "py_value (PyInt i) = Some (real_of_int i)"
| "py_value (PyFloat r) = Some r"
| "py_value PyInf = None"
| "py_value PyNegInf = None"
| "py_value PyNaN = None"

subsection \<open>\<open>__inclusive_range\<close>\<close>

text \<open>
  The generator function first replaces \<open>start\<close>, \<open>end\<close> and \<open>step\<close> by \<open>int(start)\<close>,
  \<open>int(end)\<close> and \<open>int(step)\<close>, in this order; then it raises on a zero step; then it runs
  one of two loops, chosen by the sign of \<open>step\<close>, each of which yields \<open>value\<close> and adds
  \<open>step\<close>.  The loop function below yields the values as a list.  It tests the sign of
  \<open>step\<close> on every round (the source tests it once, before the loop, and \<open>step\<close> never
  changes), which is what makes the recursion terminate for every argument.
\<close>

function inclusive_range_loop :: "int \<Rightarrow> int \<Rightarrow> int \<Rightarrow> int list" where
  "inclusive_range_loop v e step =
     (if step > 0 then
        (if v \<le> e then v # inclusive_range_loop (v + step) e step else [])
      else if step < 0 then
        (if v \<ge> e then v # inclusive_range_loop (v + step) e step else [])
      else [])"
  by pat_completeness auto
termination
  by (relation "measure (\<lambda>(v, e, step). if step > 0 then nat (e - v + 1) else nat (v - e + 1))")
     auto

declare inclusive_range_loop.simps [simp del]

definition inclusive_range ::
  "py_number \<Rightarrow> py_number \<Rightarrow> py_number \<Rightarrow> py_exception + int list" where
  "inclusive_range start end step =
     (case py_int start of
        Inl e \<Rightarrow> Inl e
      | Inr start' \<Rightarrow>
          (case py_int end of
             Inl e \<Rightarrow> Inl e
           | Inr end' \<Rightarrow>
               (case py_int step of
                  Inl e \<Rightarrow> Inl e
                | Inr step' \<Rightarrow>
                    if step' = 0 then Inl (RuntimeError ''FOR STEP cannot be zero'')
                    else Inr (inclusive_range_loop start' end' step'))))"

text \<open>The number of values an inclusive range visits, written down independently of the loop.\<close>

definition range_count :: "int \<Rightarrow> int \<Rightarrow> int \<Rightarrow> nat" where
  "range_count a b s =
     (if s > 0 then (if a \<le> b then nat ((b - a) div s) + 1 else 0)
      else if s < 0 then (if b \<le> a then nat ((a - b) div (- s)) + 1 else 0)
      else 0)"

text \<open>
  The sequence \<open>a, a + s, a + 2s, \<dots>\<close> as far as \<open>b\<close> in the direction of \<open>s\<close>, for real
  numbers \<open>a\<close>, \<open>b\<close> and \<open>s \<noteq> 0\<close>: the values the specification gives to
  \<open>__inclusive_range(a, b, s)\<close>, written from its words.
\<close>

definition specified_range :: "real \<Rightarrow> real \<Rightarrow> real \<Rightarrow> real list" where
  "specified_range a b s =
     (if s > 0 then (if a \<le> b then map (\<lambda>k. a + real k * s) [0..<nat \<lfloor>(b - a) / s\<rfloor> + 1] else [])
      else if s < 0 then (if b \<le> a then map (\<lambda>k. a + real k * s) [0..<nat \<lfloor>(a - b) / (- s)\<rfloor> + 1] else [])
      else [])"

subsection \<open>The virtual file layer\<close>

text \<open>
  \<open>__vfs\<close> maps a file name to its lines; \<open>__open_files\<close> maps a file name to a handle,
  a dictionary with the keys \<open>'mode'\<close> and \<open>'pointer'\<close>.  The pointer starts at 0 and is
  only ever incremented, so it is a natural number.
\<close>

record handle =
  mode :: string
  pointer :: nat

record runtime =
  vfs :: "string \<rightharpoonup> string list"
  open_files :: "string \<rightharpoonup> handle"

definition OPENFILE :: "string \<Rightarrow> string \<Rightarrow> runtime \<Rightarrow> runtime" where
  "OPENFILE file_identifier md rt =
     (let name = file_identifier;
          files = (if md = ''WRITE'' then (vfs rt)(name \<mapsto> [])
                   else if vfs rt name = None then (vfs rt)(name \<mapsto> [])
                   else vfs rt)
      in rt\<lparr>vfs := files, open_files := (open_files rt)(name \<mapsto> \<lparr>mode = md, pointer = 0\<rparr>)\<rparr>)"

definition READFILE :: "string \<Rightarrow> runtime \<Rightarrow> py_exception + (string \<times> runtime)" where
  "READFILE file_identifier rt =
     (let name = file_identifier in
      case open_files rt name of
        None \<Rightarrow> Inl (RuntimeError (''File '' @ name @ '' is not open''))
      | Some h \<Rightarrow>
          if mode h \<noteq> ''READ'' then
            Inl (RuntimeError (''File '' @ name @ '' not opened in READ mode''))
          else
            let p = pointer h;
                data = (case vfs rt name of None \<Rightarrow> [] | Some d \<Rightarrow> d)
            in if p \<ge> length data then Inr ('''', rt)
               else Inr (data ! p,
                         rt\<lparr>open_files := (open_files rt)(name \<mapsto> h\<lparr>pointer := p + 1\<rparr>)\<rparr>))"

definition WRITEFILE :: "string \<Rightarrow> string \<Rightarrow> runtime \<Rightarrow> py_exception + runtime" where
  "WRITEFILE file_identifier v rt =
     (let name = file_identifier in
      case open_files rt name of
        None \<Rightarrow> Inl (RuntimeError (''File '' @ name @ '' is not open''))
      | Some h \<Rightarrow>
          if mode h \<noteq> ''WRITE'' then
            Inl (RuntimeError (''File '' @ name @ '' not opened in WRITE mode''))
          else
            Inr (rt\<lparr>vfs := (vfs rt)(name \<mapsto>
                   (case vfs rt name of None \<Rightarrow> [] | Some d \<Rightarrow> d) @ [v])\<rparr>))"

definition CLOSEFILE :: "string \<Rightarrow> runtime \<Rightarrow> runtime" where
  "CLOSEFILE file_identifier rt =
     (let name = file_identifier in rt\<lparr>open_files := (open_files rt)(name := None)\<rparr>)"

text \<open>
  A program that executes \<open>READFILE\<close> on the same identifier \<open>n\<close> times in a row, with
  nothing in between: the values read, in order, and the final state.  The first
  exception ends the run.
\<close>

fun READFILE_repeat :: "nat \<Rightarrow> string \<Rightarrow> runtime \<Rightarrow> py_exception + (string list \<times> runtime)" where
  "READFILE_repeat 0 name rt = Inr ([], rt)"
| "READFILE_repeat (Suc n) name rt =
     (case READFILE name rt of
        Inl e \<Rightarrow> Inl e
      | Inr (v, rt') \<Rightarrow>
          (case READFILE_repeat n name rt' of
             Inl e \<Rightarrow> Inl e
           | Inr (vs, rt'') \<Rightarrow> Inr (v # vs, rt'')))"

section \<open>JavaScript values the compiler relies on\<close>

text \<open>
  The compiler is TypeScript; three behaviours of its host language decide what it does
  and are written out here.

  \<^item> \<open>toLowerCase\<close> and \<open>toUpperCase\<close>: on the ASCII letters, which is all an identifier of
    the tokenizer (\<open>[A-Za-z][A-Za-z0-9]*\<close>) can hold.  Other characters are left alone.
  \<^item> \<open>String(n)\<close> of a number, which is also what a template literal prints for it:
    plain decimal digits below \<open>1e21\<close>, exponent form from there on and for
    magnitudes under \<open>1e-6\<close>.
  \<^item> Property lookup \<open>obj[key]\<close> on a plain object: the analyzer's tables
    (\<open>procedureSignatures\<close>, \<open>functionSignatures\<close>, \<open>openFiles\<close>, \<dots>) are object
    literals (\<open>{}\<close>), so a key the table does not own is looked up in
    \<open>Object.prototype\<close>.
\<close>

definition upperLetters :: string where
  "upperLetters = ''ABCDEFGHIJKLMNOPQRSTUVWXYZ''"

definition lowerLetters :: string where
  "lowerLetters = ''abcdefghijklmnopqrstuvwxyz''"

definition toLowerCase :: "string \<Rightarrow> string" where
  "toLowerCase s =
     map (\<lambda>c. case map_of (zip upperLetters lowerLetters) c of Some l \<Rightarrow> l | None \<Rightarrow> c) s"

definition toUpperCase :: "string \<Rightarrow> string" where
  "toUpperCase s =
     map (\<lambda>c. case map_of (zip lowerLetters upperLetters) c of Some u \<Rightarrow> u | None \<Rightarrow> c) s"

text \<open>
  JavaScript numbers, as the ECMAScript standard prints them.  A finite number is written
  as \<open>Decimal m e\<close>, the number \<open>m\<close> times ten to the power \<open>e\<close>, where the digits of \<open>m\<close>
  are the shortest decimal digits that denote the number, the ones \<open>Number::toString\<close>
  prints from.  (Not every
  pair \<open>m\<close>, \<open>e\<close> is a double; those that are not stand for no value of the program.)
  Negative zero prints as zero and is equal to it, so it is \<open>Decimal 0 0\<close> too.
\<close>

datatype js_number = Decimal int int | PosInfinity | NegInfinity | NaN

definition Integer :: "int \<Rightarrow> js_number" where
  "Integer i = Decimal i 0"

function decimalDigits :: "int \<Rightarrow> string" where
  "decimalDigits n =
     (if n < 10 then [''0123456789'' ! nat n]
      else decimalDigits (n div 10) @ [''0123456789'' ! nat (n mod 10)])"
  by pat_completeness auto
termination
  by (relation "measure nat") auto

declare decimalDigits.simps [simp del]

text \<open>The digits \<open>s\<close> without trailing zeros, which go to the exponent.\<close>

function stripZeros :: "int \<Rightarrow> int \<Rightarrow> int \<times> int" where
  "stripZeros s e =
     (if 0 < s \<and> s mod 10 = 0 then stripZeros (s div 10) (e + 1) else (s, e))"
  by pat_completeness auto
termination
  by (relation "measure (\<lambda>(s, e). nat s)") auto

declare stripZeros.simps [simp del]

text \<open>
  \<open>Number::toString\<close> of a positive number, in radix 10.  With \<open>k\<close> the number of digits
  and \<open>n\<close> the position of the decimal point (the number is \<open>s\<close> times ten to the power \<open>n - k\<close>): the digits
  padded with zeros when \<open>k \<le> n \<le> 21\<close>; the digits with a point inside when \<open>0 < n \<le> 21\<close>;
  \<open>0.\<close>, zeros and the digits when \<open>-6 < n \<le> 0\<close>; the exponent form otherwise.
\<close>

definition String_positive :: "int \<Rightarrow> int \<Rightarrow> string" where
  "String_positive s0 e0 =
     (let (s, e) = stripZeros s0 e0;
          digits = decimalDigits s;
          k = int (length digits);
          n = k + e;
          exponent = (if n - 1 < 0 then ''-'' else ''+'') @ decimalDigits \<bar>n - 1\<bar>
      in if k \<le> n \<and> n \<le> 21 then digits @ replicate (nat (n - k)) (CHR ''0'')
         else if 0 < n \<and> n \<le> 21 then take (nat n) digits @ ''.'' @ drop (nat n) digits
         else if - 6 < n \<and> n \<le> 0 then ''0.'' @ replicate (nat (- n)) (CHR ''0'') @ digits
         else if k = 1 then digits @ ''e'' @ exponent
         else take 1 digits @ ''.'' @ drop 1 digits @ ''e'' @ exponent)"

fun String_number :: "js_number \<Rightarrow> string" where
  "String_number NaN = ''NaN''"
| "String_number PosInfinity = ''Infinity''"
| "String_number NegInfinity = ''-Infinity''"
| "String_number (Decimal m e) =
     (if m = 0 then ''0''
      else if m < 0 then ''-'' @ String_positive (- m) e
      else String_positive m e)"

text \<open>The length of an array and a counter are numbers too.\<close>

definition String_nat :: "nat \<Rightarrow> string" where
  "String_nat n = String_number (Integer (int n))"

definition dquote :: string where
  "dquote = [CHR 0x22]"

definition squote :: string where
  "squote = [CHR 0x27]"

text \<open>
  Modelled from the ECMAScript standard: the property names of \<open>Object.prototype\<close>, which
  every object literal inherits.  Each inherited value is truthy (a function, or for
  \<open>__proto__\<close> the prototype object itself) and has none of the fields of a table entry.
\<close>

definition Object_prototype_keys :: "string list" where
  "Object_prototype_keys =
     [''constructor'', ''__defineGetter__'', ''__defineSetter__'', ''hasOwnProperty'',
      ''__lookupGetter__'', ''__lookupSetter__'', ''isPrototypeOf'',
      ''propertyIsEnumerable'', ''toString'', ''valueOf'', ''__proto__'',
      ''toLocaleString'']"

datatype 'a property = Own 'a | Inherited | Undefined

text \<open>\<open>obj[key]\<close>, where \<open>obj\<close> holds the object's own properties.\<close>

definition js_get :: "(string \<rightharpoonup> 'a) \<Rightarrow> string \<Rightarrow> 'a property" where
  "js_get obj key =
     (case obj key of
        Some v \<Rightarrow> Own v
      | None \<Rightarrow> if key \<in> set Object_prototype_keys then Inherited else Undefined)"

text \<open>
  \<open>obj[key] = v\<close> for a string \<open>v\<close>: the setter of \<open>__proto__\<close> ignores a value that is
  not an object, every other key becomes an own property.
\<close>

definition js_set_string :: "(string \<rightharpoonup> 'a) \<Rightarrow> string \<Rightarrow> 'a \<Rightarrow> (string \<rightharpoonup> 'a)" where
  "js_set_string obj key v = (if key = ''__proto__'' then obj else obj(key \<mapsto> v))"

text \<open>
  \<open>obj[key] = v\<close> for an object \<open>v\<close>: every key but \<open>__proto__\<close> becomes an own property.
  (For \<open>__proto__\<close> the assignment replaces the prototype and adds no own property; no
  identifier of the tokenizer has that name, and the replaced prototype is not followed
  here.)
\<close>

definition js_set_object :: "(string \<rightharpoonup> 'a) \<Rightarrow> string \<Rightarrow> 'a \<Rightarrow> (string \<rightharpoonup> 'a)" where
  "js_set_object obj key v = (if key = ''__proto__'' then obj else obj(key \<mapsto> v))"

text \<open>The exceptions the compiler's own code can raise.\<close>

datatype js_exception = TypeError string

section \<open>Diagnostics and the abstract syntax tree (\<open>types.ts\<close>)\<close>

datatype Severity = Error | Warning | Info

record Diagnostic =
  code :: string
  message :: string
  severity :: Severity
  line :: int
  column :: int
  endLine :: int
  endColumn :: int
  hint :: "string option"

record CompileResult =
  success :: bool
  diagnostics :: "Diagnostic list"
  astJson :: "string option"
  pythonCode :: "string option"

text \<open>
  The end of a span is \<open>spanEndLine\<close>, \<open>spanEndColumn\<close> here (\<open>endLine\<close>, \<open>endColumn\<close> in the
  source), to keep the fields of a span apart from those of a diagnostic.
\<close>

record SourceSpan =
  startLine :: int
  startColumn :: int
  spanEndLine :: int
  spanEndColumn :: int

datatype BasicTypeName = INTEGER | REAL | CHAR' | STRING | BOOLEAN

fun basicTypeName :: "BasicTypeName \<Rightarrow> string" where
  "basicTypeName INTEGER = ''INTEGER''"
| "basicTypeName REAL = ''REAL''"
| "basicTypeName CHAR' = ''CHAR''"
| "basicTypeName STRING = ''STRING''"
| "basicTypeName BOOLEAN = ''BOOLEAN''"

text \<open>
  An array dimension \<open>{lower, upper}\<close> is the pair \<open>(lower, upper)\<close>; the bounds are what
  \<open>parseSignedIntegerLiteral\<close> returned, numbers.
\<close>

datatype TypeNode =
    BasicTypeNode BasicTypeName SourceSpan
  | ArrayTypeNode BasicTypeName "(js_number \<times> js_number) list" SourceSpan

text \<open>A literal's value is a number, a string or a boolean.\<close>

datatype LiteralValue = NumberValue js_number | StringValue string | BooleanValue bool

datatype UnaryOperator = UnaryMinus | UnaryNot

datatype IdentifierNode = IdentifierNode string SourceSpan

datatype ExpressionNode =
    Literal LiteralValue BasicTypeName SourceSpan
  | Identifier string SourceSpan
  | UnaryExpression UnaryOperator ExpressionNode SourceSpan
  | BinaryExpression string ExpressionNode ExpressionNode SourceSpan
  | CallExpression string "ExpressionNode list" SourceSpan
  | ArrayAccess string "ExpressionNode list" SourceSpan

fun expressionSpan :: "ExpressionNode \<Rightarrow> SourceSpan" where
  "expressionSpan (Literal v t sp) = sp"
| "expressionSpan (Identifier n sp) = sp"
| "expressionSpan (UnaryExpression op e sp) = sp"
| "expressionSpan (BinaryExpression op l r sp) = sp"
| "expressionSpan (CallExpression n args sp) = sp"
| "expressionSpan (ArrayAccess n indices sp) = sp"

datatype ParameterNode = ParameterNode string TypeNode SourceSpan

datatype FileMode = READ | WRITE

datatype StatementNode =
    DeclareStatement IdentifierNode TypeNode SourceSpan
  | ConstantStatement IdentifierNode ExpressionNode SourceSpan
  | AssignmentStatement ExpressionNode ExpressionNode SourceSpan
  | InputStatement ExpressionNode SourceSpan
  | OutputStatement "ExpressionNode list" SourceSpan
  | IfStatement ExpressionNode "StatementNode list" "StatementNode list" SourceSpan
  | CaseStatement ExpressionNode "CaseClauseNode list" SourceSpan
  | ForStatement IdentifierNode ExpressionNode ExpressionNode "ExpressionNode option"
      "StatementNode list" SourceSpan
  | RepeatStatement "StatementNode list" ExpressionNode SourceSpan
  | WhileStatement ExpressionNode "StatementNode list" SourceSpan
  | ProcedureDefinition string "ParameterNode list" "StatementNode list" SourceSpan
  | FunctionDefinition string "ParameterNode list" BasicTypeName "StatementNode list" SourceSpan
  | CallStatement string "ExpressionNode list" SourceSpan
  | ReturnStatement ExpressionNode SourceSpan
  | OpenFileStatement ExpressionNode FileMode SourceSpan
  | ReadFileStatement ExpressionNode ExpressionNode SourceSpan
  | WriteFileStatement ExpressionNode ExpressionNode SourceSpan
  | CloseFileStatement ExpressionNode SourceSpan
and CaseClauseNode =
    CaseClauseNode "ExpressionNode option" StatementNode SourceSpan

datatype ProgramNode = ProgramNode "StatementNode list" SourceSpan

datatype StaticType =
    Unknown
  | Basic BasicTypeName
  | Array BasicTypeName "(js_number \<times> js_number) list"

datatype FunctionSignature = FunctionSignature string "StaticType list" StaticType

datatype ProcedureSignature = ProcedureSignature string "StaticType list"

section \<open>The semantic analyzer (\<open>semantics.ts\<close>)\<close>

subsection \<open>Symbols and scopes\<close>

datatype SymbolKind =
  VariableSymbol | ConstantSymbol | ParamSymbol | ProcedureSymbol | FunctionSymbol

text \<open>A symbol entry: \<open>name\<close>, \<open>kind\<close>, \<open>type\<close> and the optional \<open>params\<close>.\<close>

datatype SymbolEntry = SymbolEntry string SymbolKind StaticType "StaticType list option"

fun symbolName :: "SymbolEntry \<Rightarrow> string" where
  "symbolName (SymbolEntry n k t ps) = n"

fun symbolKind :: "SymbolEntry \<Rightarrow> SymbolKind" where
  "symbolKind (SymbolEntry n k t ps) = k"

fun symbolType :: "SymbolEntry \<Rightarrow> StaticType" where
  "symbolType (SymbolEntry n k t ps) = t"

text \<open>
  A scope owns a \<open>Map\<close> from lowercased names to symbols and points to its parent.  A
  child scope is created for one block and dropped after it, and a scope is only written
  by the statement list it belongs to, so scopes are passed by value.
\<close>

datatype Scope = Scope "string \<rightharpoonup> SymbolEntry" "Scope option"

fun Scope_define :: "SymbolEntry \<Rightarrow> Scope \<Rightarrow> bool \<times> Scope" where
  "Scope_define symbol (Scope symbols parent) =
     (let key = toLowerCase (symbolName symbol) in
      if symbols key \<noteq> None then (False, Scope symbols parent)
      else (True, Scope (symbols(key \<mapsto> symbol)) parent))"

fun Scope_lookup :: "Scope \<Rightarrow> string \<Rightarrow> SymbolEntry option" where
  "Scope_lookup (Scope symbols parent) name =
     (case symbols (toLowerCase name) of
        Some symbol \<Rightarrow> Some symbol
      | None \<Rightarrow> (case parent of None \<Rightarrow> None | Some p \<Rightarrow> Scope_lookup p name))"

subsection \<open>Static types\<close>

definition BUILTIN_FUNCTIONS :: "string \<rightharpoonup> FunctionSignature" where
  "BUILTIN_FUNCTIONS =
     [''DIV'' \<mapsto> FunctionSignature ''DIV'' [Basic INTEGER, Basic INTEGER] (Basic INTEGER),
      ''MOD'' \<mapsto> FunctionSignature ''MOD'' [Basic INTEGER, Basic INTEGER] (Basic INTEGER),
      ''LENGTH'' \<mapsto> FunctionSignature ''LENGTH'' [Basic STRING] (Basic INTEGER),
      ''LCASE'' \<mapsto> FunctionSignature ''LCASE'' [Basic STRING] (Basic STRING),
      ''UCASE'' \<mapsto> FunctionSignature ''UCASE'' [Basic STRING] (Basic STRING),
      ''SUBSTRING'' \<mapsto>
        FunctionSignature ''SUBSTRING'' [Basic STRING, Basic INTEGER, Basic INTEGER] (Basic STRING),
      ''ROUND'' \<mapsto> FunctionSignature ''ROUND'' [Basic REAL, Basic INTEGER] (Basic REAL),
      ''RANDOM'' \<mapsto> FunctionSignature ''RANDOM'' [] (Basic REAL)]"

fun toStaticType :: "TypeNode \<Rightarrow> StaticType" where
  "toStaticType (BasicTypeNode n sp) = Basic n"
| "toStaticType (ArrayTypeNode elementType dimensions sp) = Array elementType dimensions"

fun typeName :: "StaticType \<Rightarrow> string" where
  "typeName Unknown = ''UNKNOWN''"
| "typeName (Basic n) = basicTypeName n"
| "typeName (Array elementType dimensions) = ''ARRAY OF '' @ basicTypeName elementType"

fun isBasic :: "StaticType \<Rightarrow> bool" where
  "isBasic (Basic n) = True"
| "isBasic t = False"

fun isNumeric :: "StaticType \<Rightarrow> bool" where
  "isNumeric (Basic n) = (n = INTEGER \<or> n = REAL)"
| "isNumeric t = False"

fun isBoolean :: "StaticType \<Rightarrow> bool" where
  "isBoolean (Basic n) = (n = BOOLEAN)"
| "isBoolean t = False"

fun typesCompatible :: "StaticType \<Rightarrow> StaticType \<Rightarrow> bool" where
  "typesCompatible Unknown v = True"
| "typesCompatible t Unknown = True"
| "typesCompatible (Array te td) (Array ve vd) = (te = ve \<and> length td = length vd)"
| "typesCompatible (Array te td) v = False"
| "typesCompatible t (Array ve vd) = False"
| "typesCompatible (Basic tn) (Basic vn) = (tn = vn \<or> (tn = REAL \<and> vn = INTEGER))"

subsection \<open>The analyzer's state\<close>

text \<open>
  The fields of the \<open>Analyzer\<close> object.  \<open>analyze\<close> returns exactly these four fields as
  its \<open>SemanticResult\<close>.
\<close>

record Analyzer =
  diagnostics :: "Diagnostic list"
  symbolTypes :: "string \<rightharpoonup> StaticType"
  functionSignatures :: "string \<rightharpoonup> FunctionSignature"
  procedureSignatures :: "string \<rightharpoonup> ProcedureSignature"

type_synonym SemanticResult = Analyzer

definition newAnalyzer :: Analyzer where
  "newAnalyzer =
     \<lparr>diagnostics = [], symbolTypes = Map.empty, functionSignatures = BUILTIN_FUNCTIONS,
      procedureSignatures = Map.empty\<rparr>"

definition pushError :: "SourceSpan \<Rightarrow> string \<Rightarrow> string \<Rightarrow> Analyzer \<Rightarrow> Analyzer" where
  "pushError sp c msg a =
     a\<lparr>diagnostics := Analyzer.diagnostics a @
        [\<lparr>code = c, message = msg, severity = Error, line = startLine sp,
          column = startColumn sp, endLine = spanEndLine sp,
          endColumn = spanEndColumn sp, hint = None\<rparr>]\<rparr>"

text \<open>An analyzer after it has reported the diagnostics \<open>ds\<close>, and nothing else has changed.\<close>

definition extendedBy :: "Analyzer \<Rightarrow> Diagnostic list \<Rightarrow> Analyzer" where
  "extendedBy a ds = a\<lparr>diagnostics := Analyzer.diagnostics a @ ds\<rparr>"

definition quoted :: "string \<Rightarrow> string" where
  "quoted s = dquote @ s @ dquote"

text \<open>
  The \<open>params\<close> and \<open>returnType\<close> fields of what a signature table returned.  An
  inherited property has neither field: reading it gives \<open>undefined\<close> (\<open>None\<close>).
\<close>

fun functionParams :: "FunctionSignature property \<Rightarrow> StaticType list option" where
  "functionParams (Own (FunctionSignature n ps r)) = Some ps"
| "functionParams p = None"

fun functionReturnType :: "FunctionSignature property \<Rightarrow> StaticType option" where
  "functionReturnType (Own (FunctionSignature n ps r)) = Some r"
| "functionReturnType p = None"

fun procedureParams :: "ProcedureSignature property \<Rightarrow> StaticType list option" where
  "procedureParams (Own (ProcedureSignature n ps)) = Some ps"
| "procedureParams p = None"

text \<open>What reading \<open>expected.length\<close> raises when \<open>expected\<close> is \<open>undefined\<close>.\<close>

definition undefinedLength :: js_exception where
  "undefinedLength =
     TypeError (''Cannot read properties of undefined (reading '' @ squote @ ''length''
                 @ squote @ '')'')"

subsection \<open>Expressions\<close>

text \<open>
  Every method returns either the exception it raised or its result with the analyzer's
  state after it.  \<open>resolveArrayAccessType\<close> takes the fields of the array-access node.
  \<open>validateCallArgsWithScope\<close> receives \<open>expected\<close> as the caller read it from the
  signature, \<open>undefined\<close> (\<open>None\<close>) included; its first statement reads
  \<open>expected.length\<close>.  \<open>forEachArg\<close> is the body of its \<open>args.forEach\<close>, and
  \<open>forEachIndex\<close> the loop over the indices in \<open>resolveArrayAccessType\<close>.
\<close>

function (sequential) inferExpressionType ::
      "ExpressionNode \<Rightarrow> Scope option \<Rightarrow> Analyzer \<Rightarrow> js_exception + (StaticType \<times> Analyzer)"
  and resolveArrayAccessType ::
      "string \<Rightarrow> ExpressionNode list \<Rightarrow> SourceSpan \<Rightarrow> Scope option \<Rightarrow> Analyzer
        \<Rightarrow> js_exception + (StaticType \<times> Analyzer)"
  and forEachIndex ::
      "ExpressionNode list \<Rightarrow> Scope option \<Rightarrow> Analyzer \<Rightarrow> js_exception + Analyzer"
  and validateCallArgsWithScope ::
      "ExpressionNode list \<Rightarrow> StaticType list option \<Rightarrow> SourceSpan \<Rightarrow> string \<Rightarrow> Scope option
        \<Rightarrow> Analyzer \<Rightarrow> js_exception + Analyzer"
  and forEachArg ::
      "ExpressionNode list \<Rightarrow> nat \<Rightarrow> StaticType list \<Rightarrow> string \<Rightarrow> Scope option \<Rightarrow> Analyzer
        \<Rightarrow> js_exception + Analyzer"
where
  "inferExpressionType (Literal v literalType sp) scope a = Inr (Basic literalType, a)"
| "inferExpressionType (Identifier name sp) scope a =
     (case scope of
        None \<Rightarrow> Inr (Unknown, a)
      | Some sc \<Rightarrow>
          (case Scope_lookup sc name of
             None \<Rightarrow>
               Inr (Unknown,
                    pushError sp ''SEM019'' (''Undeclared identifier '' @ quoted name @ ''.'') a)
           | Some symbol \<Rightarrow> Inr (symbolType symbol, a)))"
| "inferExpressionType (ArrayAccess name indices sp) scope a =
     resolveArrayAccessType name indices sp scope a"
| "inferExpressionType (UnaryExpression operator operand sp) scope a =
     (case inferExpressionType operand scope a of
        Inl e \<Rightarrow> Inl e
      | Inr (operandType, a1) \<Rightarrow>
          if operator = UnaryNot then
            (if \<not> isBoolean operandType then
               Inr (Basic BOOLEAN,
                    pushError sp ''SEM020'' ''NOT operator requires a BOOLEAN operand.'' a1)
             else Inr (Basic BOOLEAN, a1))
          else if \<not> isNumeric operandType then
            Inr (operandType,
                 pushError sp ''SEM021'' ''Unary minus requires a numeric operand.'' a1)
          else Inr (operandType, a1))"
| "inferExpressionType (BinaryExpression op left right sp) scope a =
     (case inferExpressionType left scope a of
        Inl e \<Rightarrow> Inl e
      | Inr (leftType, a1) \<Rightarrow>
          (case inferExpressionType right scope a1 of
             Inl e \<Rightarrow> Inl e
           | Inr (rightType, a2) \<Rightarrow>
               if op \<in> set [''+'', ''-'', ''*'', ''/'', ''^''] then
                 (if \<not> isNumeric leftType \<or> \<not> isNumeric rightType then
                    Inr (Unknown,
                         pushError sp ''SEM022''
                           (''Operator '' @ op @ '' requires numeric operands.'') a2)
                  else if isBasic leftType \<and> isBasic rightType
                          \<and> (leftType = Basic REAL \<or> rightType = Basic REAL \<or> op = ''/'') then
                    Inr (Basic REAL, a2)
                  else Inr (Basic INTEGER, a2))
               else if op \<in> set [''='', ''<'', ''<='', ''>'', ''>='', ''<>''] then
                 Inr (Basic BOOLEAN, a2)
               else if op \<in> set [''AND'', ''OR''] then
                 (if \<not> isBoolean leftType \<or> \<not> isBoolean rightType then
                    Inr (Basic BOOLEAN,
                         pushError sp ''SEM023''
                           (''Operator '' @ op @ '' requires BOOLEAN operands.'') a2)
                  else Inr (Basic BOOLEAN, a2))
               else Inr (Unknown, a2)))"
| "inferExpressionType (CallExpression name args sp) scope a =
     (case js_get BUILTIN_FUNCTIONS (toUpperCase name) of
        Undefined \<Rightarrow>
          (case js_get (functionSignatures a) (toLowerCase name) of
             Undefined \<Rightarrow>
               Inr (Unknown,
                    pushError sp ''SEM024'' (''Unknown function '' @ quoted name @ ''.'') a)
           | signature \<Rightarrow>
               (case validateCallArgsWithScope args (functionParams signature) sp name scope a of
                  Inl e \<Rightarrow> Inl e
                | Inr a1 \<Rightarrow>
                    Inr (case functionReturnType signature of None \<Rightarrow> Unknown | Some r \<Rightarrow> r, a1)))
      | builtin \<Rightarrow>
          (case validateCallArgsWithScope args (functionParams builtin) sp name scope a of
             Inl e \<Rightarrow> Inl e
           | Inr a1 \<Rightarrow>
               Inr (case functionReturnType builtin of None \<Rightarrow> Unknown | Some r \<Rightarrow> r, a1)))"
| "resolveArrayAccessType name indices sp scope a =
     (case scope of
        None \<Rightarrow> Inr (Unknown, a)
      | Some sc \<Rightarrow>
          (case Scope_lookup sc name of
             None \<Rightarrow>
               Inr (Unknown,
                    pushError sp ''SEM019'' (''Undeclared identifier '' @ quoted name @ ''.'') a)
           | Some symbol \<Rightarrow>
               (case symbolType symbol of
                  Array elementType dimensions \<Rightarrow>
                    if length indices \<noteq> length dimensions then
                      Inr (Basic elementType,
                           pushError sp ''SEM027''
                             (''ARRAY '' @ quoted name @ '' expects ''
                               @ String_nat (length dimensions) @ '' index value(s), got ''
                               @ String_nat (length indices) @ ''.'') a)
                    else
                      (case forEachIndex indices scope a of
                         Inl e \<Rightarrow> Inl e
                       | Inr a1 \<Rightarrow> Inr (Basic elementType, a1))
                | other \<Rightarrow>
                    Inr (Unknown,
                         pushError sp ''SEM026''
                           (''Identifier '' @ quoted name @ '' is not an ARRAY.'') a))))"
| "forEachIndex [] scope a = Inr a"
| "forEachIndex (index # rest) scope a =
     (case inferExpressionType index scope a of
        Inl e \<Rightarrow> Inl e
      | Inr (indexType, a1) \<Rightarrow>
          forEachIndex rest scope
            (if indexType \<noteq> Basic INTEGER then
               pushError (expressionSpan index) ''SEM028''
                 ''Array index must evaluate to INTEGER.'' a1
             else a1))"
| "validateCallArgsWithScope args expected sp name scope a =
     (case expected of
        None \<Rightarrow> Inl undefinedLength
      | Some ex \<Rightarrow>
          if length args \<noteq> length ex then
            Inr (pushError sp ''SEM017''
                   (''Routine '' @ quoted name @ '' expects '' @ String_nat (length ex)
                     @ '' argument(s), got '' @ String_nat (length args) @ ''.'') a)
          else forEachArg args 0 ex name scope a)"
| "forEachArg [] index ex name scope a = Inr a"
| "forEachArg (arg # rest) index ex name scope a =
     (case inferExpressionType arg scope a of
        Inl e \<Rightarrow> Inl e
      | Inr (actualType, a1) \<Rightarrow>
          forEachArg rest (index + 1) ex name scope
            (if \<not> typesCompatible (ex ! index) actualType then
               pushError (expressionSpan arg) ''SEM018''
                 (''Argument '' @ String_nat (index + 1) @ '' for '' @ quoted name
                   @ '' must be '' @ typeName (ex ! index) @ '', got ''
                   @ typeName actualType @ ''.'') a1
             else a1))"

  by pat_completeness auto

termination
  by (relation "measure (\<lambda>x. case x of
         Inl (Inl (e, scope, a)) \<Rightarrow> 3 * size e
       | Inl (Inr (name, indices, sp, scope, a)) \<Rightarrow> 3 * size_list size indices + 2
       | Inr (Inl (indices, scope, a)) \<Rightarrow> 3 * size_list size indices + 1
       | Inr (Inr (Inl (args, expected, sp, name, scope, a))) \<Rightarrow> 3 * size_list size args + 2
       | Inr (Inr (Inr (args, index, ex, name, scope, a))) \<Rightarrow> 3 * size_list size args + 1)")
     auto

text \<open>\<open>validateCallArguments\<close> has the body of \<open>validateCallArgsWithScope\<close>, word for word.\<close>

definition validateCallArguments ::
  "ExpressionNode list \<Rightarrow> StaticType list option \<Rightarrow> SourceSpan \<Rightarrow> string \<Rightarrow> Scope \<Rightarrow> Analyzer
    \<Rightarrow> js_exception + Analyzer" where
  "validateCallArguments args expected sp name scope a =
     (case expected of
        None \<Rightarrow> Inl undefinedLength
      | Some ex \<Rightarrow>
          if length args \<noteq> length ex then
            Inr (pushError sp ''SEM017''
                   (''Routine '' @ quoted name @ '' expects '' @ String_nat (length ex)
                     @ '' argument(s), got '' @ String_nat (length args) @ ''.'') a)
          else forEachArg args 0 ex name (Some scope) a)"

fun resolveAssignableType ::
  "ExpressionNode \<Rightarrow> Scope \<Rightarrow> Analyzer \<Rightarrow> js_exception + (StaticType \<times> Analyzer)" where
  "resolveAssignableType (Identifier name sp) scope a =
     (case Scope_lookup scope name of
        None \<Rightarrow>
          Inr (Unknown,
               pushError sp ''SEM019'' (''Undeclared identifier '' @ quoted name @ ''.'') a)
      | Some symbol \<Rightarrow>
          if symbolKind symbol = ConstantSymbol then
            Inr (symbolType symbol,
                 pushError sp ''SEM025''
                   (''Cannot assign/input into CONSTANT '' @ quoted name @ ''.'') a)
          else Inr (symbolType symbol, a))"
| "resolveAssignableType (ArrayAccess name indices sp) scope a =
     resolveArrayAccessType name indices sp (Some scope) a"
| "resolveAssignableType target scope a = Inr (Unknown, a)"

text \<open>
  \<open>literalFileName\<close>: the value of a string literal, or \<open>null\<close> after inferring the type of
  any other expression.
\<close>

fun literalFileName ::
  "ExpressionNode \<Rightarrow> Scope \<Rightarrow> Analyzer \<Rightarrow> js_exception + (string option \<times> Analyzer)" where
  "literalFileName (Literal (StringValue v) STRING sp) scope a = Inr (Some v, a)"
| "literalFileName expression scope a =
     (case inferExpressionType expression (Some scope) a of
        Inl e \<Rightarrow> Inl e
      | Inr (t, a1) \<Rightarrow> Inr (None, a1))"

text \<open>\<open>if (fileName)\<close> on a \<open>string | null\<close>: \<open>null\<close> and the empty string are falsy.\<close>

fun truthy :: "string option \<Rightarrow> bool" where
  "truthy None = False"
| "truthy (Some s) = (s \<noteq> [])"

subsection \<open>Statements\<close>

text \<open>
  The loops of \<open>analyzeStatements\<close> that do not recurse into statements: over the
  parameters of a routine, over the bounds of a \<open>FOR\<close> and over the values of an
  \<open>OUTPUT\<close>.
\<close>

fun defineParams :: "ParameterNode list \<Rightarrow> Scope \<Rightarrow> Analyzer \<Rightarrow> Scope \<times> Analyzer" where
  "defineParams [] scope a = (scope, a)"
| "defineParams (ParameterNode name typeNode sp # rest) scope a =
     (case Scope_define (SymbolEntry name ParamSymbol (toStaticType typeNode) None) scope of
        (defined, scope1) \<Rightarrow>
          defineParams rest scope1
            (if \<not> defined then
               pushError sp ''SEM010'' (''Duplicate parameter '' @ quoted name @ ''.'') a
             else a))"

fun forEachBound :: "ExpressionNode list \<Rightarrow> Scope \<Rightarrow> Analyzer \<Rightarrow> js_exception + Analyzer" where
  "forEachBound [] scope a = Inr a"
| "forEachBound (expr # rest) scope a =
     (case inferExpressionType expr (Some scope) a of
        Inl e \<Rightarrow> Inl e
      | Inr (t, a1) \<Rightarrow>
          forEachBound rest scope
            (if \<not> isNumeric t then
               pushError (expressionSpan expr) ''SEM007''
                 ''FOR bounds and STEP must be numeric.'' a1
             else a1))"

fun forEachValue :: "ExpressionNode list \<Rightarrow> Scope \<Rightarrow> Analyzer \<Rightarrow> js_exception + Analyzer" where
  "forEachValue [] scope a = Inr a"
| "forEachValue (v # rest) scope a =
     (case inferExpressionType v (Some scope) a of
        Inl e \<Rightarrow> Inl e
      | Inr (t, a1) \<Rightarrow> forEachValue rest scope a1)"

text \<open>
  \<open>analyzeStatements\<close> is one loop over the statements with a \<open>switch\<close> inside.  The loop
  is \<open>analyzeStatementsLoop\<close>, the \<open>switch\<close> is \<open>analyzeStatement\<close>, and the loop over the
  clauses of a \<open>CASE\<close> is \<open>analyzeClauses\<close>.  The variables the loop body writes
  (\<open>scope\<close>, through \<open>define\<close>; \<open>openFiles\<close>; \<open>sawReturn\<close>) are passed along
  and returned.  A block gets \<open>new Scope(scope)\<close> and a copy of \<open>openFiles\<close>, or \<open>{}\<close>
  for a routine body; what \<open>analyzeStatements\<close> returns for a block is not used by the
  \<open>switch\<close>, except for a function body.
\<close>

type_synonym OpenFiles = "string \<rightharpoonup> FileMode"

function (sequential) analyzeStatements ::
      "StatementNode list \<Rightarrow> Scope \<Rightarrow> StaticType option \<Rightarrow> OpenFiles \<Rightarrow> Analyzer
        \<Rightarrow> js_exception + (bool \<times> Analyzer)"
  and analyzeStatementsLoop ::
      "StatementNode list \<Rightarrow> Scope \<Rightarrow> StaticType option \<Rightarrow> OpenFiles \<Rightarrow> bool \<Rightarrow> Analyzer
        \<Rightarrow> js_exception + (bool \<times> Analyzer)"
  and analyzeStatement ::
      "StatementNode \<Rightarrow> Scope \<Rightarrow> StaticType option \<Rightarrow> OpenFiles \<Rightarrow> bool \<Rightarrow> Analyzer
        \<Rightarrow> js_exception + ((Scope \<times> OpenFiles \<times> bool) \<times> Analyzer)"
  and analyzeClauses ::
      "CaseClauseNode list \<Rightarrow> Scope \<Rightarrow> StaticType option \<Rightarrow> OpenFiles \<Rightarrow> Analyzer
        \<Rightarrow> js_exception + Analyzer"
where
  "analyzeStatements statements scope currentFunctionReturnType openFiles a =
     analyzeStatementsLoop statements scope currentFunctionReturnType openFiles False a"
| "analyzeStatementsLoop [] scope cur openFiles sawReturn a = Inr (sawReturn, a)"
| "analyzeStatementsLoop (statement # rest) scope cur openFiles sawReturn a =
     (case analyzeStatement statement scope cur openFiles sawReturn a of
        Inl e \<Rightarrow> Inl e
      | Inr ((scope1, openFiles1, sawReturn1), a1) \<Rightarrow>
          analyzeStatementsLoop rest scope1 cur openFiles1 sawReturn1 a1)"
| "analyzeStatement (DeclareStatement (IdentifierNode name isp) typeNode sp)
       scope cur openFiles sawReturn a =
     (let declaredType = toStaticType typeNode in
      case Scope_define (SymbolEntry name VariableSymbol declaredType None) scope of
        (defined, scope1) \<Rightarrow>
          let a1 = (if \<not> defined then
                      pushError sp ''SEM002''
                        (''Duplicate identifier '' @ quoted name @ '' in scope.'') a
                    else a)
          in Inr ((scope1, openFiles, sawReturn),
                  a1\<lparr>symbolTypes := js_set_object (symbolTypes a1) (toLowerCase name) declaredType\<rparr>))"
| "analyzeStatement (ConstantStatement (IdentifierNode name isp) v sp)
       scope cur openFiles sawReturn a =
     (case inferExpressionType v (Some scope) a of
        Inl e \<Rightarrow> Inl e
      | Inr (valueType, a1) \<Rightarrow>
          (case Scope_define (SymbolEntry name ConstantSymbol valueType None) scope of
             (defined, scope1) \<Rightarrow>
               let a2 = (if \<not> defined then
                           pushError sp ''SEM002''
                             (''Duplicate identifier '' @ quoted name @ '' in scope.'') a1
                         else a1)
               in Inr ((scope1, openFiles, sawReturn),
                       a2\<lparr>symbolTypes := js_set_object (symbolTypes a2) (toLowerCase name) valueType\<rparr>)))"
| "analyzeStatement (AssignmentStatement target v sp) scope cur openFiles sawReturn a =
     (case resolveAssignableType target scope a of
        Inl e \<Rightarrow> Inl e
      | Inr (targetType, a1) \<Rightarrow>
          (case inferExpressionType v (Some scope) a1 of
             Inl e \<Rightarrow> Inl e
           | Inr (valueType, a2) \<Rightarrow>
               Inr ((scope, openFiles, sawReturn),
                    if \<not> typesCompatible targetType valueType then
                      pushError sp ''SEM003''
                        (''Cannot assign '' @ typeName valueType @ '' to ''
                          @ typeName targetType @ ''.'') a2
                    else a2)))"
| "analyzeStatement (InputStatement target sp) scope cur openFiles sawReturn a =
     (case resolveAssignableType target scope a of
        Inl e \<Rightarrow> Inl e
      | Inr (targetType, a1) \<Rightarrow> Inr ((scope, openFiles, sawReturn), a1))"
| "analyzeStatement (OutputStatement vs sp) scope cur openFiles sawReturn a =
     (case forEachValue vs scope a of
        Inl e \<Rightarrow> Inl e
      | Inr a1 \<Rightarrow> Inr ((scope, openFiles, sawReturn), a1))"
| "analyzeStatement (IfStatement condition thenBody elseBody sp)
       scope cur openFiles sawReturn a =
     (case inferExpressionType condition (Some scope) a of
        Inl e \<Rightarrow> Inl e
      | Inr (condType, a1) \<Rightarrow>
          let a2 = (if \<not> isBoolean condType then
                      pushError (expressionSpan condition) ''SEM004''
                        ''IF condition must evaluate to BOOLEAN.'' a1
                    else a1)
          in (case analyzeStatements thenBody (Scope Map.empty (Some scope)) cur openFiles a2 of
                Inl e \<Rightarrow> Inl e
              | Inr (r1, a3) \<Rightarrow>
                  (case analyzeStatements elseBody (Scope Map.empty (Some scope)) cur openFiles a3 of
                     Inl e \<Rightarrow> Inl e
                   | Inr (r2, a4) \<Rightarrow> Inr ((scope, openFiles, sawReturn), a4))))"
| "analyzeStatement (CaseStatement expression clauses sp) scope cur openFiles sawReturn a =
     (case inferExpressionType expression (Some scope) a of
        Inl e \<Rightarrow> Inl e
      | Inr (t, a1) \<Rightarrow>
          (case analyzeClauses clauses scope cur openFiles a1 of
             Inl e \<Rightarrow> Inl e
           | Inr a2 \<Rightarrow> Inr ((scope, openFiles, sawReturn), a2)))"
| "analyzeStatement (ForStatement (IdentifierNode iterator isp) startValue endValue stepValue body sp)
       scope cur openFiles sawReturn a =
     (let a1 = (case Scope_lookup scope iterator of
                  None \<Rightarrow>
                    pushError isp ''SEM005''
                      (''Loop iterator '' @ quoted iterator @ '' must be declared before use.'') a
                | Some iteratorSymbol \<Rightarrow>
                    if symbolType iteratorSymbol \<noteq> Basic INTEGER then
                      pushError isp ''SEM006'' ''FOR iterator must be INTEGER.'' a
                    else a)
      in case forEachBound
                ([startValue, endValue] @ (case stepValue of None \<Rightarrow> [] | Some st \<Rightarrow> [st]))
                scope a1 of
           Inl e \<Rightarrow> Inl e
         | Inr a2 \<Rightarrow>
             (case analyzeStatements body (Scope Map.empty (Some scope)) cur openFiles a2 of
                Inl e \<Rightarrow> Inl e
              | Inr (r, a3) \<Rightarrow> Inr ((scope, openFiles, sawReturn), a3)))"
| "analyzeStatement (RepeatStatement body condition sp) scope cur openFiles sawReturn a =
     (case analyzeStatements body (Scope Map.empty (Some scope)) cur openFiles a of
        Inl e \<Rightarrow> Inl e
      | Inr (r, a1) \<Rightarrow>
          (case inferExpressionType condition (Some scope) a1 of
             Inl e \<Rightarrow> Inl e
           | Inr (condType, a2) \<Rightarrow>
               Inr ((scope, openFiles, sawReturn),
                    if \<not> isBoolean condType then
                      pushError (expressionSpan condition) ''SEM008''
                        ''UNTIL condition must evaluate to BOOLEAN.'' a2
                    else a2)))"
| "analyzeStatement (WhileStatement condition body sp) scope cur openFiles sawReturn a =
     (case inferExpressionType condition (Some scope) a of
        Inl e \<Rightarrow> Inl e
      | Inr (condType, a1) \<Rightarrow>
          let a2 = (if \<not> isBoolean condType then
                      pushError (expressionSpan condition) ''SEM009''
                        ''WHILE condition must evaluate to BOOLEAN.'' a1
                    else a1)
          in (case analyzeStatements body (Scope Map.empty (Some scope)) cur openFiles a2 of
                Inl e \<Rightarrow> Inl e
              | Inr (r, a3) \<Rightarrow> Inr ((scope, openFiles, sawReturn), a3)))"
| "analyzeStatement (ProcedureDefinition name params body sp) scope cur openFiles sawReturn a =
     (case defineParams params (Scope Map.empty (Some scope)) a of
        (procedureScope, a1) \<Rightarrow>
          (case analyzeStatements body procedureScope None Map.empty a1 of
             Inl e \<Rightarrow> Inl e
           | Inr (r, a2) \<Rightarrow> Inr ((scope, openFiles, sawReturn), a2)))"
| "analyzeStatement (FunctionDefinition name params returnType body sp)
       scope cur openFiles sawReturn a =
     (case defineParams params (Scope Map.empty (Some scope)) a of
        (functionScope, a1) \<Rightarrow>
          (case analyzeStatements body functionScope (Some (Basic returnType)) Map.empty a1 of
             Inl e \<Rightarrow> Inl e
           | Inr (returned, a2) \<Rightarrow>
               Inr ((scope, openFiles, sawReturn),
                    if \<not> returned then
                      pushError sp ''SEM011''
                        (''Function '' @ quoted name @ '' must contain a RETURN statement.'') a2
                    else a2)))"
| "analyzeStatement (CallStatement name args sp) scope cur openFiles sawReturn a =
     (case js_get (procedureSignatures a) (toLowerCase name) of
        Undefined \<Rightarrow>
          Inr ((scope, openFiles, sawReturn),
               pushError sp ''SEM012'' (''Unknown procedure '' @ quoted name @ ''.'') a)
      | signature \<Rightarrow>
          (case validateCallArguments args (procedureParams signature) sp name scope a of
             Inl e \<Rightarrow> Inl e
           | Inr a1 \<Rightarrow> Inr ((scope, openFiles, sawReturn), a1)))"
| "analyzeStatement (ReturnStatement v sp) scope cur openFiles sawReturn a =
     (case inferExpressionType v (Some scope) a of
        Inl e \<Rightarrow> Inl e
      | Inr (returnValueType, a1) \<Rightarrow>
          Inr ((scope, openFiles, True),
               case cur of
                 None \<Rightarrow>
                   pushError sp ''SEM013''
                     ''RETURN is only valid inside FUNCTION definitions.'' a1
               | Some currentFunctionReturnType \<Rightarrow>
                   if \<not> typesCompatible currentFunctionReturnType returnValueType then
                     pushError sp ''SEM014''
                       (''RETURN type mismatch. Expected '' @ typeName currentFunctionReturnType
                         @ '', got '' @ typeName returnValueType @ ''.'') a1
                   else a1))"
| "analyzeStatement (OpenFileStatement fileIdentifier fileMode sp)
       scope cur openFiles sawReturn a =
     (case literalFileName fileIdentifier scope a of
        Inl e \<Rightarrow> Inl e
      | Inr (fileName, a1) \<Rightarrow>
          let openFiles1 = (if truthy fileName then js_set_string openFiles (the fileName) fileMode
                            else openFiles)
          in (case inferExpressionType fileIdentifier (Some scope) a1 of
                Inl e \<Rightarrow> Inl e
              | Inr (t, a2) \<Rightarrow> Inr ((scope, openFiles1, sawReturn), a2)))"
| "analyzeStatement (ReadFileStatement fileIdentifier target sp)
       scope cur openFiles sawReturn a =
     (case literalFileName fileIdentifier scope a of
        Inl e \<Rightarrow> Inl e
      | Inr (fileName, a1) \<Rightarrow>
          let a2 = (if truthy fileName
                       \<and> js_get openFiles (the fileName) \<noteq> Undefined
                       \<and> js_get openFiles (the fileName) \<noteq> Own READ then
                      pushError sp ''SEM015''
                        (''READFILE used on write-only handle '' @ quoted (the fileName) @ ''.'') a1
                    else a1)
          in (case inferExpressionType fileIdentifier (Some scope) a2 of
                Inl e \<Rightarrow> Inl e
              | Inr (t, a3) \<Rightarrow>
                  (case resolveAssignableType target scope a3 of
                     Inl e \<Rightarrow> Inl e
                   | Inr (targetType, a4) \<Rightarrow> Inr ((scope, openFiles, sawReturn), a4))))"
| "analyzeStatement (WriteFileStatement fileIdentifier v sp)
       scope cur openFiles sawReturn a =
     (case literalFileName fileIdentifier scope a of
        Inl e \<Rightarrow> Inl e
      | Inr (fileName, a1) \<Rightarrow>
          let a2 = (if truthy fileName
                       \<and> js_get openFiles (the fileName) \<noteq> Undefined
                       \<and> js_get openFiles (the fileName) \<noteq> Own WRITE then
                      pushError sp ''SEM016''
                        (''WRITEFILE used on read-only handle '' @ quoted (the fileName) @ ''.'') a1
                    else a1)
          in (case inferExpressionType fileIdentifier (Some scope) a2 of
                Inl e \<Rightarrow> Inl e
              | Inr (t, a3) \<Rightarrow>
                  (case inferExpressionType v (Some scope) a3 of
                     Inl e \<Rightarrow> Inl e
                   | Inr (valueType, a4) \<Rightarrow> Inr ((scope, openFiles, sawReturn), a4))))"
| "analyzeStatement (CloseFileStatement fileIdentifier sp)
       scope cur openFiles sawReturn a =
     (case literalFileName fileIdentifier scope a of
        Inl e \<Rightarrow> Inl e
      | Inr (fileName, a1) \<Rightarrow>
          let openFiles1 = (if truthy fileName then openFiles((the fileName) := None)
                            else openFiles)
          in (case inferExpressionType fileIdentifier (Some scope) a1 of
                Inl e \<Rightarrow> Inl e
              | Inr (t, a2) \<Rightarrow> Inr ((scope, openFiles1, sawReturn), a2)))"
| "analyzeClauses [] scope cur openFiles a = Inr a"
| "analyzeClauses (CaseClauseNode clauseValue statement csp # rest) scope cur openFiles a =
     (case (case clauseValue of
              None \<Rightarrow> Inr a
            | Some v \<Rightarrow>
                (case inferExpressionType v (Some scope) a of
                   Inl e \<Rightarrow> Inl e
                 | Inr (t, a1) \<Rightarrow> Inr a1)) of
        Inl e \<Rightarrow> Inl e
      | Inr a1 \<Rightarrow>
          (case analyzeStatements [statement] (Scope Map.empty (Some scope)) cur openFiles a1 of
             Inl e \<Rightarrow> Inl e
           | Inr (r, a2) \<Rightarrow> analyzeClauses rest scope cur openFiles a2))"
  by pat_completeness auto

termination
  by (relation "measure (\<lambda>x. case x of
         Inl (Inl (statements, scope, cur, openFiles, a)) \<Rightarrow> 4 * size_list size statements + 2
       | Inl (Inr (statements, scope, cur, openFiles, sawReturn, a)) \<Rightarrow>
           4 * size_list size statements + 1
       | Inr (Inl (statement, scope, cur, openFiles, sawReturn, a)) \<Rightarrow> 4 * size statement
       | Inr (Inr (clauses, scope, cur, openFiles, a)) \<Rightarrow> 4 * size_list size clauses + 3)")
     auto

subsection \<open>Routine predeclaration and the entry point\<close>

text \<open>
  \<open>signatureDefined\<close> is the test
  \<open>this.procedureSignatures[key] || this.functionSignatures[key]\<close>: an own entry and an
  inherited property are both truthy.
\<close>

definition signatureDefined :: "Analyzer \<Rightarrow> string \<Rightarrow> bool" where
  "signatureDefined a key =
     (js_get (procedureSignatures a) key \<noteq> Undefined
      \<or> js_get (functionSignatures a) key \<noteq> Undefined)"

fun paramTypes :: "ParameterNode list \<Rightarrow> StaticType list" where
  "paramTypes [] = []"
| "paramTypes (ParameterNode name typeNode sp # rest) = toStaticType typeNode # paramTypes rest"

fun predeclareRoutines :: "StatementNode list \<Rightarrow> Scope \<Rightarrow> Analyzer \<Rightarrow> Scope \<times> Analyzer" where
  "predeclareRoutines [] globalScope a = (globalScope, a)"
| "predeclareRoutines (ProcedureDefinition name params body sp # rest) globalScope a =
     (let ps = paramTypes params;
          key = toLowerCase name
      in if signatureDefined a key then
           predeclareRoutines rest globalScope
             (pushError sp ''SEM001'' (''Duplicate routine name '' @ quoted name @ ''.'') a)
         else
           predeclareRoutines rest
             (snd (Scope_define (SymbolEntry name ProcedureSymbol Unknown (Some ps)) globalScope))
             (a\<lparr>procedureSignatures :=
                  js_set_object (procedureSignatures a) key (ProcedureSignature name ps)\<rparr>))"
| "predeclareRoutines (FunctionDefinition name params returnType body sp # rest) globalScope a =
     (let ps = paramTypes params;
          key = toLowerCase name
      in if signatureDefined a key then
           predeclareRoutines rest globalScope
             (pushError sp ''SEM001'' (''Duplicate routine name '' @ quoted name @ ''.'') a)
         else
           predeclareRoutines rest
             (snd (Scope_define (SymbolEntry name FunctionSymbol (Basic returnType) (Some ps))
                     globalScope))
             (a\<lparr>functionSignatures :=
                  js_set_object (functionSignatures a) key
                    (FunctionSignature name ps (Basic returnType))\<rparr>))"
| "predeclareRoutines (statement # rest) globalScope a = predeclareRoutines rest globalScope a"

definition analyze :: "ProgramNode \<Rightarrow> js_exception + SemanticResult" where
  "analyze program =
     (case program of
        ProgramNode body sp \<Rightarrow>
          (case predeclareRoutines body (Scope Map.empty None) newAnalyzer of
             (globalScope, a) \<Rightarrow>
               (case analyzeStatements body globalScope None Map.empty a of
                  Inl e \<Rightarrow> Inl e
                | Inr (r, a1) \<Rightarrow> Inr a1)))"

definition analyzeProgram :: "ProgramNode \<Rightarrow> js_exception + SemanticResult" where
  "analyzeProgram ast = analyze ast"

section \<open>Programs on which the analyzer raises no \<open>TypeError\<close>\<close>

text \<open>
  A routine name is inherited when its lowercased form is a property of
  \<open>Object.prototype\<close>.  An expression or statement is safe when it calls no routine of an
  inherited name.
\<close>

definition inheritedName :: "string \<Rightarrow> bool" where
  "inheritedName name = (toLowerCase name \<in> set Object_prototype_keys)"

fun safeExpression :: "ExpressionNode \<Rightarrow> bool" where
  "safeExpression (Literal v literalType sp) = True"
| "safeExpression (Identifier name sp) = True"
| "safeExpression (UnaryExpression operator operand sp) = safeExpression operand"
| "safeExpression (BinaryExpression op left right sp) =
     (safeExpression left \<and> safeExpression right)"
| "safeExpression (CallExpression name args sp) =
     (\<not> inheritedName name \<and> list_all safeExpression args)"
| "safeExpression (ArrayAccess name indices sp) = list_all safeExpression indices"

fun safeStatement :: "StatementNode \<Rightarrow> bool"
  and safeClause :: "CaseClauseNode \<Rightarrow> bool"
where
  "safeStatement (DeclareStatement identifier typeNode sp) = True"
| "safeStatement (ConstantStatement identifier v sp) = safeExpression v"
| "safeStatement (AssignmentStatement target v sp) = (safeExpression target \<and> safeExpression v)"
| "safeStatement (InputStatement target sp) = safeExpression target"
| "safeStatement (OutputStatement vs sp) = list_all safeExpression vs"
| "safeStatement (IfStatement condition thenBody elseBody sp) =
     (safeExpression condition \<and> list_all safeStatement thenBody
      \<and> list_all safeStatement elseBody)"
| "safeStatement (CaseStatement expression clauses sp) =
     (safeExpression expression \<and> list_all safeClause clauses)"
| "safeStatement (ForStatement iterator startValue endValue stepValue body sp) =
     (safeExpression startValue \<and> safeExpression endValue
      \<and> (case stepValue of None \<Rightarrow> True | Some st \<Rightarrow> safeExpression st)
      \<and> list_all safeStatement body)"
| "safeStatement (RepeatStatement body condition sp) =
     (list_all safeStatement body \<and> safeExpression condition)"
| "safeStatement (WhileStatement condition body sp) =
     (safeExpression condition \<and> list_all safeStatement body)"
| "safeStatement (ProcedureDefinition name params body sp) = list_all safeStatement body"
| "safeStatement (FunctionDefinition name params returnType body sp) =
     list_all safeStatement body"
| "safeStatement (CallStatement name args sp) =
     (\<not> inheritedName name \<and> list_all safeExpression args)"
| "safeStatement (ReturnStatement v sp) = safeExpression v"
| "safeStatement (OpenFileStatement fileIdentifier fileMode sp) = safeExpression fileIdentifier"
| "safeStatement (ReadFileStatement fileIdentifier target sp) =
     (safeExpression fileIdentifier \<and> safeExpression target)"
| "safeStatement (WriteFileStatement fileIdentifier v sp) =
     (safeExpression fileIdentifier \<and> safeExpression v)"
| "safeStatement (CloseFileStatement fileIdentifier sp) = safeExpression fileIdentifier"
| "safeClause (CaseClauseNode clauseValue statement sp) =
     ((case clauseValue of None \<Rightarrow> True | Some v \<Rightarrow> safeExpression v)
      \<and> safeStatement statement)"

fun safeProgram :: "ProgramNode \<Rightarrow> bool" where
  "safeProgram (ProgramNode body sp) = list_all safeStatement body"

section \<open>The code generator (\<open>codegen.ts\<close>)\<close>

subsection \<open>Strings\<close>

text \<open>\<open>parts.join(separator)\<close>.\<close>

fun join :: "string \<Rightarrow> string list \<Rightarrow> string" where
  "join separator [] = []"
| "join separator [x] = x"
| "join separator (x # y # ys) = x @ separator @ join separator (y # ys)"

definition backslash :: string where
  "backslash = [CHR 0x5C]"

text \<open>
  \<open>JSON.stringify\<close> of a string: the string in double quotes, with the double quote, the
  backslash and the control characters below U+0020 escaped.
\<close>

definition hexDigit :: "nat \<Rightarrow> char" where
  "hexDigit n = ''0123456789abcdef'' ! n"

definition jsonEscape :: "char \<Rightarrow> string" where
  "jsonEscape c =
     (let n = (of_char c :: nat) in
      if c = CHR 0x22 then backslash @ dquote
      else if c = CHR 0x5C then backslash @ backslash
      else if n = 8 then backslash @ ''b''
      else if n = 9 then backslash @ ''t''
      else if n = 10 then backslash @ ''n''
      else if n = 12 then backslash @ ''f''
      else if n = 13 then backslash @ ''r''
      else if n < 32 then backslash @ ''u00'' @ [hexDigit (n div 16), hexDigit (n mod 16)]
      else [c])"

definition JSON_stringify :: "string \<Rightarrow> string" where
  "JSON_stringify s = dquote @ concat (map jsonEscape s) @ dquote"

text \<open>\<open>String(value)\<close> and the truthiness of a literal's value.\<close>

fun String_value :: "LiteralValue \<Rightarrow> string" where
  "String_value (NumberValue n) = String_number n"
| "String_value (StringValue s) = s"
| "String_value (BooleanValue b) = (if b then ''true'' else ''false'')"

fun truthyValue :: "LiteralValue \<Rightarrow> bool" where
  "truthyValue (NumberValue n) =
     (case n of Decimal m e \<Rightarrow> m \<noteq> 0 | NaN \<Rightarrow> False | other \<Rightarrow> True)"
| "truthyValue (StringValue s) = (s \<noteq> [])"
| "truthyValue (BooleanValue b) = b"

subsection \<open>Expressions\<close>

text \<open>
  \<open>normalizeName\<close> is called on every identifier, routine name and parameter name that
  is written to the output.
\<close>

definition normalizeName :: "string \<Rightarrow> string" where
  "normalizeName name = name"

definition operatorMap :: "string \<rightharpoonup> string" where
  "operatorMap = [''='' \<mapsto> ''=='', ''<>'' \<mapsto> ''!='', ''AND'' \<mapsto> ''and'', ''OR'' \<mapsto> ''or'']"

fun emitExpression :: "ExpressionNode \<Rightarrow> string"
  and emitExpressions :: "ExpressionNode list \<Rightarrow> string list"
where
  "emitExpression (Literal v literalType sp) =
     (if literalType = STRING \<or> literalType = CHAR' then JSON_stringify (String_value v)
      else if literalType = BOOLEAN then (if truthyValue v then ''True'' else ''False'')
      else String_value v)"
| "emitExpression (Identifier name sp) = normalizeName name"
| "emitExpression (ArrayAccess name indices sp) =
     normalizeName name @ ''['' @ join '', '' (emitExpressions indices) @ '']''"
| "emitExpression (UnaryExpression operator operand sp) =
     (if operator = UnaryNot then ''(not ('' @ emitExpression operand @ ''))''
      else ''(-('' @ emitExpression operand @ ''))'')"
| "emitExpression (BinaryExpression op left right sp) =
     ''(('' @ emitExpression left @ '') ''
       @ (case js_get operatorMap op of Own mapped \<Rightarrow> mapped | other \<Rightarrow> op)
       @ '' ('' @ emitExpression right @ ''))''"
| "emitExpression (CallExpression name args sp) =
     normalizeName name @ ''('' @ join '', '' (emitExpressions args) @ '')''"
| "emitExpressions [] = []"
| "emitExpressions (e # es) = emitExpression e # emitExpressions es"

fun emitAssignable :: "ExpressionNode \<Rightarrow> string" where
  "emitAssignable (Identifier name sp) = normalizeName name"
| "emitAssignable (ArrayAccess name indices sp) =
     normalizeName name @ ''['' @ join '', '' (emitExpressions indices) @ '']''"
| "emitAssignable target = ''__invalid_target''"

fun defaultValueLiteral :: "BasicTypeName \<Rightarrow> string" where
  "defaultValueLiteral INTEGER = ''0''"
| "defaultValueLiteral REAL = ''0.0''"
| "defaultValueLiteral CHAR' = squote @ squote"
| "defaultValueLiteral STRING = dquote @ dquote"
| "defaultValueLiteral BOOLEAN = ''False''"

fun typeNodeToStatic :: "TypeNode \<Rightarrow> StaticType" where
  "typeNodeToStatic (BasicTypeNode n sp) = Basic n"
| "typeNodeToStatic (ArrayTypeNode elementType dimensions sp) = Array elementType dimensions"

subsection \<open>The generator's state\<close>

text \<open>
  The fields of the \<open>PythonGenerator\<close> object.  \<open>scopeStack\<close> has the innermost frame
  first (the source pushes and pops at the end of an array); a frame is the \<open>types\<close>
  object of a \<open>ScopeFrame\<close>.
\<close>

record PythonGenerator =
  lines :: "string list"
  caseCounter :: nat
  scopeStack :: "(string \<rightharpoonup> StaticType) list"

definition push :: "string \<Rightarrow> PythonGenerator \<Rightarrow> PythonGenerator" where
  "push l g = g\<lparr>lines := lines g @ [l]\<rparr>"

definition pushScope :: "PythonGenerator \<Rightarrow> PythonGenerator" where
  "pushScope g = g\<lparr>scopeStack := Map.empty # scopeStack g\<rparr>"

definition popScope :: "PythonGenerator \<Rightarrow> PythonGenerator" where
  "popScope g = g\<lparr>scopeStack := tl (scopeStack g)\<rparr>"

definition declareType :: "string \<Rightarrow> StaticType \<Rightarrow> PythonGenerator \<Rightarrow> PythonGenerator" where
  "declareType name t g =
     (case scopeStack g of
        [] \<Rightarrow> g
      | frame # frames \<Rightarrow>
          g\<lparr>scopeStack := js_set_object frame (toLowerCase name) t # frames\<rparr>)"

text \<open>
  \<open>lookupType\<close> returns the first truthy \<open>types[lower]\<close>, innermost frame first, then
  \<open>symbolTypes[lower]\<close>, then \<open>unknown\<close>.  An inherited property is truthy and is no static
  type; its \<open>kind\<close> is \<open>undefined\<close>, which every reader of the result treats as it treats
  \<open>unknown\<close>, so it is returned as \<open>Unknown\<close>.
\<close>

fun lookupFrames :: "(string \<rightharpoonup> StaticType) list \<Rightarrow> string \<Rightarrow> StaticType option" where
  "lookupFrames [] lower = None"
| "lookupFrames (frame # frames) lower =
     (case js_get frame lower of
        Own found \<Rightarrow> Some found
      | Inherited \<Rightarrow> Some Unknown
      | Undefined \<Rightarrow> lookupFrames frames lower)"

definition lookupType :: "SemanticResult \<Rightarrow> PythonGenerator \<Rightarrow> string \<Rightarrow> StaticType" where
  "lookupType semanticResult g name =
     (let lower = toLowerCase name in
      case lookupFrames (scopeStack g) lower of
        Some found \<Rightarrow> found
      | None \<Rightarrow>
          (case js_get (symbolTypes semanticResult) lower of
             Own t \<Rightarrow> t
           | other \<Rightarrow> Unknown))"

fun inferStaticType :: "SemanticResult \<Rightarrow> PythonGenerator \<Rightarrow> ExpressionNode \<Rightarrow> StaticType" where
  "inferStaticType sem g (Literal v literalType sp) = Basic literalType"
| "inferStaticType sem g (Identifier name sp) = lookupType sem g name"
| "inferStaticType sem g (ArrayAccess name indices sp) =
     (case lookupType sem g name of
        Array elementType dimensions \<Rightarrow> Basic elementType
      | other \<Rightarrow> Unknown)"
| "inferStaticType sem g expression = Unknown"

fun resolveTargetType :: "SemanticResult \<Rightarrow> PythonGenerator \<Rightarrow> ExpressionNode \<Rightarrow> StaticType" where
  "resolveTargetType sem g (Identifier name sp) = lookupType sem g name"
| "resolveTargetType sem g (ArrayAccess name indices sp) =
     (case lookupType sem g name of
        Array elementType dimensions \<Rightarrow> Basic elementType
      | other \<Rightarrow> Unknown)"
| "resolveTargetType sem g target = Unknown"

subsection \<open>Statements\<close>

definition indentOf :: "nat \<Rightarrow> string" where
  "indentOf indentLevel = concat (replicate indentLevel ''    '')"

fun fileModeName :: "FileMode \<Rightarrow> string" where
  "fileModeName READ = ''READ''"
| "fileModeName WRITE = ''WRITE''"

fun emitBounds :: "(js_number \<times> js_number) list \<Rightarrow> string list" where
  "emitBounds [] = []"
| "emitBounds ((lower, upper) # rest) =
     (''('' @ String_number lower @ '', '' @ String_number upper @ '')'') # emitBounds rest"

fun declareParams :: "ParameterNode list \<Rightarrow> PythonGenerator \<Rightarrow> PythonGenerator" where
  "declareParams [] g = g"
| "declareParams (ParameterNode name typeNode sp # rest) g =
     declareParams rest (declareType name (typeNodeToStatic typeNode) g)"

fun paramNames :: "ParameterNode list \<Rightarrow> string list" where
  "paramNames [] = []"
| "paramNames (ParameterNode name typeNode sp # rest) = normalizeName name # paramNames rest"

text \<open>
  \<open>emitStatementBlock\<close> and \<open>emitStatement\<close>; \<open>emitClauses\<close> is the loop over the clauses
  of a \<open>CASE\<close>, with the name of the synthetic variable and the running \<open>branchCount\<close>.
\<close>

function (sequential) emitStatementBlock ::
      "SemanticResult \<Rightarrow> StatementNode list \<Rightarrow> nat \<Rightarrow> PythonGenerator \<Rightarrow> PythonGenerator"
  and emitStatement ::
      "SemanticResult \<Rightarrow> StatementNode \<Rightarrow> nat \<Rightarrow> PythonGenerator \<Rightarrow> PythonGenerator"
  and emitClauses ::
      "SemanticResult \<Rightarrow> CaseClauseNode list \<Rightarrow> string \<Rightarrow> nat \<Rightarrow> nat \<Rightarrow> PythonGenerator
        \<Rightarrow> PythonGenerator"
where
  "emitStatementBlock sem [] indentLevel g = g"
| "emitStatementBlock sem (statement # rest) indentLevel g =
     emitStatementBlock sem rest indentLevel (emitStatement sem statement indentLevel g)"
| "emitStatement sem (DeclareStatement (IdentifierNode idName isp) typeNode sp) indentLevel g =
     (let indent = indentOf indentLevel;
          name = normalizeName idName;
          g1 = declareType idName (typeNodeToStatic typeNode) g
      in case typeNode of
           ArrayTypeNode elementType dimensions tsp \<Rightarrow>
             push (indent @ name @ '' = __PseudoArray(['' @ join '', '' (emitBounds dimensions)
                    @ ''], '' @ defaultValueLiteral elementType @ '')'') g1
         | BasicTypeNode basicName tsp \<Rightarrow>
             push (indent @ name @ '' = '' @ defaultValueLiteral basicName) g1)"
| "emitStatement sem (ConstantStatement (IdentifierNode idName isp) v sp) indentLevel g =
     (let indent = indentOf indentLevel;
          name = normalizeName idName;
          val = emitExpression v;
          g1 = declareType idName (inferStaticType sem g v) g
      in push (indent @ name @ '' = '' @ val) g1)"
| "emitStatement sem (AssignmentStatement target v sp) indentLevel g =
     push (indentOf indentLevel @ emitAssignable target @ '' = '' @ emitExpression v) g"
| "emitStatement sem (InputStatement target sp) indentLevel g =
     (case resolveTargetType sem g target of
        Basic basicName \<Rightarrow>
          push (indentOf indentLevel @ emitAssignable target @ '' = __coerce_input(__input(), ''
                 @ dquote @ basicTypeName basicName @ dquote @ '')'') g
      | other \<Rightarrow> push (indentOf indentLevel @ emitAssignable target @ '' = __input()'') g)"
| "emitStatement sem (OutputStatement vs sp) indentLevel g =
     push (indentOf indentLevel @ ''__output('' @ join '', '' (emitExpressions vs) @ '')'') g"
| "emitStatement sem (IfStatement condition thenBody elseBody sp) indentLevel g =
     (let indent = indentOf indentLevel;
          g1 = pushScope (push (indent @ ''if '' @ emitExpression condition @ '':'') g);
          g2 = popScope
                 (if thenBody = [] then push (indent @ ''    pass'') g1
                  else emitStatementBlock sem thenBody (indentLevel + 1) g1)
      in if elseBody \<noteq> [] then
           popScope (emitStatementBlock sem elseBody (indentLevel + 1)
                       (pushScope (push (indent @ ''else:'') g2)))
         else g2)"
| "emitStatement sem (CaseStatement expression clauses sp) indentLevel g =
     (let indent = indentOf indentLevel;
          caseName = ''__case_'' @ String_nat (caseCounter g);
          g1 = push (indent @ caseName @ '' = '' @ emitExpression expression)
                 (g\<lparr>caseCounter := caseCounter g + 1\<rparr>);
          g2 = emitClauses sem clauses caseName 0 indentLevel g1
      in if clauses = [] then push (indent @ ''pass'') g2 else g2)"
| "emitStatement sem (ForStatement (IdentifierNode iteratorName isp) startValue endValue stepValue
       body sp) indentLevel g =
     (let indent = indentOf indentLevel;
          iterator = normalizeName iteratorName;
          start = emitExpression startValue;
          end = emitExpression endValue;
          step = (case stepValue of None \<Rightarrow> ''1'' | Some st \<Rightarrow> emitExpression st);
          g1 = declareType iteratorName (Basic INTEGER)
                 (pushScope
                    (push (indent @ ''for '' @ iterator @ '' in __inclusive_range('' @ start
                            @ '', '' @ end @ '', '' @ step @ ''):'') g))
      in popScope
           (if body = [] then push (indent @ ''    pass'') g1
            else emitStatementBlock sem body (indentLevel + 1) g1))"
| "emitStatement sem (RepeatStatement body condition sp) indentLevel g =
     (let indent = indentOf indentLevel;
          g1 = pushScope (push (indent @ ''while True:'') g);
          g2 = (if body = [] then push (indent @ ''    pass'') g1
                else emitStatementBlock sem body (indentLevel + 1) g1)
      in popScope
           (push (indent @ ''        break'')
              (push (indent @ ''    if '' @ emitExpression condition @ '':'') g2)))"
| "emitStatement sem (WhileStatement condition body sp) indentLevel g =
     (let indent = indentOf indentLevel;
          g1 = pushScope (push (indent @ ''while '' @ emitExpression condition @ '':'') g)
      in popScope
           (if body = [] then push (indent @ ''    pass'') g1
            else emitStatementBlock sem body (indentLevel + 1) g1))"
| "emitStatement sem (ProcedureDefinition name params body sp) indentLevel g = g"
| "emitStatement sem (FunctionDefinition name params returnType body sp) indentLevel g = g"
| "emitStatement sem (CallStatement name args sp) indentLevel g =
     push (indentOf indentLevel @ normalizeName name @ ''(''
            @ join '', '' (emitExpressions args) @ '')'') g"
| "emitStatement sem (ReturnStatement v sp) indentLevel g =
     push (indentOf indentLevel @ ''return '' @ emitExpression v) g"
| "emitStatement sem (OpenFileStatement fileIdentifier fileMode sp) indentLevel g =
     push (indentOf indentLevel @ ''OPENFILE('' @ emitExpression fileIdentifier @ '', ''
            @ dquote @ fileModeName fileMode @ dquote @ '')'') g"
| "emitStatement sem (ReadFileStatement fileIdentifier target sp) indentLevel g =
     push (indentOf indentLevel @ emitAssignable target @ '' = READFILE(''
            @ emitExpression fileIdentifier @ '')'') g"
| "emitStatement sem (WriteFileStatement fileIdentifier v sp) indentLevel g =
     push (indentOf indentLevel @ ''WRITEFILE('' @ emitExpression fileIdentifier @ '', ''
            @ emitExpression v @ '')'') g"
| "emitStatement sem (CloseFileStatement fileIdentifier sp) indentLevel g =
     push (indentOf indentLevel @ ''CLOSEFILE('' @ emitExpression fileIdentifier @ '')'') g"
| "emitClauses sem [] caseName branchCount indentLevel g = g"
| "emitClauses sem (CaseClauseNode clauseValue statement csp # rest) caseName branchCount
       indentLevel g =
     (let indent = indentOf indentLevel in
      case clauseValue of
        None \<Rightarrow>
          emitClauses sem rest caseName branchCount indentLevel
            (emitStatement sem statement (indentLevel + 1) (push (indent @ ''else:'') g))
      | Some v \<Rightarrow>
          emitClauses sem rest caseName (branchCount + 1) indentLevel
            (emitStatement sem statement (indentLevel + 1)
               (push (indent @ (if branchCount = 0 then ''if'' else ''elif'') @ '' '' @ caseName
                       @ '' == '' @ emitExpression v @ '':'') g)))"
  by pat_completeness auto

termination
  by (relation "measure (\<lambda>x. case x of
         Inl (sem, statements, indentLevel, g) \<Rightarrow> 2 * size_list size statements + 1
       | Inr (Inl (sem, statement, indentLevel, g)) \<Rightarrow> 2 * size statement
       | Inr (Inr (sem, clauses, caseName, branchCount, indentLevel, g)) \<Rightarrow>
           2 * size_list size clauses + 1)")
     auto

subsection \<open>Routines and the program\<close>

fun emitProcedureDefinition ::
  "SemanticResult \<Rightarrow> string \<Rightarrow> ParameterNode list \<Rightarrow> StatementNode list \<Rightarrow> PythonGenerator
    \<Rightarrow> PythonGenerator" where
  "emitProcedureDefinition sem name params body g =
     (let g1 = declareParams params
                 (pushScope
                    (push (''def '' @ normalizeName name @ ''('' @ join '', '' (paramNames params)
                            @ ''):'') g))
      in popScope
           (if body = [] then push ''    pass'' g1 else emitStatementBlock sem body 1 g1))"

fun emitFunctionDefinition ::
  "SemanticResult \<Rightarrow> string \<Rightarrow> ParameterNode list \<Rightarrow> StatementNode list \<Rightarrow> PythonGenerator
    \<Rightarrow> PythonGenerator" where
  "emitFunctionDefinition sem name params body g =
     (let g1 = declareParams params
                 (pushScope
                    (push (''def '' @ normalizeName name @ ''('' @ join '', '' (paramNames params)
                            @ ''):'') g))
      in popScope
           (if body = [] then push ''    return None'' g1 else emitStatementBlock sem body 1 g1))"

fun isDefinition :: "StatementNode \<Rightarrow> bool" where
  "isDefinition (ProcedureDefinition name params body sp) = True"
| "isDefinition (FunctionDefinition name params returnType body sp) = True"
| "isDefinition statement = False"

fun emitDefinitions :: "SemanticResult \<Rightarrow> StatementNode list \<Rightarrow> PythonGenerator \<Rightarrow> PythonGenerator" where
  "emitDefinitions sem [] g = g"
| "emitDefinitions sem (ProcedureDefinition name params body sp # rest) g =
     emitDefinitions sem rest (push [] (emitProcedureDefinition sem name params body g))"
| "emitDefinitions sem (FunctionDefinition name params returnType body sp # rest) g =
     emitDefinitions sem rest (push [] (emitFunctionDefinition sem name params body g))"
| "emitDefinitions sem (statement # rest) g = emitDefinitions sem rest g"

text \<open>
  \<open>generate\<close>.  \<open>emitPrelude\<close> pushes the fixed text of the runtime prelude; the text is the
  parameter \<open>prelude\<close> here (its helpers are the subject of the first section).
\<close>

definition generateLines :: "string list \<Rightarrow> SemanticResult \<Rightarrow> ProgramNode \<Rightarrow> string list" where
  "generateLines prelude sem program =
     (case program of
        ProgramNode body sp \<Rightarrow>
          (let g0 = \<lparr>lines = prelude, caseCounter = 0, scopeStack = [Map.empty]\<rparr>;
               definitions = filter isDefinition body;
               mainStatements = filter (\<lambda>statement. \<not> isDefinition statement) body;
               g1 = emitDefinitions sem definitions g0;
               g2 = pushScope (push ''def __main__():'' g1);
               g3 = popScope
                      (if mainStatements = [] then push ''    pass'' g2
                       else emitStatementBlock sem mainStatements 1 g2)
           in lines (push ''__main__()'' (push [] g3))))"

definition generate :: "string list \<Rightarrow> SemanticResult \<Rightarrow> ProgramNode \<Rightarrow> string" where
  "generate prelude sem program = join [CHR 0x0A] (generateLines prelude sem program)"

definition generatePythonCode :: "string list \<Rightarrow> ProgramNode \<Rightarrow> SemanticResult \<Rightarrow> string" where
  "generatePythonCode prelude ast semanticResult = generate prelude semanticResult ast"

section \<open>The compiler facade (\<open>index.ts\<close>)\<close>

text \<open>
  \<open>a.localeCompare(b)\<close> on diagnostic codes.  Every code the compiler produces is three
  capital letters and three digits; on such strings the collation order is the order of
  the characters, which is the lexicographic order on strings used here.
\<close>

definition localeCompare :: "string \<Rightarrow> string \<Rightarrow> int" where
  "localeCompare a b = (if a < b then - 1 else if a = b then 0 else 1)"

text \<open>The comparison function \<open>compilePseudocode\<close> passes to \<open>sort\<close>.\<close>

definition compareDiagnostics :: "Diagnostic \<Rightarrow> Diagnostic \<Rightarrow> int" where
  "compareDiagnostics a b =
     (if line a \<noteq> line b then line a - line b
      else if column a \<noteq> column b then column a - column b
      else localeCompare (code a) (code b))"

text \<open>
  Modelled from the ECMAScript standard: \<open>Array.prototype.sort(compareFn)\<close> is a stable
  sort by \<open>compareFn\<close>.  Insertion from the right, which puts an element in front of the
  first element it does not compare greater than, is such a sort.
\<close>

fun insertBy :: "('a \<Rightarrow> 'a \<Rightarrow> int) \<Rightarrow> 'a \<Rightarrow> 'a list \<Rightarrow> 'a list" where
  "insertBy compareFn x [] = [x]"
| "insertBy compareFn x (y # ys) =
     (if compareFn x y \<le> 0 then x # y # ys else y # insertBy compareFn x ys)"

definition Array_sort :: "('a \<Rightarrow> 'a \<Rightarrow> int) \<Rightarrow> 'a list \<Rightarrow> 'a list" where
  "Array_sort compareFn xs = foldr (insertBy compareFn) xs []"

record CompileRequest =
  source :: string
  filename :: string
  strict :: unit

text \<open>
  What \<open>compilePseudocode\<close> imports and this development does not unfold: the parser
  (\<open>parseSource\<close>, which returns the tree and the diagnostics of tokenizer and parser),
  \<open>JSON.stringify(ast, null, 2)\<close> and the text of the runtime prelude.  The facade is
  defined for any such three, so what is proved of it holds whatever the parser returns.
\<close>

record Imports =
  parseSource :: "string \<Rightarrow> ProgramNode \<times> Diagnostic list"
  stringifyAst :: "ProgramNode \<Rightarrow> string"
  preludeLines :: "string list"

definition compilePseudocode :: "Imports \<Rightarrow> CompileRequest \<Rightarrow> js_exception + CompileResult" where
  "compilePseudocode imports request =
     (case parseSource imports (source request) of
        (ast, parseDiagnostics) \<Rightarrow>
          (case analyzeProgram ast of
             Inl e \<Rightarrow> Inl e
           | Inr semanticResult \<Rightarrow>
               (let ds = Array_sort compareDiagnostics
                           (parseDiagnostics @ Analyzer.diagnostics semanticResult)
                in if list_ex (\<lambda>diagnostic. severity diagnostic = Error) ds then
                     Inr \<lparr>success = False, CompileResult.diagnostics = ds,
                          astJson = Some (stringifyAst imports ast), pythonCode = None\<rparr>
                   else
                     Inr \<lparr>success = True, CompileResult.diagnostics = ds,
                          astJson = Some (stringifyAst imports ast),
                          pythonCode =
                            Some (generatePythonCode (preludeLines imports) ast semanticResult)\<rparr>)))"

text \<open>
  The order the specification names: by line, then by column, then by code.
\<close>

definition diagnosticLe :: "Diagnostic \<Rightarrow> Diagnostic \<Rightarrow> bool" where
  "diagnosticLe a b =
     (line a < line b
      \<or> (line a = line b
          \<and> (column a < column b \<or> (column a = column b \<and> code a \<le> code b))))"

section \<open>Example programs\<close>

text \<open>
  The syntax trees \<open>parseSource\<close> builds for a few small programs, with the spans the
  tokenizer assigns (a token's span runs from its first to its last character; a
  statement's span from its first token to the end of its last part).
\<close>

definition sourceSpan :: "int \<Rightarrow> int \<Rightarrow> int \<Rightarrow> int \<Rightarrow> SourceSpan" where
  "sourceSpan l c el ec = \<lparr>startLine = l, startColumn = c, spanEndLine = el, spanEndColumn = ec\<rparr>"

text \<open>The empty source text.\<close>

definition emptyProgram :: ProgramNode where
  "emptyProgram = ProgramNode [] (sourceSpan 1 1 1 1)"

text \<open>\<^verbatim>\<open>Value <- 7\<close>\<close>

definition undeclaredProgram :: ProgramNode where
  "undeclaredProgram =
     ProgramNode
       [AssignmentStatement (Identifier ''Value'' (sourceSpan 1 1 1 5))
          (Literal (NumberValue (Integer 7)) INTEGER (sourceSpan 1 10 1 10)) (sourceSpan 1 1 1 10)]
       (sourceSpan 1 1 1 10)"

text \<open>\<^verbatim>\<open>CALL constructor\<close>\<close>

definition callConstructorProgram :: ProgramNode where
  "callConstructorProgram =
     ProgramNode [CallStatement ''constructor'' [] (sourceSpan 1 1 1 16)] (sourceSpan 1 1 1 16)"

text \<open>\<^verbatim>\<open>OUTPUT constructor()\<close>\<close>

definition callConstructorExpressionProgram :: ProgramNode where
  "callConstructorExpressionProgram =
     ProgramNode
       [OutputStatement [CallExpression ''constructor'' [] (sourceSpan 1 8 1 20)] (sourceSpan 1 1 1 20)]
       (sourceSpan 1 1 1 20)"

text \<open>
  \<^verbatim>\<open>FUNCTION F(x : INTEGER) RETURNS INTEGER\<close>\<^verbatim>\<open>    IF x > 0 THEN\<close>
  \<^verbatim>\<open>        RETURN 1\<close>\<^verbatim>\<open>    ELSE\<close>\<^verbatim>\<open>        RETURN 0\<close>\<^verbatim>\<open>    ENDIF\<close>\<^verbatim>\<open>ENDFUNCTION\<close>
  (seven lines).
\<close>

definition nestedReturnProgram :: ProgramNode where
  "nestedReturnProgram =
     ProgramNode
       [FunctionDefinition ''F''
          [ParameterNode ''x'' (BasicTypeNode INTEGER (sourceSpan 1 16 1 22)) (sourceSpan 1 12 1 22)]
          INTEGER
          [IfStatement
             (BinaryExpression ''>'' (Identifier ''x'' (sourceSpan 2 8 2 8))
                (Literal (NumberValue (Integer 0)) INTEGER (sourceSpan 2 12 2 12)) (sourceSpan 2 8 2 12))
             [ReturnStatement (Literal (NumberValue (Integer 1)) INTEGER (sourceSpan 3 16 3 16)) (sourceSpan 3 9 3 16)]
             [ReturnStatement (Literal (NumberValue (Integer 0)) INTEGER (sourceSpan 5 16 5 16)) (sourceSpan 5 9 5 16)]
             (sourceSpan 2 5 6 9)]
          (sourceSpan 1 1 7 11)]
       (sourceSpan 1 1 7 11)"

text \<open>\<^verbatim>\<open>OUTPUT x + 1\<close>\<close>

definition unknownOperandProgram :: ProgramNode where
  "unknownOperandProgram =
     ProgramNode
       [OutputStatement
          [BinaryExpression ''+'' (Identifier ''x'' (sourceSpan 1 8 1 8))
             (Literal (NumberValue (Integer 1)) INTEGER (sourceSpan 1 12 1 12)) (sourceSpan 1 8 1 12)]
          (sourceSpan 1 1 1 12)]
       (sourceSpan 1 1 1 12)"

text \<open>\<^verbatim>\<open>OUTPUT "a" + 3\<close>\<close>

definition nonNumericOperandProgram :: ProgramNode where
  "nonNumericOperandProgram =
     ProgramNode
       [OutputStatement
          [BinaryExpression ''+'' (Literal (StringValue ''a'') STRING (sourceSpan 1 8 1 10))
             (Literal (NumberValue (Integer 3)) INTEGER (sourceSpan 1 14 1 14))
             (sourceSpan 1 8 1 14)]
          (sourceSpan 1 1 1 14)]
       (sourceSpan 1 1 1 14)"

text \<open>
  \<^verbatim>\<open>DECLARE Index : INTEGER\<close>, \<^verbatim>\<open>FOR Index <- 1 TO 3 STEP 0.5\<close>, \<^verbatim>\<open>    OUTPUT Index\<close>,
  \<^verbatim>\<open>NEXT Index\<close> (four lines).
\<close>

definition realStepProgram :: ProgramNode where
  "realStepProgram =
     ProgramNode
       [DeclareStatement (IdentifierNode ''Index'' (sourceSpan 1 9 1 13))
          (BasicTypeNode INTEGER (sourceSpan 1 17 1 23)) (sourceSpan 1 1 1 23),
        ForStatement (IdentifierNode ''Index'' (sourceSpan 2 5 2 9))
          (Literal (NumberValue (Integer 1)) INTEGER (sourceSpan 2 14 2 14))
          (Literal (NumberValue (Integer 3)) INTEGER (sourceSpan 2 19 2 19))
          (Some (Literal (NumberValue (Decimal 5 (- 1))) REAL (sourceSpan 2 26 2 28)))
          [OutputStatement [Identifier ''Index'' (sourceSpan 3 12 3 16)] (sourceSpan 3 5 3 16)]
          (sourceSpan 2 1 4 10)]
       (sourceSpan 1 1 4 10)"

text \<open>\<^verbatim>\<open>DECLARE A : ARRAY[1:3] OF INTEGER\<close>, \<^verbatim>\<open>OUTPUT A[x]\<close> (two lines).\<close>

definition unknownIndexProgram :: ProgramNode where
  "unknownIndexProgram =
     ProgramNode
       [DeclareStatement (IdentifierNode ''A'' (sourceSpan 1 9 1 9))
          (ArrayTypeNode INTEGER [(Integer 1, Integer 3)] (sourceSpan 1 13 1 33)) (sourceSpan 1 1 1 33),
        OutputStatement
          [ArrayAccess ''A'' [Identifier ''x'' (sourceSpan 2 10 2 10)] (sourceSpan 2 8 2 11)]
          (sourceSpan 2 1 2 11)]
       (sourceSpan 1 1 2 11)"

text \<open>
  \<^verbatim>\<open>DECLARE Line : STRING\<close>, \<^verbatim>\<open>OPENFILE "f" FOR WRITE\<close>, \<^verbatim>\<open>READFILE "f", Line\<close> (three
  lines), for the file name \<open>f\<close>; the spans are those of a name of \<open>n\<close> characters.
\<close>

definition readAfterWriteProgram :: "string \<Rightarrow> ProgramNode" where
  "readAfterWriteProgram f =
     (let n = int (length f) in
      ProgramNode
        [DeclareStatement (IdentifierNode ''Line'' (sourceSpan 1 9 1 12))
           (BasicTypeNode STRING (sourceSpan 1 16 1 21)) (sourceSpan 1 1 1 21),
         OpenFileStatement (Literal (StringValue f) STRING (sourceSpan 2 10 2 (11 + n))) WRITE
           (sourceSpan 2 1 2 (21 + n)),
         ReadFileStatement (Literal (StringValue f) STRING (sourceSpan 3 10 3 (11 + n)))
           (Identifier ''Line'' (sourceSpan 3 (14 + n) 3 (17 + n))) (sourceSpan 3 1 3 (17 + n))]
        (sourceSpan 1 1 3 (17 + n)))"

text \<open>\<^verbatim>\<open>DECLARE Total : INTEGER\<close>, \<^verbatim>\<open>OUTPUT total\<close> (two lines).\<close>

definition mixedCaseProgram :: ProgramNode where
  "mixedCaseProgram =
     ProgramNode
       [DeclareStatement (IdentifierNode ''Total'' (sourceSpan 1 9 1 13))
          (BasicTypeNode INTEGER (sourceSpan 1 17 1 23)) (sourceSpan 1 1 1 23),
        OutputStatement [Identifier ''total'' (sourceSpan 2 8 2 12)] (sourceSpan 2 1 2 12)]
       (sourceSpan 1 1 2 12)"

text \<open>\<^verbatim>\<open>OUTPUT y + x\<close>\<close>

definition unorderedProgram :: ProgramNode where
  "unorderedProgram =
     ProgramNode
       [OutputStatement
          [BinaryExpression ''+'' (Identifier ''y'' (sourceSpan 1 8 1 8))
             (Identifier ''x'' (sourceSpan 1 12 1 12)) (sourceSpan 1 8 1 12)]
          (sourceSpan 1 1 1 12)]
       (sourceSpan 1 1 1 12)"

text \<open>
  The first test of \<open>compiler.test.ts\<close>: \<^verbatim>\<open>DECLARE Total : INTEGER\<close>,
  \<^verbatim>\<open>DECLARE Index : INTEGER\<close>, \<^verbatim>\<open>FOR Index <- 1 TO 3\<close>, \<^verbatim>\<open>    Total <- Total + Index\<close>,
  \<^verbatim>\<open>NEXT Index\<close>, \<^verbatim>\<open>OUTPUT Total\<close> (six lines).
\<close>

definition totalsProgram :: ProgramNode where
  "totalsProgram =
     ProgramNode
       [DeclareStatement (IdentifierNode ''Total'' (sourceSpan 1 9 1 13))
          (BasicTypeNode INTEGER (sourceSpan 1 17 1 23)) (sourceSpan 1 1 1 23),
        DeclareStatement (IdentifierNode ''Index'' (sourceSpan 2 9 2 13))
          (BasicTypeNode INTEGER (sourceSpan 2 17 2 23)) (sourceSpan 2 1 2 23),
        ForStatement (IdentifierNode ''Index'' (sourceSpan 3 5 3 9))
          (Literal (NumberValue (Integer 1)) INTEGER (sourceSpan 3 14 3 14))
          (Literal (NumberValue (Integer 3)) INTEGER (sourceSpan 3 19 3 19)) None
          [AssignmentStatement (Identifier ''Total'' (sourceSpan 4 5 4 9))
             (BinaryExpression ''+'' (Identifier ''Total'' (sourceSpan 4 14 4 18))
                (Identifier ''Index'' (sourceSpan 4 22 4 26)) (sourceSpan 4 14 4 26))
             (sourceSpan 4 5 4 26)]
          (sourceSpan 3 1 5 10),
        OutputStatement [Identifier ''Total'' (sourceSpan 6 8 6 12)] (sourceSpan 6 1 6 12)]
       (sourceSpan 1 1 6 12)"

text \<open>
  The fourth test: \<^verbatim>\<open>DECLARE Grid : ARRAY[1:3, 1:3] OF INTEGER\<close>,
  \<^verbatim>\<open>DECLARE Value : INTEGER\<close>, \<^verbatim>\<open>Value <- Grid[1]\<close> (three lines).
\<close>

definition gridProgram :: ProgramNode where
  "gridProgram =
     ProgramNode
       [DeclareStatement (IdentifierNode ''Grid'' (sourceSpan 1 9 1 12))
          (ArrayTypeNode INTEGER [(Integer 1, Integer 3), (Integer 1, Integer 3)] (sourceSpan 1 16 1 41)) (sourceSpan 1 1 1 41),
        DeclareStatement (IdentifierNode ''Value'' (sourceSpan 2 9 2 13))
          (BasicTypeNode INTEGER (sourceSpan 2 17 2 23)) (sourceSpan 2 1 2 23),
        AssignmentStatement (Identifier ''Value'' (sourceSpan 3 1 3 5))
          (ArrayAccess ''Grid'' [Literal (NumberValue (Integer 1)) INTEGER (sourceSpan 3 15 3 15)]
             (sourceSpan 3 10 3 16))
          (sourceSpan 3 1 3 16)]
       (sourceSpan 1 1 3 16)"

text \<open>\<^verbatim>\<open>DECLARE Line : STRING\<close>, \<^verbatim>\<open>READFILE "toString", Line\<close> (two lines).\<close>

definition inheritedNameProgram :: ProgramNode where
  "inheritedNameProgram =
     ProgramNode
       [DeclareStatement (IdentifierNode ''Line'' (sourceSpan 1 9 1 12))
          (BasicTypeNode STRING (sourceSpan 1 16 1 21)) (sourceSpan 1 1 1 21),
        ReadFileStatement (Literal (StringValue ''toString'') STRING (sourceSpan 2 10 2 19))
          (Identifier ''Line'' (sourceSpan 2 22 2 25)) (sourceSpan 2 1 2 25)]
       (sourceSpan 1 1 2 25)"

text \<open>Whether a statement is a \<open>RETURN\<close>.\<close>

fun isReturnStatement :: "StatementNode \<Rightarrow> bool" where
  "isReturnStatement (ReturnStatement v sp) = True"
| "isReturnStatement statement = False"

text \<open>The codes of the diagnostics of an analysis, in the order they were pushed.\<close>

definition diagnosticCodes :: "js_exception + SemanticResult \<Rightarrow> js_exception + string list" where
  "diagnosticCodes r =
     (case r of Inl e \<Rightarrow> Inl e | Inr a \<Rightarrow> Inr (map code (Analyzer.diagnostics a)))"

text \<open>The position and code of each diagnostic.\<close>

definition diagnosticPlaces ::
  "js_exception + SemanticResult \<Rightarrow> js_exception + (int \<times> int \<times> string) list" where
  "diagnosticPlaces r =
     (case r of
        Inl e \<Rightarrow> Inl e
      | Inr a \<Rightarrow> Inr (map (\<lambda>d. (line d, column d, code d)) (Analyzer.diagnostics a)))"

section \<open>Properties of the runtime prelude\<close>

lemma int_div_add_self:
  fixes x s :: int
  assumes "s \<noteq> 0"
  shows "(x + s) div s = x div s + 1"
  using assms div_add_self2 [of s x] by simp

lemma inclusive_range_loop_up:
  "0 < s \<Longrightarrow> inclusive_range_loop a b s = map (\<lambda>k. a + int k * s) [0..<range_count a b s]"
proof (induction "nat (b - a + 1)" arbitrary: a rule: less_induct)
  case less
  show ?case
  proof (cases "a \<le> b")
    case False
    with less.prems show ?thesis
      by (simp add: inclusive_range_loop.simps [of a b s] range_count_def)
  next
    case True
    have step: "inclusive_range_loop a b s = a # inclusive_range_loop (a + s) b s"
      using True less.prems by (simp add: inclusive_range_loop.simps [of a b s])
    have smaller: "nat (b - (a + s) + 1) < nat (b - a + 1)"
      using True less.prems by simp
    have ih: "inclusive_range_loop (a + s) b s
                = map (\<lambda>k. (a + s) + int k * s) [0..<range_count (a + s) b s]"
      using less.hyps [OF smaller less.prems] .
    have cnt: "range_count a b s = Suc (range_count (a + s) b s)"
    proof (cases "a + s \<le> b")
      case le: True
      have "(b - a) div s = (b - (a + s)) div s + 1"
      proof -
        have "b - a = (b - (a + s)) + s" by simp
        then have "(b - a) div s = ((b - (a + s)) + s) div s" by simp
        also have "\<dots> = (b - (a + s)) div s + 1"
          using less.prems by (intro int_div_add_self) simp
        finally show ?thesis .
      qed
      moreover have "0 \<le> (b - (a + s)) div s"
        using le less.prems by (simp add: pos_imp_zdiv_nonneg_iff)
      ultimately show ?thesis
        using True le less.prems by (simp add: range_count_def nat_add_distrib)
    next
      case gt: False
      then have "b - a < s" by simp
      moreover have "0 \<le> b - a" using True by simp
      ultimately have "(b - a) div s = 0" by (simp add: div_pos_pos_trivial)
      then show ?thesis
        using True gt less.prems by (simp add: range_count_def)
    qed
    have "map (\<lambda>k. a + int k * s) [0..<Suc (range_count (a + s) b s)]
            = a # map (\<lambda>k. (a + s) + int k * s) [0..<range_count (a + s) b s]"
      by (simp add: map_upt_Suc algebra_simps del: upt_Suc)
    then show ?thesis
      using step ih cnt by simp
  qed
qed

lemma inclusive_range_loop_down:
  "s < 0 \<Longrightarrow> inclusive_range_loop a b s = map (\<lambda>k. a + int k * s) [0..<range_count a b s]"
proof (induction "nat (a - b + 1)" arbitrary: a rule: less_induct)
  case less
  show ?case
  proof (cases "b \<le> a")
    case False
    with less.prems show ?thesis
      by (simp add: inclusive_range_loop.simps [of a b s] range_count_def)
  next
    case True
    have step: "inclusive_range_loop a b s = a # inclusive_range_loop (a + s) b s"
      using True less.prems by (simp add: inclusive_range_loop.simps [of a b s])
    have smaller: "nat (a + s - b + 1) < nat (a - b + 1)"
      using True less.prems by simp
    have ih: "inclusive_range_loop (a + s) b s
                = map (\<lambda>k. (a + s) + int k * s) [0..<range_count (a + s) b s]"
      using less.hyps [OF smaller less.prems] .
    have cnt: "range_count a b s = Suc (range_count (a + s) b s)"
    proof (cases "b \<le> a + s")
      case le: True
      have "(a - b) div (- s) = (a + s - b) div (- s) + 1"
      proof -
        have "a - b = (a + s - b) + (- s)" by simp
        then have "(a - b) div (- s) = ((a + s - b) + (- s)) div (- s)" by simp
        also have "\<dots> = (a + s - b) div (- s) + 1"
          using less.prems by (intro int_div_add_self) simp
        finally show ?thesis .
      qed
      moreover have "0 \<le> (a + s - b) div (- s)"
        using le less.prems by (simp add: pos_imp_zdiv_nonneg_iff)
      ultimately show ?thesis
        using True le less.prems by (simp add: range_count_def nat_add_distrib)
    next
      case gt: False
      then have "a - b < - s" by simp
      moreover have "0 \<le> a - b" using True by simp
      ultimately have "(a - b) div (- s) = 0" by (simp add: div_pos_pos_trivial)
      then show ?thesis
        using True gt less.prems by (simp add: range_count_def)
    qed
    have "map (\<lambda>k. a + int k * s) [0..<Suc (range_count (a + s) b s)]
            = a # map (\<lambda>k. (a + s) + int k * s) [0..<range_count (a + s) b s]"
      by (simp add: map_upt_Suc algebra_simps del: upt_Suc)
    then show ?thesis
      using step ih cnt by simp
  qed
qed

lemma inclusive_range_loop_values:
  "s \<noteq> 0 \<Longrightarrow> inclusive_range_loop a b s = map (\<lambda>k. a + int k * s) [0..<range_count a b s]"
  using inclusive_range_loop_up [of s a b] inclusive_range_loop_down [of s a b]
  by (cases "0 < s") auto

lemma range_count_last_up:
  fixes a b s :: int
  assumes "0 < s" "a \<le> b" "s dvd (b - a)"
  shows "a + int (range_count a b s - 1) * s = b"
proof -
  have "0 \<le> (b - a) div s"
    using assms by (simp add: pos_imp_zdiv_nonneg_iff)
  then have "int (range_count a b s - 1) = (b - a) div s"
    using assms by (simp add: range_count_def)
  moreover have "(b - a) div s * s = b - a"
    using assms by simp
  ultimately show ?thesis by simp
qed

lemma range_count_last_down:
  fixes a b s :: int
  assumes "s < 0" "b \<le> a" "s dvd (a - b)"
  shows "a + int (range_count a b s - 1) * s = b"
proof -
  have "0 \<le> (a - b) div (- s)"
    using assms by (simp add: pos_imp_zdiv_nonneg_iff)
  then have cnt: "int (range_count a b s - 1) = (a - b) div (- s)"
    using assms by (simp add: range_count_def)
  have "(- s) dvd (a - b)"
    using assms by simp
  then have "(a - b) div (- s) * (- s) = a - b"
    by (rule dvd_div_mult_self)
  then have "(a - b) div (- s) * s = b - a"
    by (simp add: algebra_simps)
  with cnt show ?thesis by simp
qed

lemma inclusive_range_truncated:
  assumes "py_int a = Inr a'" and "py_int b = Inr b'" and "py_int s = Inr s'"
  shows "inclusive_range a b s =
           (if s' = 0 then Inl (RuntimeError ''FOR STEP cannot be zero'')
            else Inr (map (\<lambda>k. a' + int k * s') [0..<range_count a' b' s']))"
  using assms by (simp add: inclusive_range_def inclusive_range_loop_values)

text \<open>
  On Python integers nothing is truncated: \<open>__inclusive_range(a, b, s)\<close> raises for
  \<open>s = 0\<close> and yields \<open>a, a + s, a + 2s, \<dots>\<close> otherwise, which is the sequence the
  specification describes.
\<close>

lemma inclusive_range_integers:
  "inclusive_range (PyInt a) (PyInt b) (PyInt s) =
     (if s = 0 then Inl (RuntimeError ''FOR STEP cannot be zero'')
      else Inr (map (\<lambda>k. a + int k * s) [0..<range_count a b s]))"
  by (rule inclusive_range_truncated) simp_all

text \<open>An argument that is an infinity or NaN makes \<open>int()\<close> raise, and nothing is yielded.\<close>

lemma inclusive_range_not_finite:
  "py_int a = Inl e \<Longrightarrow> inclusive_range a b s = Inl e"
  "py_int a = Inr a' \<Longrightarrow> py_int b = Inl e \<Longrightarrow> inclusive_range a b s = Inl e"
  "py_int a = Inr a' \<Longrightarrow> py_int b = Inr b' \<Longrightarrow> py_int s = Inl e \<Longrightarrow> inclusive_range a b s = Inl e"
  by (simp_all add: inclusive_range_def)

text \<open>
  C5, as the specification states it, fails for a \<open>REAL\<close> step.  With the step \<open>0.5\<close>,
  which is not zero, \<open>__inclusive_range(1, 3, 0.5)\<close> raises \<open>FOR STEP cannot be zero\<close>
  where the specification has \<open>1, 1.5, 2, 2.5, 3\<close>; with the step \<open>1.5\<close>,
  \<open>__inclusive_range(1, 4, 1.5)\<close> yields \<open>1, 2, 3, 4\<close> where the specification has
  \<open>1, 2.5, 4\<close>.
\<close>

theorem inclusive_range_real_step:
  "py_value (PyFloat (1 / 2)) \<noteq> Some 0
   \<and> inclusive_range (PyInt 1) (PyInt 3) (PyFloat (1 / 2))
       = Inl (RuntimeError ''FOR STEP cannot be zero'')
   \<and> specified_range 1 3 (1 / 2) = [1, 3 / 2, 2, 5 / 2, 3]
   \<and> inclusive_range (PyInt 1) (PyInt 4) (PyFloat (3 / 2)) = Inr [1, 2, 3, 4]
   \<and> specified_range 1 4 (3 / 2) = [1, 5 / 2, 4]
   \<and> map real_of_int [1, 2, 3, 4] \<noteq> specified_range 1 4 (3 / 2)"
proof -
  have half: "inclusive_range (PyInt 1) (PyInt 3) (PyFloat (1 / 2))
                = Inl (RuntimeError ''FOR STEP cannot be zero'')"
    by (simp add: inclusive_range_def)
  have up5: "[0..<5] = [0, 1, 2, 3, 4::nat]"
    by (simp add: upt_rec)
  have up3: "[0..<3] = [0, 1, 2::nat]"
    by (simp add: upt_rec)
  have spec_half: "specified_range 1 3 (1 / 2) = [1, 3 / 2, 2, 5 / 2, 3]"
    by (simp add: specified_range_def up5)
  have loop: "inclusive_range_loop 1 4 1 = [1, 2, 3, 4]"
    by (simp add: inclusive_range_loop.simps)
  have three_halves: "inclusive_range (PyInt 1) (PyInt 4) (PyFloat (3 / 2)) = Inr [1, 2, 3, 4]"
    by (simp add: inclusive_range_def loop)
  have spec_three_halves: "specified_range 1 4 (3 / 2) = [1, 5 / 2, 4]"
    by (simp add: specified_range_def up3)
  show ?thesis
    by (simp add: half spec_half three_halves spec_three_halves)
qed

text \<open>
  C5, amended.  \<open>__inclusive_range(a, b, s)\<close> first truncates its three arguments toward
  zero, to the integers \<open>a'\<close>, \<open>b'\<close> and \<open>s'\<close>.  It raises the runtime error
  \<open>FOR STEP cannot be zero\<close> when \<open>s' = 0\<close> (it does not loop); for \<open>s' \<noteq> 0\<close> it yields
  exactly \<open>a', a' + s', a' + 2s', \<dots>\<close>, as many values as lie between \<open>a'\<close> and \<open>b'\<close> in
  the direction of \<open>s'\<close>.  So it starts at \<open>a'\<close> and ends at \<open>b'\<close> whenever \<open>b'\<close> is reachable
  from \<open>a'\<close> in steps of \<open>s'\<close>; an ascending range whose start lies above its end is empty;
  and \<open>__inclusive_range(5, 1, -1)\<close> is \<open>5, 4, 3, 2, 1\<close>.
\<close>

theorem inclusive_range_yields:
  assumes "py_int a = Inr a'" and "py_int b = Inr b'" and "py_int s = Inr s'"
  shows "(s' = 0 \<longrightarrow> inclusive_range a b s = Inl (RuntimeError ''FOR STEP cannot be zero''))
   \<and> (s' \<noteq> 0 \<longrightarrow>
        inclusive_range a b s = Inr (map (\<lambda>k. a' + int k * s') [0..<range_count a' b' s']))
   \<and> ((0 < s' \<and> a' \<le> b' \<and> s' dvd (b' - a')) \<or> (s' < 0 \<and> b' \<le> a' \<and> s' dvd (a' - b')) \<longrightarrow>
        (\<exists>xs. inclusive_range a b s = Inr xs \<and> xs \<noteq> [] \<and> hd xs = a' \<and> last xs = b'))
   \<and> (0 < s' \<and> b' < a' \<longrightarrow> inclusive_range a b s = Inr [])
   \<and> inclusive_range (PyInt 5) (PyInt 1) (PyInt (- 1)) = Inr [5, 4, 3, 2, 1]"
proof (intro conjI impI)
  assume "s' = 0"
  then show "inclusive_range a b s = Inl (RuntimeError ''FOR STEP cannot be zero'')"
    using assms by (simp add: inclusive_range_truncated)
next
  assume "s' \<noteq> 0"
  then show "inclusive_range a b s = Inr (map (\<lambda>k. a' + int k * s') [0..<range_count a' b' s'])"
    using assms by (simp add: inclusive_range_truncated)
next
  assume reach: "(0 < s' \<and> a' \<le> b' \<and> s' dvd (b' - a')) \<or> (s' < 0 \<and> b' \<le> a' \<and> s' dvd (a' - b'))"
  then have nz: "s' \<noteq> 0" by auto
  let ?n = "range_count a' b' s'"
  let ?xs = "map (\<lambda>k. a' + int k * s') [0..<?n]"
  have pos: "0 < ?n"
    using reach by (auto simp: range_count_def)
  have eq: "inclusive_range a b s = Inr ?xs"
    using nz assms by (simp add: inclusive_range_truncated)
  have ne: "?xs \<noteq> []"
    using pos by simp
  have h: "hd ?xs = a'"
    using pos by (simp add: hd_map)
  have "last ?xs = a' + int (?n - 1) * s'"
    using pos by (simp add: last_map)
  also have "\<dots> = b'"
    using reach range_count_last_up [of s' a' b'] range_count_last_down [of s' b' a'] by auto
  finally have l: "last ?xs = b'" .
  show "\<exists>xs. inclusive_range a b s = Inr xs \<and> xs \<noteq> [] \<and> hd xs = a' \<and> last xs = b'"
    using eq ne h l by blast
next
  assume "0 < s' \<and> b' < a'"
  then show "inclusive_range a b s = Inr []"
    using assms by (simp add: inclusive_range_truncated range_count_def)
next
  show "inclusive_range (PyInt 5) (PyInt 1) (PyInt (- 1)) = Inr [5, 4, 3, 2, 1]"
    by (simp add: inclusive_range_def inclusive_range_loop.simps)
qed

theorem inclusive_range_yields_witness:
  "inclusive_range (PyInt 1) (PyFloat (21 / 2)) (PyInt 3) = Inr [1, 4, 7, 10]
   \<and> (\<exists>xs. inclusive_range (PyInt 1) (PyFloat (21 / 2)) (PyInt 3) = Inr xs
             \<and> xs \<noteq> [] \<and> hd xs = 1 \<and> last xs = 10)
   \<and> inclusive_range (PyInt 4) (PyInt 2) (PyInt 1) = Inr []
   \<and> inclusive_range (PyInt 1) (PyInt 3) (PyFloat (1 / 2))
       = Inl (RuntimeError ''FOR STEP cannot be zero'')"
proof -
  have cnt: "range_count 1 10 3 = 4"
    by (simp add: range_count_def)
  have up: "[0..<4] = [0, 1, 2, 3::nat]"
    by (simp add: upt_rec)
  have one: "py_int (PyInt 1) = Inr 1" and three: "py_int (PyInt 3) = Inr 3"
    and ten: "py_int (PyFloat (21 / 2)) = Inr 10"
    and four: "py_int (PyInt 4) = Inr 4" and two: "py_int (PyInt 2) = Inr 2"
    and half: "py_int (PyFloat (1 / 2)) = Inr 0"
    by simp_all
  have "inclusive_range (PyInt 1) (PyFloat (21 / 2)) (PyInt 3) = Inr [1, 4, 7, 10]"
    using inclusive_range_yields [OF one ten three] by (simp add: cnt up)
  moreover have "\<exists>xs. inclusive_range (PyInt 1) (PyFloat (21 / 2)) (PyInt 3) = Inr xs
                        \<and> xs \<noteq> [] \<and> hd xs = 1 \<and> last xs = 10"
  proof -
    have reach: "(0 < (3::int) \<and> (1::int) \<le> 10 \<and> (3::int) dvd (10 - 1))
                 \<or> ((3::int) < 0 \<and> (10::int) \<le> 1 \<and> (3::int) dvd (1 - 10))"
      by simp
    from inclusive_range_yields [OF one ten three] reach show ?thesis
      by blast
  qed
  moreover have "inclusive_range (PyInt 4) (PyInt 2) (PyInt 1) = Inr []"
    using inclusive_range_yields [OF four two one] by (simp add: range_count_def)
  moreover have "inclusive_range (PyInt 1) (PyInt 3) (PyFloat (1 / 2))
                   = Inl (RuntimeError ''FOR STEP cannot be zero'')"
    using inclusive_range_yields [OF one three half] by simp
  ultimately show ?thesis by blast
qed

lemma READFILE_at_end_unchanged:
  assumes "open_files rt name = Some h"
    and "mode h = ''READ''"
    and "length (case vfs rt name of None \<Rightarrow> [] | Some d \<Rightarrow> d) \<le> pointer h"
  shows "READFILE name rt = Inr ('''', rt)"
  using assms by (simp add: READFILE_def Let_def)

text \<open>
  C10.  When the handle of \<open>name\<close> is open in \<open>READ\<close> mode and its pointer is at or past
  the end of the file's data, \<open>READFILE\<close> returns the empty string, raises nothing and
  leaves the whole runtime state, the pointer included, as it was; hence any number of
  further \<open>READFILE\<close> calls on that handle return the empty string too.
\<close>

theorem READFILE_at_end:
  assumes "open_files rt name = Some h"
    and "mode h = ''READ''"
    and "length (case vfs rt name of None \<Rightarrow> [] | Some d \<Rightarrow> d) \<le> pointer h"
  shows "READFILE name rt = Inr ('''', rt)
         \<and> READFILE_repeat n name rt = Inr (replicate n '''', rt)"
proof
  show first: "READFILE name rt = Inr ('''', rt)"
    using assms by (rule READFILE_at_end_unchanged)
  show "READFILE_repeat n name rt = Inr (replicate n '''', rt)"
    by (induction n) (simp_all add: first)
qed

theorem READFILE_at_end_witness:
  "READFILE ''F''
      \<lparr>vfs = [''F'' \<mapsto> [''line'']], open_files = [''F'' \<mapsto> \<lparr>mode = ''READ'', pointer = 1\<rparr>]\<rparr>
    = Inr ('''', \<lparr>vfs = [''F'' \<mapsto> [''line'']],
                  open_files = [''F'' \<mapsto> \<lparr>mode = ''READ'', pointer = 1\<rparr>]\<rparr>)
   \<and> READFILE_repeat 2 ''F''
      \<lparr>vfs = [''F'' \<mapsto> [''line'']], open_files = [''F'' \<mapsto> \<lparr>mode = ''READ'', pointer = 1\<rparr>]\<rparr>
    = Inr (['''', ''''], \<lparr>vfs = [''F'' \<mapsto> [''line'']],
                          open_files = [''F'' \<mapsto> \<lparr>mode = ''READ'', pointer = 1\<rparr>]\<rparr>)"
  using READFILE_at_end
    [of "\<lparr>vfs = [''F'' \<mapsto> [''line'']], open_files = [''F'' \<mapsto> \<lparr>mode = ''READ'', pointer = 1\<rparr>]\<rparr>"
        "''F''" "\<lparr>mode = ''READ'', pointer = 1\<rparr>" 2]
  by (simp add: numeral_2_eq_2)

section \<open>Properties of the semantic analyzer\<close>

subsection \<open>What inferring the type of an expression reports\<close>

text \<open>
  Inferring the type of an expression only ever appends diagnostics: the analyzer it
  returns is the one it was given with some diagnostics added at the end.
\<close>

lemma isNumeric_iff: "isNumeric t \<longleftrightarrow> t = Basic INTEGER \<or> t = Basic REAL"
  by (cases t) auto

lemma extendedBy_Nil: "extendedBy a [] = a"
  by (simp add: extendedBy_def)

lemma extendedBy_append: "extendedBy (extendedBy a xs) ys = extendedBy a (xs @ ys)"
  by (simp add: extendedBy_def)

lemma pushError_extendedBy:
  "pushError sp c msg a =
     extendedBy a [\<lparr>code = c, message = msg, severity = Error, line = startLine sp,
                    column = startColumn sp, endLine = spanEndLine sp,
                    endColumn = spanEndColumn sp, hint = None\<rparr>]"
  by (simp add: pushError_def extendedBy_def)

lemma extends_refl: "\<exists>ds. a = extendedBy a ds"
  using extendedBy_Nil [of a] by metis

lemma extends_pushError: "\<exists>ds. pushError sp c msg a = extendedBy a ds"
  using pushError_extendedBy by blast

lemma extends_trans:
  assumes "\<exists>ds. b = extendedBy a ds" and "\<exists>ds. c = extendedBy b ds"
  shows "\<exists>ds. c = extendedBy a ds"
  using assms extendedBy_append by metis

lemma forEachIndex_extends:
  assumes "\<And>x sc b t b1. x \<in> set indices \<Longrightarrow> inferExpressionType x sc b = Inr (t, b1)
             \<Longrightarrow> \<exists>ds. b1 = extendedBy b ds"
    and "forEachIndex indices scope a = Inr a1"
  shows "\<exists>ds. a1 = extendedBy a ds"
  using assms
proof (induction indices arbitrary: a)
  case Nil
  then show ?case by (simp add: extends_refl)
next
  case (Cons index rest)
  from Cons.prems(2) obtain t b1 where
    first: "inferExpressionType index scope a = Inr (t, b1)"
    by (auto split: sum.splits)
  define b where "b = (if t \<noteq> Basic INTEGER then
              pushError (expressionSpan index) ''SEM028''
                ''Array index must evaluate to INTEGER.'' b1
            else b1)"
  have rest: "forEachIndex rest scope b = Inr a1"
    using Cons.prems(2) first by (simp add: b_def)
  have one: "\<exists>ds. b1 = extendedBy a ds"
    using Cons.prems(1) [of index scope a t b1] first by simp
  have two: "\<exists>ds. b = extendedBy b1 ds"
    by (simp add: b_def extends_refl extends_pushError)
  have elems: "\<exists>ds. y1 = extendedBy y ds"
    if "x \<in> set rest" "inferExpressionType x sc y = Inr (u, y1)" for x sc y u y1
    using Cons.prems(1) [of x sc y u y1] that by simp
  have three: "\<exists>ds. a1 = extendedBy b ds"
    using elems rest by (rule Cons.IH)
  show ?case
    using extends_trans [OF extends_trans [OF one two] three] .
qed

lemma forEachArg_extends:
  assumes "\<And>x sc b t b1. x \<in> set args \<Longrightarrow> inferExpressionType x sc b = Inr (t, b1)
             \<Longrightarrow> \<exists>ds. b1 = extendedBy b ds"
    and "forEachArg args index ex name scope a = Inr a1"
  shows "\<exists>ds. a1 = extendedBy a ds"
  using assms
proof (induction args arbitrary: a index)
  case Nil
  then show ?case by (simp add: extends_refl)
next
  case (Cons arg rest)
  from Cons.prems(2) obtain t b1 where
    first: "inferExpressionType arg scope a = Inr (t, b1)"
    by (auto split: sum.splits)
  define b where "b = (if \<not> typesCompatible (ex ! index) t then
               pushError (expressionSpan arg) ''SEM018''
                 (''Argument '' @ String_nat (index + 1) @ '' for '' @ quoted name
                   @ '' must be '' @ typeName (ex ! index) @ '', got ''
                   @ typeName t @ ''.'') b1
             else b1)"
  have rest: "forEachArg rest (index + 1) ex name scope b = Inr a1"
    using Cons.prems(2) first by (simp add: b_def)
  have one: "\<exists>ds. b1 = extendedBy a ds"
    using Cons.prems(1) [of arg scope a t b1] first by simp
  have two: "\<exists>ds. b = extendedBy b1 ds"
    by (simp add: b_def extends_refl extends_pushError)
  have elems: "\<exists>ds. y1 = extendedBy y ds"
    if "x \<in> set rest" "inferExpressionType x sc y = Inr (u, y1)" for x sc y u y1
    using Cons.prems(1) [of x sc y u y1] that by simp
  have three: "\<exists>ds. a1 = extendedBy b ds"
    using elems rest by (rule Cons.IH)
  show ?case
    using extends_trans [OF extends_trans [OF one two] three] .
qed

lemma validateCallArgsWithScope_extends:
  assumes "\<And>x sc b t b1. x \<in> set args \<Longrightarrow> inferExpressionType x sc b = Inr (t, b1)
             \<Longrightarrow> \<exists>ds. b1 = extendedBy b ds"
    and "validateCallArgsWithScope args expected sp name scope a = Inr a1"
  shows "\<exists>ds. a1 = extendedBy a ds"
proof (cases expected)
  case None
  with assms(2) show ?thesis by simp
next
  case (Some ex)
  show ?thesis
  proof (cases "length args \<noteq> length ex")
    case True
    with Some assms(2) show ?thesis
      by (auto simp: extends_pushError)
  next
    case False
    with Some assms(2) have "forEachArg args 0 ex name scope a = Inr a1"
      by simp
    with assms(1) show ?thesis
      by (rule forEachArg_extends)
  qed
qed

lemma resolveArrayAccessType_extends:
  assumes "\<And>x sc b t b1. x \<in> set indices \<Longrightarrow> inferExpressionType x sc b = Inr (t, b1)
             \<Longrightarrow> \<exists>ds. b1 = extendedBy b ds"
    and "resolveArrayAccessType name indices sp scope a = Inr (t, a1)"
  shows "\<exists>ds. a1 = extendedBy a ds"
proof -
  have loop: "\<exists>ds. b1 = extendedBy a ds" if "forEachIndex indices sc a = Inr b1" for b1 sc
    using assms(1) that by (rule forEachIndex_extends)
  from assms(2) show ?thesis
    by (auto simp: extends_refl extends_pushError dest: loop
             split: option.splits StaticType.splits if_splits sum.splits)
qed

lemma inferExpressionType_extends:
  "inferExpressionType e scope a = Inr (t, a1) \<Longrightarrow> \<exists>ds. a1 = extendedBy a ds"
proof (induction e arbitrary: scope a t a1)
  case (Literal v literalType sp)
  then show ?case by (simp add: extends_refl)
next
  case (Identifier name sp)
  then show ?case
    by (auto simp: extends_refl extends_pushError split: option.splits)
next
  case (UnaryExpression operator operand sp)
  from UnaryExpression.prems obtain ot b1 where
    operand: "inferExpressionType operand scope a = Inr (ot, b1)"
    by (auto split: sum.splits)
  have one: "\<exists>ds. b1 = extendedBy a ds"
    using operand by (rule UnaryExpression.IH)
  have two: "\<exists>ds. a1 = extendedBy b1 ds"
    using UnaryExpression.prems operand
    by (auto simp: extends_refl extends_pushError split: if_splits)
  show ?case
    using extends_trans [OF one two] .
next
  case (BinaryExpression op left right sp)
  from BinaryExpression.prems obtain lt b1 where
    l: "inferExpressionType left scope a = Inr (lt, b1)"
    by (auto split: sum.splits)
  from BinaryExpression.prems l obtain rt b2 where
    r: "inferExpressionType right scope b1 = Inr (rt, b2)"
    by (auto split: sum.splits)
  have one: "\<exists>ds. b1 = extendedBy a ds"
    using l by (rule BinaryExpression.IH(1))
  have two: "\<exists>ds. b2 = extendedBy b1 ds"
    using r by (rule BinaryExpression.IH(2))
  have three: "\<exists>ds. a1 = extendedBy b2 ds"
    using BinaryExpression.prems unfolding inferExpressionType.simps l r sum.case prod.case
    by (auto simp: extends_refl extends_pushError simp del: list.set split: if_splits)
  show ?case
    using extends_trans [OF extends_trans [OF one two] three] .
next
  case (CallExpression name args sp)
  have elems: "\<exists>ds. b1 = extendedBy b ds"
    if "x \<in> set args" "inferExpressionType x sc b = Inr (t, b1)" for x sc b t b1
    using CallExpression.IH that by blast
  have v: "\<exists>ds. b1 = extendedBy a ds"
    if "validateCallArgsWithScope args expected sp name scope a = Inr b1" for expected b1
    using elems that by (rule validateCallArgsWithScope_extends)
  show ?case
  proof (cases "js_get BUILTIN_FUNCTIONS (toUpperCase name) = Undefined")
    case builtin: True
    show ?thesis
    proof (cases "js_get (functionSignatures a) (toLowerCase name) = Undefined")
      case True
      with builtin CallExpression.prems show ?thesis
        by (auto simp: extends_pushError simp del: validateCallArgsWithScope.simps)
    next
      case False
      with builtin CallExpression.prems have
        "validateCallArgsWithScope args
           (functionParams (js_get (functionSignatures a) (toLowerCase name))) sp name scope a
           = Inr a1"
        by (auto simp del: validateCallArgsWithScope.simps split: property.splits sum.splits)
      then show ?thesis by (rule v)
    qed
  next
    case False
    with CallExpression.prems have
      "validateCallArgsWithScope args
         (functionParams (js_get BUILTIN_FUNCTIONS (toUpperCase name))) sp name scope a
         = Inr a1"
      by (auto simp del: validateCallArgsWithScope.simps split: property.splits sum.splits)
    then show ?thesis by (rule v)
  qed
next
  case (ArrayAccess name indices sp)
  have elems: "\<exists>ds. b1 = extendedBy b ds"
    if "x \<in> set indices" "inferExpressionType x sc b = Inr (t, b1)" for x sc b t b1
    using ArrayAccess.IH that by blast
  from ArrayAccess.prems have "resolveArrayAccessType name indices sp scope a = Inr (t, a1)"
    by (simp del: resolveArrayAccessType.simps)
  with elems show ?case
    by (rule resolveArrayAccessType_extends)
qed

subsection \<open>Arithmetic operators\<close>

text \<open>
  C6.  For a binary expression whose operator is one of \<open>+ - * / ^\<close>, whose left operand
  has been given the type \<open>leftType\<close> and then whose right operand the type \<open>rightType\<close>:
  the diagnostics reported before and by the operands are kept; if one of the two types is
  not numeric (neither \<open>INTEGER\<close> nor \<open>REAL\<close>), the analyzer emits \<open>SEM022\<close>, that is, it appends to its diagnostics one
  error with the code \<open>SEM022\<close>, the operator's message and the span of the expression,
  and the result type is unknown; otherwise it appends nothing and the result type is
  \<open>REAL\<close> if an operand is \<open>REAL\<close> or the operator is \<open>/\<close>, and \<open>INTEGER\<close> in every other
  case.
\<close>

theorem inferExpressionType_arithmetic:
  assumes "op \<in> set [''+'', ''-'', ''*'', ''/'', ''^'']"
    and "inferExpressionType left scope a = Inr (leftType, a1)"
    and "inferExpressionType right scope a1 = Inr (rightType, a2)"
  shows "(\<exists>ds. Analyzer.diagnostics a2 = Analyzer.diagnostics a @ ds)
       \<and> (leftType \<notin> {Basic INTEGER, Basic REAL} \<or> rightType \<notin> {Basic INTEGER, Basic REAL} \<longrightarrow>
            inferExpressionType (BinaryExpression op left right sp) scope a =
              Inr (Unknown,
                   a2\<lparr>diagnostics := Analyzer.diagnostics a2 @
                        [\<lparr>code = ''SEM022'',
                          message = ''Operator '' @ op @ '' requires numeric operands.'',
                          severity = Error, line = startLine sp, column = startColumn sp,
                          endLine = spanEndLine sp, endColumn = spanEndColumn sp,
                          hint = None\<rparr>]\<rparr>))
       \<and> (leftType \<in> {Basic INTEGER, Basic REAL} \<and> rightType \<in> {Basic INTEGER, Basic REAL} \<longrightarrow>
            inferExpressionType (BinaryExpression op left right sp) scope a =
              Inr (if leftType = Basic REAL \<or> rightType = Basic REAL \<or> op = ''/''
                   then Basic REAL else Basic INTEGER, a2))"
proof (intro conjI impI)
  from inferExpressionType_extends [OF assms(2)] inferExpressionType_extends [OF assms(3)]
  obtain xs ys where "a1 = extendedBy a xs" and "a2 = extendedBy a1 ys"
    by blast
  then have "Analyzer.diagnostics a2 = Analyzer.diagnostics a @ (xs @ ys)"
    by (simp add: extendedBy_def)
  then show "\<exists>ds. Analyzer.diagnostics a2 = Analyzer.diagnostics a @ ds" ..
next
  assume "leftType \<notin> {Basic INTEGER, Basic REAL} \<or> rightType \<notin> {Basic INTEGER, Basic REAL}"
  then have "\<not> isNumeric leftType \<or> \<not> isNumeric rightType"
    by (simp add: isNumeric_iff)
  with assms show "inferExpressionType (BinaryExpression op left right sp) scope a =
      Inr (Unknown,
           a2\<lparr>diagnostics := Analyzer.diagnostics a2 @
                [\<lparr>code = ''SEM022'',
                  message = ''Operator '' @ op @ '' requires numeric operands.'',
                  severity = Error, line = startLine sp, column = startColumn sp,
                  endLine = spanEndLine sp, endColumn = spanEndColumn sp,
                  hint = None\<rparr>]\<rparr>)"
    by (auto simp: pushError_def)
next
  assume "leftType \<in> {Basic INTEGER, Basic REAL} \<and> rightType \<in> {Basic INTEGER, Basic REAL}"
  then have num: "isNumeric leftType \<and> isNumeric rightType"
    by (simp add: isNumeric_iff)
  then have "isBasic leftType" "isBasic rightType"
    by (auto simp: isNumeric_iff)
  with num assms show "inferExpressionType (BinaryExpression op left right sp) scope a =
      Inr (if leftType = Basic REAL \<or> rightType = Basic REAL \<or> op = ''/''
           then Basic REAL else Basic INTEGER, a2)"
    by auto
qed

theorem inferExpressionType_arithmetic_witness:
  "inferExpressionType
      (BinaryExpression ''^''
         (Literal (NumberValue (Integer 2)) INTEGER \<lparr>startLine = 1, startColumn = 1, spanEndLine = 1, spanEndColumn = 1\<rparr>)
         (Literal (NumberValue (Integer 3)) INTEGER \<lparr>startLine = 1, startColumn = 5, spanEndLine = 1, spanEndColumn = 5\<rparr>)
         \<lparr>startLine = 1, startColumn = 1, spanEndLine = 1, spanEndColumn = 5\<rparr>)
      None newAnalyzer
    = Inr (Basic INTEGER, newAnalyzer)
   \<and> inferExpressionType
      (BinaryExpression ''/''
         (Literal (NumberValue (Integer 2)) INTEGER \<lparr>startLine = 1, startColumn = 1, spanEndLine = 1, spanEndColumn = 1\<rparr>)
         (Literal (NumberValue (Integer 3)) INTEGER \<lparr>startLine = 1, startColumn = 5, spanEndLine = 1, spanEndColumn = 5\<rparr>)
         \<lparr>startLine = 1, startColumn = 1, spanEndLine = 1, spanEndColumn = 5\<rparr>)
      None newAnalyzer
    = Inr (Basic REAL, newAnalyzer)
   \<and> inferExpressionType
      (BinaryExpression ''+''
         (Literal (StringValue ''a'') STRING \<lparr>startLine = 1, startColumn = 8, spanEndLine = 1, spanEndColumn = 10\<rparr>)
         (Literal (NumberValue (Integer 3)) INTEGER \<lparr>startLine = 1, startColumn = 14, spanEndLine = 1, spanEndColumn = 14\<rparr>)
         \<lparr>startLine = 1, startColumn = 8, spanEndLine = 1, spanEndColumn = 14\<rparr>)
      None newAnalyzer
    = Inr (Unknown,
           newAnalyzer\<lparr>diagnostics :=
             [\<lparr>code = ''SEM022'', message = ''Operator + requires numeric operands.'',
               severity = Error, line = 1, column = 8, endLine = 1, endColumn = 14,
               hint = None\<rparr>]\<rparr>)"
proof (intro conjI)
  let ?two = "Literal (NumberValue (Integer 2)) INTEGER
                \<lparr>startLine = 1, startColumn = 1, spanEndLine = 1, spanEndColumn = 1\<rparr>"
  let ?three = "Literal (NumberValue (Integer 3)) INTEGER
                  \<lparr>startLine = 1, startColumn = 5, spanEndLine = 1, spanEndColumn = 5\<rparr>"
  let ?sp = "\<lparr>startLine = 1, startColumn = 1, spanEndLine = 1, spanEndColumn = 5\<rparr>"
  have two: "inferExpressionType ?two None newAnalyzer = Inr (Basic INTEGER, newAnalyzer)"
    by simp
  have three: "inferExpressionType ?three None newAnalyzer = Inr (Basic INTEGER, newAnalyzer)"
    by simp
  have pow: "''^'' \<in> set [''+'', ''-'', ''*'', ''/'', ''^'']"
    by simp
  have quot: "''/'' \<in> set [''+'', ''-'', ''*'', ''/'', ''^'']"
    by simp
  show "inferExpressionType (BinaryExpression ''^'' ?two ?three ?sp) None newAnalyzer
          = Inr (Basic INTEGER, newAnalyzer)"
    using inferExpressionType_arithmetic [OF pow two three, of ?sp] by simp
  show "inferExpressionType (BinaryExpression ''/'' ?two ?three ?sp) None newAnalyzer
          = Inr (Basic REAL, newAnalyzer)"
    using inferExpressionType_arithmetic [OF quot two three, of ?sp] by simp
next
  let ?s = "Literal (StringValue ''a'') STRING
              \<lparr>startLine = 1, startColumn = 8, spanEndLine = 1, spanEndColumn = 10\<rparr>"
  let ?three = "Literal (NumberValue (Integer 3)) INTEGER
                  \<lparr>startLine = 1, startColumn = 14, spanEndLine = 1, spanEndColumn = 14\<rparr>"
  let ?sp = "\<lparr>startLine = 1, startColumn = 8, spanEndLine = 1, spanEndColumn = 14\<rparr>"
  have s: "inferExpressionType ?s None newAnalyzer = Inr (Basic STRING, newAnalyzer)"
    by simp
  have three: "inferExpressionType ?three None newAnalyzer = Inr (Basic INTEGER, newAnalyzer)"
    by simp
  have plus: "''+'' \<in> set [''+'', ''-'', ''*'', ''/'', ''^'']"
    by simp
  have none: "Analyzer.diagnostics newAnalyzer = []"
    by (simp add: newAnalyzer_def)
  show "inferExpressionType (BinaryExpression ''+'' ?s ?three ?sp) None newAnalyzer
          = Inr (Unknown,
                 newAnalyzer\<lparr>diagnostics :=
                   [\<lparr>code = ''SEM022'', message = ''Operator + requires numeric operands.'',
                     severity = Error, line = 1, column = 8, endLine = 1, endColumn = 14,
                     hint = None\<rparr>]\<rparr>)"
    using inferExpressionType_arithmetic [OF plus s three, of ?sp] by (simp add: none)
qed

text \<open>
  The same expression in a program, \<^verbatim>\<open>OUTPUT "a" + 3\<close>: the analysis reports \<open>SEM022\<close> at
  the start of the expression, and nothing else.
\<close>

lemma analyze_nonNumericOperandProgram:
  "diagnosticPlaces (analyzeProgram nonNumericOperandProgram) = Inr [(1, 8, ''SEM022'')]"
  by code_simp

subsection \<open>The analyzer on the programs of \<open>compiler.test.ts\<close>\<close>

text \<open>
  The tests expect no error for the totals program, \<open>SEM019\<close> for \<open>Value <- 7\<close>,
  \<open>SEM027\<close> for the grid program and \<open>SEM015\<close> for reading a file opened for writing
  (the last one is part of \<open>empty_file_name_not_tracked\<close> below).
\<close>

lemma analyze_test_programs:
  "diagnosticPlaces (analyzeProgram totalsProgram) = Inr []"
  "diagnosticPlaces (analyzeProgram undeclaredProgram) = Inr [(1, 1, ''SEM019'')]"
  "diagnosticPlaces (analyzeProgram gridProgram) = Inr [(3, 10, ''SEM027'')]"
  by code_simp+

subsection \<open>The \<open>RETURN\<close> check of a function body\<close>

lemma analyzeStatement_sawReturn:
  assumes "analyzeStatement statement scope cur openFiles sawReturn a
             = Inr ((scope1, openFiles1, sawReturn1), a1)"
  shows "sawReturn1 = (sawReturn \<or> isReturnStatement statement)"
proof (cases statement)
  case (DeclareStatement ident typeNode sp)
  with assms show ?thesis
    by (cases ident) (auto simp: Let_def split: prod.splits)
next
  case (ConstantStatement ident v sp)
  with assms show ?thesis
    by (cases ident) (auto simp: Let_def split: sum.splits prod.splits)
next
  case (ForStatement ident startValue endValue stepValue body sp)
  with assms show ?thesis
    by (cases ident) (auto simp: Let_def split: sum.splits prod.splits)
qed (use assms in \<open>auto simp: Let_def split: sum.splits prod.splits property.splits\<close>)

text \<open>
  What \<open>analyzeStatements\<close> returns: whether a \<open>RETURN\<close> stands in the statement list
  itself.  A \<open>RETURN\<close> inside a block of one of the statements does not count.
\<close>

lemma analyzeStatementsLoop_sawReturn:
  "analyzeStatementsLoop statements scope cur openFiles sawReturn a = Inr (r, a1)
   \<Longrightarrow> r = (sawReturn \<or> (\<exists>s \<in> set statements. isReturnStatement s))"
proof (induction statements arbitrary: scope openFiles sawReturn a)
  case Nil
  then show ?case by simp
next
  case (Cons statement rest)
  from Cons.prems obtain scope1 openFiles1 sawReturn1 a2 where
    s: "analyzeStatement statement scope cur openFiles sawReturn a
          = Inr ((scope1, openFiles1, sawReturn1), a2)" and
    l: "analyzeStatementsLoop rest scope1 cur openFiles1 sawReturn1 a2 = Inr (r, a1)"
    by (auto split: sum.splits)
  from analyzeStatement_sawReturn [OF s] Cons.IH [OF l] show ?case
    by auto
qed

lemma analyzeStatements_sawReturn:
  "analyzeStatements statements scope cur openFiles a = Inr (r, a1)
   \<Longrightarrow> r = (\<exists>s \<in> set statements. isReturnStatement s)"
  using analyzeStatementsLoop_sawReturn [of statements scope cur openFiles False a r a1]
  by simp

text \<open>
  Hence \<open>SEM011\<close> is pushed for a function definition exactly when no statement of the
  body's own list is a \<open>RETURN\<close>, wherever else in the body a \<open>RETURN\<close> may stand.
\<close>

lemma functionDefinition_SEM011:
  assumes "analyzeStatement (FunctionDefinition name params returnType body sp)
             scope cur openFiles sawReturn a = Inr (locals, a1)"
  shows "\<exists>a2. a1 = (if \<exists>s \<in> set body. isReturnStatement s then a2
                    else pushError sp ''SEM011''
                           (''Function '' @ quoted name @ '' must contain a RETURN statement.'') a2)"
proof -
  obtain functionScope a0 where
    d: "defineParams params (Scope Map.empty (Some scope)) a = (functionScope, a0)"
    by (cases "defineParams params (Scope Map.empty (Some scope)) a")
  from assms d obtain returned a2 where
    b: "analyzeStatements body functionScope (Some (Basic returnType)) Map.empty a0
          = Inr (returned, a2)" and
    r: "a1 = (if \<not> returned then
                pushError sp ''SEM011''
                  (''Function '' @ quoted name @ '' must contain a RETURN statement.'') a2
              else a2)"
    by (auto split: sum.splits simp del: analyzeStatements.simps)
  from analyzeStatements_sawReturn [OF b] r show ?thesis
    by auto
qed

text \<open>
  C2.  A function whose only \<open>RETURN\<close> statements stand in the two branches of an \<open>IF\<close>:
  the analyzer reports \<open>SEM011\<close>, at the function's first token, and nothing else.  The
  specification says a nested \<open>RETURN\<close> suppresses \<open>SEM011\<close>.
\<close>

theorem nested_return_reports_SEM011:
  "diagnosticPlaces (analyzeProgram nestedReturnProgram) = Inr [(1, 1, ''SEM011'')]"
  by code_simp

subsection \<open>Unknown types\<close>

text \<open>
  C4.  \<open>OUTPUT x + 1\<close> with \<open>x\<close> undeclared is reported twice, \<open>SEM019\<close> for \<open>x\<close> and \<open>SEM022\<close>
  for the sum; an undeclared array index is reported as \<open>SEM019\<close> and \<open>SEM028\<close>.  The
  specification says the unknown type of \<open>x\<close> yields no second diagnostic.
\<close>

theorem unknown_operand_reported_twice:
  "diagnosticPlaces (analyzeProgram unknownOperandProgram)
     = Inr [(1, 8, ''SEM019''), (1, 8, ''SEM022'')]
   \<and> diagnosticPlaces (analyzeProgram unknownIndexProgram)
     = Inr [(2, 10, ''SEM019''), (2, 10, ''SEM028'')]"
  by code_simp

text \<open>
  The unknown type is accepted where types are compared for compatibility (assignment,
  \<open>RETURN\<close>, arguments), and only there: it is neither numeric nor \<open>BOOLEAN\<close> nor \<open>INTEGER\<close>.
\<close>

lemma typesCompatible_Unknown: "typesCompatible Unknown t" "typesCompatible t Unknown"
  by (cases t; simp)+

lemma Unknown_not_numeric: "\<not> isNumeric Unknown" "\<not> isBoolean Unknown" "Unknown \<noteq> Basic INTEGER"
  by simp_all

subsection \<open>File modes\<close>

lemma literalFileName_literal:
  "literalFileName (Literal (StringValue f) STRING lsp) scope a = Inr (Some f, a)"
  by simp

lemma openfile_literal:
  "analyzeStatement (OpenFileStatement (Literal (StringValue f) STRING lsp) fileMode sp)
     scope cur openFiles sawReturn a
   = Inr ((scope, if f \<noteq> [] then js_set_string openFiles f fileMode else openFiles, sawReturn), a)"
  by simp

lemma closefile_literal:
  "analyzeStatement (CloseFileStatement (Literal (StringValue f) STRING lsp) sp)
     scope cur openFiles sawReturn a
   = Inr ((scope, if f \<noteq> [] then openFiles(f := None) else openFiles, sawReturn), a)"
  by simp

text \<open>
  \<open>READFILE\<close> on a literal name that is not empty and is recorded in \<open>WRITE\<close> mode pushes
  \<open>SEM015\<close>; \<open>WRITEFILE\<close> on one recorded in \<open>READ\<close> mode pushes \<open>SEM016\<close>.
\<close>

lemma readfile_write_mode:
  assumes "f \<noteq> []" and "openFiles f = Some WRITE"
  shows "analyzeStatement (ReadFileStatement (Literal (StringValue f) STRING lsp) target sp)
           scope cur openFiles sawReturn a
         = (case resolveAssignableType target scope
                  (pushError sp ''SEM015''
                     (''READFILE used on write-only handle '' @ quoted f @ ''.'') a) of
              Inl e \<Rightarrow> Inl e
            | Inr (targetType, a1) \<Rightarrow> Inr ((scope, openFiles, sawReturn), a1))"
  using assms by (simp add: js_get_def)

lemma writefile_read_mode:
  assumes "f \<noteq> []" and "openFiles f = Some READ"
  shows "analyzeStatement (WriteFileStatement (Literal (StringValue f) STRING lsp) v sp)
           scope cur openFiles sawReturn a
         = (case inferExpressionType v (Some scope)
                  (pushError sp ''SEM016''
                     (''WRITEFILE used on read-only handle '' @ quoted f @ ''.'') a) of
              Inl e \<Rightarrow> Inl e
            | Inr (valueType, a1) \<Rightarrow> Inr ((scope, openFiles, sawReturn), a1))"
  using assms by (simp add: js_get_def)

text \<open>
  When the file identifier is not a string literal, \<open>literalFileName\<close> returns \<open>null\<close>
  after inferring its type.  Then \<open>openFiles\<close> is left as it is, no mode is checked and
  the statement goes on to infer the type of the identifier (a second time) and of its
  other operand.
\<close>

lemma openfile_not_literal:
  assumes "literalFileName fileIdentifier scope a = Inr (None, a1)"
  shows "analyzeStatement (OpenFileStatement fileIdentifier fileMode sp)
           scope cur openFiles sawReturn a
         = (case inferExpressionType fileIdentifier (Some scope) a1 of
              Inl e \<Rightarrow> Inl e
            | Inr (t, a2) \<Rightarrow> Inr ((scope, openFiles, sawReturn), a2))"
  using assms by simp

lemma closefile_not_literal:
  assumes "literalFileName fileIdentifier scope a = Inr (None, a1)"
  shows "analyzeStatement (CloseFileStatement fileIdentifier sp)
           scope cur openFiles sawReturn a
         = (case inferExpressionType fileIdentifier (Some scope) a1 of
              Inl e \<Rightarrow> Inl e
            | Inr (t, a2) \<Rightarrow> Inr ((scope, openFiles, sawReturn), a2))"
  using assms by simp

lemma readfile_not_literal:
  assumes "literalFileName fileIdentifier scope a = Inr (None, a1)"
  shows "analyzeStatement (ReadFileStatement fileIdentifier target sp)
           scope cur openFiles sawReturn a
         = (case inferExpressionType fileIdentifier (Some scope) a1 of
              Inl e \<Rightarrow> Inl e
            | Inr (t, a2) \<Rightarrow>
                (case resolveAssignableType target scope a2 of
                   Inl e \<Rightarrow> Inl e
                 | Inr (targetType, a3) \<Rightarrow> Inr ((scope, openFiles, sawReturn), a3)))"
  using assms by simp

lemma writefile_not_literal:
  assumes "literalFileName fileIdentifier scope a = Inr (None, a1)"
  shows "analyzeStatement (WriteFileStatement fileIdentifier v sp)
           scope cur openFiles sawReturn a
         = (case inferExpressionType fileIdentifier (Some scope) a1 of
              Inl e \<Rightarrow> Inl e
            | Inr (t, a2) \<Rightarrow>
                (case inferExpressionType v (Some scope) a2 of
                   Inl e \<Rightarrow> Inl e
                 | Inr (valueType, a3) \<Rightarrow> Inr ((scope, openFiles, sawReturn), a3)))"
  using assms by simp

text \<open>
  A file name that \<open>Object.prototype\<close> knows is found in \<open>openFiles\<close> without having been
  opened: \<open>READFILE "toString", Line\<close> alone is reported as \<open>SEM015\<close>.
\<close>

lemma inherited_file_name_reported:
  "diagnosticPlaces (analyzeProgram inheritedNameProgram) = Inr [(2, 1, ''SEM015'')]"
  by code_simp

text \<open>
  C7.  With the file name \<open>FileA.txt\<close> the analyzer reports \<open>SEM015\<close> for a \<open>READFILE\<close>
  that follows \<open>OPENFILE \<dots> FOR WRITE\<close>.  With the empty string literal as the file name
  it reports nothing: \<open>OPENFILE ""\<close> records no mode, because the empty name fails the
  test \<open>if (fileName)\<close> that was written to tell a literal from \<open>null\<close>.  The specification says
  the mode of every string literal is recorded and checked.
\<close>

theorem empty_file_name_not_tracked:
  "diagnosticPlaces (analyzeProgram (readAfterWriteProgram ''FileA.txt'')) = Inr [(3, 1, ''SEM015'')]
   \<and> diagnosticPlaces (analyzeProgram (readAfterWriteProgram '''')) = Inr []"
  by code_simp

subsection \<open>Exceptions\<close>

text \<open>
  A call of a routine named \<open>constructor\<close> finds \<open>Object.prototype.constructor\<close> in the
  signature table, reads its \<open>params\<close> (\<open>undefined\<close>) and raises in
  \<open>validateCallArguments\<close>.
\<close>

lemma call_constructor_raises:
  assumes "toLowerCase name = ''constructor''"
    and "procedureSignatures a ''constructor'' = None"
  shows "analyzeStatement (CallStatement name args sp) scope cur openFiles sawReturn a
           = Inl undefinedLength"
  using assms by (simp add: js_get_def Object_prototype_keys_def validateCallArguments_def)

text \<open>
  C9.  For the source text \<open>CALL constructor\<close> the analyzer raises a \<open>TypeError\<close>, and
  \<open>compilePseudocode\<close>, which catches nothing, passes it on to its caller; likewise for
  \<open>OUTPUT constructor()\<close>.  The specification says no source text makes the compiler raise.
\<close>

theorem call_constructor_TypeError:
  "diagnosticCodes (analyzeProgram callConstructorProgram) = Inl undefinedLength
   \<and> compilePseudocode (imports\<lparr>parseSource := \<lambda>src. (callConstructorProgram, [])\<rparr>) request
       = Inl undefinedLength
   \<and> compilePseudocode (imports\<lparr>parseSource := \<lambda>src. (callConstructorExpressionProgram, [])\<rparr>)
         request
       = Inl undefinedLength"
proof -
  have c1: "diagnosticCodes (analyzeProgram callConstructorProgram) = Inl undefinedLength"
    by code_simp
  have c2: "diagnosticCodes (analyzeProgram callConstructorExpressionProgram) = Inl undefinedLength"
    by code_simp
  have 1: "analyzeProgram callConstructorProgram = Inl undefinedLength"
    using c1 by (cases "analyzeProgram callConstructorProgram") (simp_all add: diagnosticCodes_def)
  have 2: "analyzeProgram callConstructorExpressionProgram = Inl undefinedLength"
    using c2
    by (cases "analyzeProgram callConstructorExpressionProgram") (simp_all add: diagnosticCodes_def)
  show ?thesis
    by (simp add: compilePseudocode_def diagnosticCodes_def 1 2)
qed

subsection \<open>The analyzer returns on safe programs\<close>

lemma toUpperCase_char:
  "(case map_of (zip lowerLetters upperLetters) c of Some u \<Rightarrow> u | None \<Rightarrow> c) \<notin> set lowerLetters"
proof (cases "map_of (zip lowerLetters upperLetters) c")
  case None
  then have "c \<notin> fst ` set (zip lowerLetters upperLetters)"
    by (simp add: map_of_eq_None_iff)
  moreover have "fst ` set (zip lowerLetters upperLetters) = set lowerLetters"
    by (simp add: lowerLetters_def upperLetters_def)
  ultimately show ?thesis using None by simp
next
  case (Some u)
  then have "(c, u) \<in> set (zip lowerLetters upperLetters)"
    by (rule map_of_SomeD)
  then have "u \<in> set upperLetters"
    by (rule set_zip_rightD)
  then have "u \<notin> set lowerLetters"
    by (auto simp: lowerLetters_def upperLetters_def)
  with Some show ?thesis by simp
qed

lemma toUpperCase_no_lower: "c \<in> set (toUpperCase s) \<Longrightarrow> c \<notin> set lowerLetters"
  using toUpperCase_char by (auto simp: toUpperCase_def)

text \<open>No key of \<open>Object.prototype\<close> is free of lowercase letters.\<close>

lemma toUpperCase_not_inherited: "toUpperCase s \<notin> set Object_prototype_keys"
proof
  assume "toUpperCase s \<in> set Object_prototype_keys"
  then have "CHR ''o'' \<in> set (toUpperCase s) \<or> CHR ''e'' \<in> set (toUpperCase s)"
    by (auto simp: Object_prototype_keys_def)
  then show False
    using toUpperCase_no_lower [of _ s] by (auto simp: lowerLetters_def)
qed

lemma builtin_lookup:
  "js_get BUILTIN_FUNCTIONS (toUpperCase name) = Undefined
   \<or> (\<exists>n ps r. js_get BUILTIN_FUNCTIONS (toUpperCase name) = Own (FunctionSignature n ps r))"
proof (cases "BUILTIN_FUNCTIONS (toUpperCase name)")
  case None
  then show ?thesis
    using toUpperCase_not_inherited [of name] by (simp add: js_get_def)
next
  case (Some signature)
  then show ?thesis
    by (cases signature) (simp add: js_get_def)
qed

lemma safe_lookup:
  assumes "\<not> inheritedName name"
  shows "js_get table (toLowerCase name) = Undefined
         \<or> (\<exists>signature. js_get table (toLowerCase name) = Own signature)"
  using assms by (cases "table (toLowerCase name)") (simp_all add: js_get_def inheritedName_def)

lemma forEachIndex_returns:
  assumes "\<And>x sc b. x \<in> set indices \<Longrightarrow> \<exists>t b1. inferExpressionType x sc b = Inr (t, b1)"
  shows "\<exists>a1. forEachIndex indices scope a = Inr a1"
  using assms
proof (induction indices arbitrary: a)
  case Nil
  then show ?case by simp
next
  case (Cons index rest)
  from Cons.prems [of index scope a] obtain t b1 where
    "inferExpressionType index scope a = Inr (t, b1)"
    by auto
  moreover have "\<exists>a1. forEachIndex rest scope b = Inr a1" for b
    using Cons.IH [of b] Cons.prems by auto
  ultimately show ?case by simp
qed

lemma forEachArg_returns:
  assumes "\<And>x sc b. x \<in> set args \<Longrightarrow> \<exists>t b1. inferExpressionType x sc b = Inr (t, b1)"
  shows "\<exists>a1. forEachArg args index ex name scope a = Inr a1"
  using assms
proof (induction args arbitrary: a index)
  case Nil
  then show ?case by simp
next
  case (Cons arg rest)
  from Cons.prems [of arg scope a] obtain t b1 where
    "inferExpressionType arg scope a = Inr (t, b1)"
    by auto
  moreover have "\<exists>a1. forEachArg rest i ex name scope b = Inr a1" for b i
    using Cons.IH [of i b] Cons.prems by auto
  ultimately show ?case by simp
qed

lemma validateCallArgsWithScope_returns:
  assumes "\<And>x sc b. x \<in> set args \<Longrightarrow> \<exists>t b1. inferExpressionType x sc b = Inr (t, b1)"
  shows "\<exists>a1. validateCallArgsWithScope args (Some ex) sp name scope a = Inr a1"
  using forEachArg_returns [OF assms, of args 0 ex name scope a] by simp

lemma resolveArrayAccessType_returns:
  assumes "\<And>x sc b. x \<in> set indices \<Longrightarrow> \<exists>t b1. inferExpressionType x sc b = Inr (t, b1)"
  shows "\<exists>t a1. resolveArrayAccessType name indices sp scope a = Inr (t, a1)"
proof -
  from forEachIndex_returns [OF assms, of indices scope a] obtain a1 where
    "forEachIndex indices scope a = Inr a1"
    by auto
  then show ?thesis
    by (auto split: option.splits StaticType.splits)
qed

lemma inferExpressionType_returns:
  "safeExpression e \<Longrightarrow> \<exists>t a1. inferExpressionType e scope a = Inr (t, a1)"
proof (induction e arbitrary: scope a)
  case (Literal v literalType sp)
  show ?case by simp
next
  case (Identifier name sp)
  show ?case by (auto split: option.splits)
next
  case (UnaryExpression operator operand sp)
  then obtain t a1 where "inferExpressionType operand scope a = Inr (t, a1)"
    by fastforce
  then show ?case by simp
next
  case (BinaryExpression op left right sp)
  then obtain lt a1 where l: "inferExpressionType left scope a = Inr (lt, a1)"
    by fastforce
  from BinaryExpression obtain rt a2 where r: "inferExpressionType right scope a1 = Inr (rt, a2)"
    by fastforce
  from l r show ?case by simp
next
  case (CallExpression name args sp)
  have elems: "\<exists>t b1. inferExpressionType x sc b = Inr (t, b1)" if "x \<in> set args" for x sc b
    using CallExpression that by (auto simp: list_all_iff)
  have safe: "\<not> inheritedName name"
    using CallExpression.prems by simp
  have v: "\<exists>a1. validateCallArgsWithScope args (Some ex) sp name scope a = Inr a1" for ex
    using validateCallArgsWithScope_returns [of args] elems by blast
  from builtin_lookup [of name] show ?case
  proof
    assume b: "js_get BUILTIN_FUNCTIONS (toUpperCase name) = Undefined"
    from safe_lookup [OF safe, of "functionSignatures a"] show ?thesis
    proof
      assume "js_get (functionSignatures a) (toLowerCase name) = Undefined"
      with b show ?thesis by simp
    next
      assume "\<exists>signature. js_get (functionSignatures a) (toLowerCase name) = Own signature"
      then obtain n ps r where
        s: "js_get (functionSignatures a) (toLowerCase name) = Own (FunctionSignature n ps r)"
        by (metis FunctionSignature.exhaust)
      from v [of ps] obtain a1 where
        "validateCallArgsWithScope args (Some ps) sp name scope a = Inr a1"
        by auto
      with b s show ?thesis
        by (simp del: validateCallArgsWithScope.simps)
    qed
  next
    assume "\<exists>n ps r. js_get BUILTIN_FUNCTIONS (toUpperCase name) = Own (FunctionSignature n ps r)"
    then obtain n ps r where
      b: "js_get BUILTIN_FUNCTIONS (toUpperCase name) = Own (FunctionSignature n ps r)"
      by auto
    from v [of ps] obtain a1 where
      "validateCallArgsWithScope args (Some ps) sp name scope a = Inr a1"
      by auto
    with b show ?thesis
      by (simp del: validateCallArgsWithScope.simps)
  qed
next
  case (ArrayAccess name indices sp)
  have "\<exists>t b1. inferExpressionType x sc b = Inr (t, b1)" if "x \<in> set indices" for x sc b
    using ArrayAccess that by (auto simp: list_all_iff)
  from resolveArrayAccessType_returns [of indices name sp scope a, OF this] show ?case
    by (simp del: resolveArrayAccessType.simps)
qed

lemma validateCallArguments_returns:
  assumes "list_all safeExpression args"
  shows "\<exists>a1. validateCallArguments args (Some ex) sp name scope a = Inr a1"
proof -
  have "\<exists>t b1. inferExpressionType x sc b = Inr (t, b1)" if "x \<in> set args" for x sc b
    using assms that inferExpressionType_returns by (auto simp: list_all_iff)
  from forEachArg_returns [of args 0 ex name "Some scope" a, OF this] show ?thesis
    by (simp add: validateCallArguments_def)
qed

lemma resolveAssignableType_returns:
  assumes "safeExpression target"
  shows "\<exists>t a1. resolveAssignableType target scope a = Inr (t, a1)"
proof (cases target)
  case (Identifier name sp)
  then show ?thesis by (auto split: option.splits)
next
  case (ArrayAccess name indices sp)
  have "\<exists>t b1. inferExpressionType x sc b = Inr (t, b1)" if "x \<in> set indices" for x sc b
    using assms ArrayAccess that inferExpressionType_returns by (auto simp: list_all_iff)
  from resolveArrayAccessType_returns [of indices name sp "Some scope" a, OF this] ArrayAccess
  show ?thesis
    by (simp del: resolveArrayAccessType.simps)
qed simp_all

lemma literalFileName_returns:
  assumes "safeExpression fileIdentifier"
  shows "\<exists>n a1. literalFileName fileIdentifier scope a = Inr (n, a1)"
proof -
  from inferExpressionType_returns [OF assms, of "Some scope" a] obtain t a1 where
    "inferExpressionType fileIdentifier (Some scope) a = Inr (t, a1)"
    by auto
  then show ?thesis
    by (cases "(fileIdentifier, scope, a)" rule: literalFileName.cases) auto
qed

lemma forEachBound_returns:
  assumes "list_all safeExpression bounds"
  shows "\<exists>a1. forEachBound bounds scope a = Inr a1"
  using assms
proof (induction bounds arbitrary: a)
  case Nil
  then show ?case by simp
next
  case (Cons expr rest)
  from Cons.prems inferExpressionType_returns [of expr "Some scope" a] obtain t b1 where
    "inferExpressionType expr (Some scope) a = Inr (t, b1)"
    by auto
  moreover have "\<exists>a1. forEachBound rest scope b = Inr a1" for b
    using Cons.IH [of b] Cons.prems by simp
  ultimately show ?case by simp
qed

lemma forEachValue_returns:
  assumes "list_all safeExpression vs"
  shows "\<exists>a1. forEachValue vs scope a = Inr a1"
  using assms
proof (induction vs arbitrary: a)
  case Nil
  then show ?case by simp
next
  case (Cons v rest)
  from Cons.prems inferExpressionType_returns [of v "Some scope" a] obtain t b1 where
    "inferExpressionType v (Some scope) a = Inr (t, b1)"
    by auto
  moreover have "\<exists>a1. forEachValue rest scope b = Inr a1" for b
    using Cons.IH [of b] Cons.prems by simp
  ultimately show ?case by simp
qed

text \<open>
  A statement list is analyzed without an exception when each of its statements is, in
  whatever state the loop reaches it.
\<close>

lemma analyzeStatementsLoop_returns:
  assumes "\<And>s sc cr fs sr b. s \<in> set statements
             \<Longrightarrow> \<exists>l b1. analyzeStatement s sc cr fs sr b = Inr (l, b1)"
  shows "\<exists>r a1. analyzeStatementsLoop statements scope cur openFiles sawReturn a = Inr (r, a1)"
  using assms
proof (induction statements arbitrary: scope openFiles sawReturn a)
  case Nil
  then show ?case by simp
next
  case (Cons statement rest)
  from Cons.prems [of statement scope cur openFiles sawReturn a]
  obtain scope1 openFiles1 sawReturn1 b1 where
    s: "analyzeStatement statement scope cur openFiles sawReturn a
          = Inr ((scope1, openFiles1, sawReturn1), b1)"
    by auto
  have "\<exists>r a1. analyzeStatementsLoop rest scope1 cur openFiles1 sawReturn1 b1 = Inr (r, a1)"
    using Cons.IH [of scope1 openFiles1 sawReturn1 b1] Cons.prems by auto
  with s show ?case by simp
qed

lemma analyzeStatements_returns:
  assumes "\<And>s sc cr fs sr b. s \<in> set statements
             \<Longrightarrow> \<exists>l b1. analyzeStatement s sc cr fs sr b = Inr (l, b1)"
  shows "\<exists>r a1. analyzeStatements statements scope cur openFiles a = Inr (r, a1)"
  using analyzeStatementsLoop_returns [OF assms, of statements scope cur openFiles False a]
  by simp

lemma analyzeClauses_returns:
  assumes "\<And>v s csp sc cr fs sr b. CaseClauseNode v s csp \<in> set clauses
             \<Longrightarrow> \<exists>l b1. analyzeStatement s sc cr fs sr b = Inr (l, b1)"
    and "list_all safeClause clauses"
  shows "\<exists>a1. analyzeClauses clauses scope cur openFiles a = Inr a1"
  using assms
proof (induction clauses arbitrary: a)
  case Nil
  then show ?case by simp
next
  case (Cons clause rest)
  obtain v s csp where c: "clause = CaseClauseNode v s csp"
    by (cases clause)
  have "\<exists>a0. (case v of None \<Rightarrow> Inr a
               | Some ve \<Rightarrow> (case inferExpressionType ve (Some scope) a of
                              Inl e \<Rightarrow> Inl e | Inr (t, a1) \<Rightarrow> Inr a1)) = Inr a0"
  proof (cases v)
    case None
    then show ?thesis by simp
  next
    case (Some ve)
    with Cons.prems c have "safeExpression ve" by simp
    from inferExpressionType_returns [OF this, of "Some scope" a] Some show ?thesis
      by auto
  qed
  then obtain a0 where
    a0: "(case v of None \<Rightarrow> Inr a
          | Some ve \<Rightarrow> (case inferExpressionType ve (Some scope) a of
                         Inl e \<Rightarrow> Inl e | Inr (t, a1) \<Rightarrow> Inr a1)) = Inr a0"
    by auto
  have one: "\<exists>l b1. analyzeStatement x sc cr fs sr b = Inr (l, b1)" if "x \<in> set [s]"
    for x sc cr fs sr b
    using Cons.prems(1) [of v s csp] c that by auto
  from analyzeStatements_returns [of "[s]" "Scope Map.empty (Some scope)" cur openFiles a0, OF one]
  obtain r a2 where
    b: "analyzeStatements [s] (Scope Map.empty (Some scope)) cur openFiles a0 = Inr (r, a2)"
    by auto
  have "\<exists>a3. analyzeClauses rest scope cur openFiles a2 = Inr a3"
  proof (rule Cons.IH)
    show "\<exists>l b1. analyzeStatement s' sc cr fs sr b' = Inr (l, b1)"
      if "CaseClauseNode v' s' csp' \<in> set rest" for v' s' csp' sc cr fs sr b'
      using Cons.prems(1) [of v' s' csp'] that by simp
    show "list_all safeClause rest"
      using Cons.prems(2) by simp
  qed
  with a0 b c show ?case
    by (auto simp del: analyzeStatements.simps)
qed

lemma analyzeStatement_returns_aux:
  fixes s :: StatementNode and c :: CaseClauseNode
  shows "safeStatement s \<longrightarrow>
           (\<forall>scope cur openFiles sawReturn a.
              \<exists>l a1. analyzeStatement s scope cur openFiles sawReturn a = Inr (l, a1))"
    and "safeClause c \<longrightarrow>
           (case c of CaseClauseNode v st csp \<Rightarrow>
              \<forall>scope cur openFiles sawReturn a.
                \<exists>l a1. analyzeStatement st scope cur openFiles sawReturn a = Inr (l, a1))"
proof (induction s and c)
  case (DeclareStatement ident typeNode sp)
  show ?case
    by (cases ident) (auto simp: Let_def split: prod.splits)
next
  case (ConstantStatement ident v sp)
  show ?case
  proof (intro impI allI)
    fix scope cur openFiles sawReturn a
    assume "safeStatement (ConstantStatement ident v sp)"
    then have "safeExpression v" by simp
    from inferExpressionType_returns [OF this, of "Some scope" a] obtain t a1 where
      "inferExpressionType v (Some scope) a = Inr (t, a1)"
      by auto
    then show "\<exists>l a1. analyzeStatement (ConstantStatement ident v sp)
                         scope cur openFiles sawReturn a = Inr (l, a1)"
      by (cases ident) (auto simp: Let_def split: prod.splits)
  qed
next
  case (AssignmentStatement target v sp)
  show ?case
  proof (intro impI allI)
    fix scope cur openFiles sawReturn a
    assume safe: "safeStatement (AssignmentStatement target v sp)"
    from safe resolveAssignableType_returns [of target scope a] obtain tt a1 where
      t: "resolveAssignableType target scope a = Inr (tt, a1)"
      by auto
    from safe inferExpressionType_returns [of v "Some scope" a1] obtain vt a2 where
      "inferExpressionType v (Some scope) a1 = Inr (vt, a2)"
      by auto
    with t show "\<exists>l a1. analyzeStatement (AssignmentStatement target v sp)
                           scope cur openFiles sawReturn a = Inr (l, a1)"
      by simp
  qed
next
  case (InputStatement target sp)
  show ?case
  proof (intro impI allI)
    fix scope cur openFiles sawReturn a
    assume safe: "safeStatement (InputStatement target sp)"
    from safe resolveAssignableType_returns [of target scope a] obtain tt a1 where
      "resolveAssignableType target scope a = Inr (tt, a1)"
      by auto
    then show "\<exists>l a1. analyzeStatement (InputStatement target sp)
                         scope cur openFiles sawReturn a = Inr (l, a1)"
      by simp
  qed
next
  case (OutputStatement vs sp)
  show ?case
  proof (intro impI allI)
    fix scope cur openFiles sawReturn a
    assume safe: "safeStatement (OutputStatement vs sp)"
    from safe forEachValue_returns [of vs scope a] obtain a1 where
      "forEachValue vs scope a = Inr a1"
      by auto
    then show "\<exists>l a1. analyzeStatement (OutputStatement vs sp)
                         scope cur openFiles sawReturn a = Inr (l, a1)"
      by simp
  qed
next
  case (IfStatement condition thenBody elseBody sp)
  show ?case
  proof (intro impI allI)
    fix scope cur openFiles sawReturn a
    assume safe: "safeStatement (IfStatement condition thenBody elseBody sp)"
    from safe inferExpressionType_returns [of condition "Some scope" a] obtain ct a1 where
      c: "inferExpressionType condition (Some scope) a = Inr (ct, a1)"
      by auto
    have thenp: "\<exists>l b1. analyzeStatement x sc cr fs sr b = Inr (l, b1)"
      if "x \<in> set thenBody" for x sc cr fs sr b
      using IfStatement.IH(1) [OF that] safe that by (auto simp: list_all_iff)
    have elsep: "\<exists>l b1. analyzeStatement x sc cr fs sr b = Inr (l, b1)"
      if "x \<in> set elseBody" for x sc cr fs sr b
      using IfStatement.IH(2) [OF that] safe that by (auto simp: list_all_iff)
    let ?a2 = "if \<not> isBoolean ct then
                 pushError (expressionSpan condition) ''SEM004''
                   ''IF condition must evaluate to BOOLEAN.'' a1
               else a1"
    from analyzeStatements_returns [of thenBody "Scope Map.empty (Some scope)" cur openFiles ?a2,
        OF thenp]
    obtain r1 a3 where
      t: "analyzeStatements thenBody (Scope Map.empty (Some scope)) cur openFiles ?a2 = Inr (r1, a3)"
      by auto
    from analyzeStatements_returns [of elseBody "Scope Map.empty (Some scope)" cur openFiles a3,
        OF elsep]
    obtain r2 a4 where
      e: "analyzeStatements elseBody (Scope Map.empty (Some scope)) cur openFiles a3 = Inr (r2, a4)"
      by auto
    from c t e show "\<exists>l a1. analyzeStatement (IfStatement condition thenBody elseBody sp)
                             scope cur openFiles sawReturn a = Inr (l, a1)"
      by (simp add: Let_def del: analyzeStatements.simps)
  qed
next
  case (CaseStatement expression clauses sp)
  show ?case
  proof (intro impI allI)
    fix scope cur openFiles sawReturn a
    assume safe: "safeStatement (CaseStatement expression clauses sp)"
    from safe inferExpressionType_returns [of expression "Some scope" a] obtain t a1 where
      x: "inferExpressionType expression (Some scope) a = Inr (t, a1)"
      by auto
    have "\<exists>a2. analyzeClauses clauses scope cur openFiles a1 = Inr a2"
    proof (rule analyzeClauses_returns)
      show "\<exists>l b1. analyzeStatement st sc cr fs sr b = Inr (l, b1)"
        if "CaseClauseNode v st csp \<in> set clauses" for v st csp sc cr fs sr b
        using CaseStatement.IH [OF that] safe that by (auto simp: list_all_iff)
      show "list_all safeClause clauses"
        using safe by simp
    qed
    with x show "\<exists>l a1. analyzeStatement (CaseStatement expression clauses sp)
                           scope cur openFiles sawReturn a = Inr (l, a1)"
      by auto
  qed
next
  case (ForStatement ident startValue endValue stepValue body sp)
  show ?case
  proof (intro impI allI)
    fix scope cur openFiles sawReturn a
    assume safe: "safeStatement (ForStatement ident startValue endValue stepValue body sp)"
    obtain iterator isp where i: "ident = IdentifierNode iterator isp"
      by (cases ident)
    have bounds: "list_all safeExpression
                    ([startValue, endValue] @ (case stepValue of None \<Rightarrow> [] | Some st \<Rightarrow> [st]))"
      using safe by (cases stepValue) simp_all
    let ?a1 = "case Scope_lookup scope iterator of
                 None \<Rightarrow>
                   pushError isp ''SEM005''
                     (''Loop iterator '' @ quoted iterator @ '' must be declared before use.'') a
               | Some iteratorSymbol \<Rightarrow>
                   if symbolType iteratorSymbol \<noteq> Basic INTEGER then
                     pushError isp ''SEM006'' ''FOR iterator must be INTEGER.'' a
                   else a"
    from forEachBound_returns [OF bounds, of scope ?a1] obtain a2 where
      b: "forEachBound
            ([startValue, endValue] @ (case stepValue of None \<Rightarrow> [] | Some st \<Rightarrow> [st]))
            scope ?a1 = Inr a2"
      by auto
    have bodyp: "\<exists>l b1. analyzeStatement x sc cr fs sr b = Inr (l, b1)"
      if "x \<in> set body" for x sc cr fs sr b
      using ForStatement.IH [OF that] safe that by (auto simp: list_all_iff)
    from analyzeStatements_returns [of body "Scope Map.empty (Some scope)" cur openFiles a2,
        OF bodyp]
    obtain r a3 where
      "analyzeStatements body (Scope Map.empty (Some scope)) cur openFiles a2 = Inr (r, a3)"
      by auto
    with b i show "\<exists>l a1. analyzeStatement
                             (ForStatement ident startValue endValue stepValue body sp)
                             scope cur openFiles sawReturn a = Inr (l, a1)"
      by (simp add: Let_def del: analyzeStatements.simps forEachBound.simps)
  qed
next
  case (RepeatStatement body condition sp)
  show ?case
  proof (intro impI allI)
    fix scope cur openFiles sawReturn a
    assume safe: "safeStatement (RepeatStatement body condition sp)"
    have bodyp: "\<exists>l b1. analyzeStatement x sc cr fs sr b = Inr (l, b1)"
      if "x \<in> set body" for x sc cr fs sr b
      using RepeatStatement.IH [OF that] safe that by (auto simp: list_all_iff)
    from analyzeStatements_returns [of body "Scope Map.empty (Some scope)" cur openFiles a,
        OF bodyp]
    obtain r a1 where
      b: "analyzeStatements body (Scope Map.empty (Some scope)) cur openFiles a = Inr (r, a1)"
      by auto
    from safe inferExpressionType_returns [of condition "Some scope" a1] obtain ct a2 where
      "inferExpressionType condition (Some scope) a1 = Inr (ct, a2)"
      by auto
    with b show "\<exists>l a1. analyzeStatement (RepeatStatement body condition sp)
                           scope cur openFiles sawReturn a = Inr (l, a1)"
      by (simp del: analyzeStatements.simps)
  qed
next
  case (WhileStatement condition body sp)
  show ?case
  proof (intro impI allI)
    fix scope cur openFiles sawReturn a
    assume safe: "safeStatement (WhileStatement condition body sp)"
    from safe inferExpressionType_returns [of condition "Some scope" a] obtain ct a1 where
      c: "inferExpressionType condition (Some scope) a = Inr (ct, a1)"
      by auto
    have bodyp: "\<exists>l b1. analyzeStatement x sc cr fs sr b = Inr (l, b1)"
      if "x \<in> set body" for x sc cr fs sr b
      using WhileStatement.IH [OF that] safe that by (auto simp: list_all_iff)
    let ?a2 = "if \<not> isBoolean ct then
                 pushError (expressionSpan condition) ''SEM009''
                   ''WHILE condition must evaluate to BOOLEAN.'' a1
               else a1"
    from analyzeStatements_returns [of body "Scope Map.empty (Some scope)" cur openFiles ?a2,
        OF bodyp]
    obtain r a3 where
      "analyzeStatements body (Scope Map.empty (Some scope)) cur openFiles ?a2 = Inr (r, a3)"
      by auto
    with c show "\<exists>l a1. analyzeStatement (WhileStatement condition body sp)
                           scope cur openFiles sawReturn a = Inr (l, a1)"
      by (simp add: Let_def del: analyzeStatements.simps)
  qed
next
  case (ProcedureDefinition name params body sp)
  show ?case
  proof (intro impI allI)
    fix scope cur openFiles sawReturn a
    assume safe: "safeStatement (ProcedureDefinition name params body sp)"
    obtain procedureScope a1 where
      d: "defineParams params (Scope Map.empty (Some scope)) a = (procedureScope, a1)"
      by (cases "defineParams params (Scope Map.empty (Some scope)) a")
    have bodyp: "\<exists>l b1. analyzeStatement x sc cr fs sr b = Inr (l, b1)"
      if "x \<in> set body" for x sc cr fs sr b
      using ProcedureDefinition.IH [OF that] safe that by (auto simp: list_all_iff)
    from analyzeStatements_returns [of body procedureScope None Map.empty a1, OF bodyp]
    obtain r a2 where
      "analyzeStatements body procedureScope None Map.empty a1 = Inr (r, a2)"
      by auto
    with d show "\<exists>l a1. analyzeStatement (ProcedureDefinition name params body sp)
                           scope cur openFiles sawReturn a = Inr (l, a1)"
      by (simp del: analyzeStatements.simps)
  qed
next
  case (FunctionDefinition name params returnType body sp)
  show ?case
  proof (intro impI allI)
    fix scope cur openFiles sawReturn a
    assume safe: "safeStatement (FunctionDefinition name params returnType body sp)"
    obtain functionScope a1 where
      d: "defineParams params (Scope Map.empty (Some scope)) a = (functionScope, a1)"
      by (cases "defineParams params (Scope Map.empty (Some scope)) a")
    have bodyp: "\<exists>l b1. analyzeStatement x sc cr fs sr b = Inr (l, b1)"
      if "x \<in> set body" for x sc cr fs sr b
      using FunctionDefinition.IH [OF that] safe that by (auto simp: list_all_iff)
    from analyzeStatements_returns
           [of body functionScope "Some (Basic returnType)" Map.empty a1, OF bodyp]
    obtain r a2 where
      "analyzeStatements body functionScope (Some (Basic returnType)) Map.empty a1 = Inr (r, a2)"
      by auto
    with d show "\<exists>l a1. analyzeStatement (FunctionDefinition name params returnType body sp)
                           scope cur openFiles sawReturn a = Inr (l, a1)"
      by (simp del: analyzeStatements.simps)
  qed
next
  case (CallStatement name args sp)
  show ?case
  proof (intro impI allI)
    fix scope cur openFiles sawReturn a
    assume safe: "safeStatement (CallStatement name args sp)"
    then have n: "\<not> inheritedName name" and as: "list_all safeExpression args"
      by simp_all
    from safe_lookup [OF n, of "procedureSignatures a"]
    show "\<exists>l a1. analyzeStatement (CallStatement name args sp)
                   scope cur openFiles sawReturn a = Inr (l, a1)"
    proof
      assume "js_get (procedureSignatures a) (toLowerCase name) = Undefined"
      then show ?thesis by simp
    next
      assume "\<exists>signature. js_get (procedureSignatures a) (toLowerCase name) = Own signature"
      then obtain pn ps where
        s: "js_get (procedureSignatures a) (toLowerCase name) = Own (ProcedureSignature pn ps)"
        by (metis ProcedureSignature.exhaust)
      from validateCallArguments_returns [OF as, of ps sp name scope a] obtain a1 where
        "validateCallArguments args (Some ps) sp name scope a = Inr a1"
        by auto
      with s show ?thesis by simp
    qed
  qed
next
  case (ReturnStatement v sp)
  show ?case
  proof (intro impI allI)
    fix scope cur openFiles sawReturn a
    assume safe: "safeStatement (ReturnStatement v sp)"
    from safe inferExpressionType_returns [of v "Some scope" a] obtain t a1 where
      "inferExpressionType v (Some scope) a = Inr (t, a1)"
      by auto
    then show "\<exists>l a1. analyzeStatement (ReturnStatement v sp)
                         scope cur openFiles sawReturn a = Inr (l, a1)"
      by auto
  qed
next
  case (OpenFileStatement fileIdentifier fileMode sp)
  show ?case
  proof (intro impI allI)
    fix scope cur openFiles sawReturn a
    assume safe: "safeStatement (OpenFileStatement fileIdentifier fileMode sp)"
    from safe literalFileName_returns [of fileIdentifier scope a] obtain n a1 where
      l: "literalFileName fileIdentifier scope a = Inr (n, a1)"
      by auto
    from safe inferExpressionType_returns [of fileIdentifier "Some scope" a1] obtain t a2 where
      "inferExpressionType fileIdentifier (Some scope) a1 = Inr (t, a2)"
      by auto
    with l show "\<exists>l a1. analyzeStatement (OpenFileStatement fileIdentifier fileMode sp)
                           scope cur openFiles sawReturn a = Inr (l, a1)"
      by (simp add: Let_def)
  qed
next
  case (ReadFileStatement fileIdentifier target sp)
  show ?case
  proof (intro impI allI)
    fix scope cur openFiles sawReturn a
    assume safe: "safeStatement (ReadFileStatement fileIdentifier target sp)"
    from safe literalFileName_returns [of fileIdentifier scope a] obtain n a1 where
      l: "literalFileName fileIdentifier scope a = Inr (n, a1)"
      by auto
    let ?a2 = "if truthy n \<and> js_get openFiles (the n) \<noteq> Undefined
                  \<and> js_get openFiles (the n) \<noteq> Own READ then
                 pushError sp ''SEM015''
                   (''READFILE used on write-only handle '' @ quoted (the n) @ ''.'') a1
               else a1"
    from safe inferExpressionType_returns [of fileIdentifier "Some scope" ?a2] obtain t a3 where
      f: "inferExpressionType fileIdentifier (Some scope) ?a2 = Inr (t, a3)"
      by auto
    from safe resolveAssignableType_returns [of target scope a3] obtain tt a4 where
      "resolveAssignableType target scope a3 = Inr (tt, a4)"
      by auto
    with l f show "\<exists>l a1. analyzeStatement (ReadFileStatement fileIdentifier target sp)
                             scope cur openFiles sawReturn a = Inr (l, a1)"
      by (simp add: Let_def)
  qed
next
  case (WriteFileStatement fileIdentifier v sp)
  show ?case
  proof (intro impI allI)
    fix scope cur openFiles sawReturn a
    assume safe: "safeStatement (WriteFileStatement fileIdentifier v sp)"
    from safe literalFileName_returns [of fileIdentifier scope a] obtain n a1 where
      l: "literalFileName fileIdentifier scope a = Inr (n, a1)"
      by auto
    let ?a2 = "if truthy n \<and> js_get openFiles (the n) \<noteq> Undefined
                  \<and> js_get openFiles (the n) \<noteq> Own WRITE then
                 pushError sp ''SEM016''
                   (''WRITEFILE used on read-only handle '' @ quoted (the n) @ ''.'') a1
               else a1"
    from safe inferExpressionType_returns [of fileIdentifier "Some scope" ?a2] obtain t a3 where
      f: "inferExpressionType fileIdentifier (Some scope) ?a2 = Inr (t, a3)"
      by auto
    from safe inferExpressionType_returns [of v "Some scope" a3] obtain vt a4 where
      "inferExpressionType v (Some scope) a3 = Inr (vt, a4)"
      by auto
    with l f show "\<exists>l a1. analyzeStatement (WriteFileStatement fileIdentifier v sp)
                             scope cur openFiles sawReturn a = Inr (l, a1)"
      by (simp add: Let_def)
  qed
next
  case (CloseFileStatement fileIdentifier sp)
  show ?case
  proof (intro impI allI)
    fix scope cur openFiles sawReturn a
    assume safe: "safeStatement (CloseFileStatement fileIdentifier sp)"
    from safe literalFileName_returns [of fileIdentifier scope a] obtain n a1 where
      l: "literalFileName fileIdentifier scope a = Inr (n, a1)"
      by auto
    from safe inferExpressionType_returns [of fileIdentifier "Some scope" a1] obtain t a2 where
      "inferExpressionType fileIdentifier (Some scope) a1 = Inr (t, a2)"
      by auto
    with l show "\<exists>l a1. analyzeStatement (CloseFileStatement fileIdentifier sp)
                           scope cur openFiles sawReturn a = Inr (l, a1)"
      by (simp add: Let_def)
  qed
next
  case (CaseClauseNode clauseValue statement csp)
  then show ?case by simp
qed

lemma analyzeStatement_returns:
  "safeStatement s \<Longrightarrow> \<exists>l a1. analyzeStatement s scope cur openFiles sawReturn a = Inr (l, a1)"
  using analyzeStatement_returns_aux(1) [of s] by blast

text \<open>
  The analyzer returns a result for every safe program: a call of a routine with an
  inherited name is the only \<open>TypeError\<close> it raises.  (The recursion of the source over a
  very deep tree can also exhaust the call stack of its host, a \<open>RangeError\<close>; the call
  stack is not represented here.)
\<close>

lemma analyze_returns:
  assumes "safeProgram program"
  shows "\<exists>semanticResult. analyzeProgram program = Inr semanticResult"
proof -
  obtain body sp where p: "program = ProgramNode body sp"
    by (cases program)
  obtain globalScope a where
    d: "predeclareRoutines body (Scope Map.empty None) newAnalyzer = (globalScope, a)"
    by (cases "predeclareRoutines body (Scope Map.empty None) newAnalyzer")
  have "\<exists>l b1. analyzeStatement x sc cr fs sr b = Inr (l, b1)" if "x \<in> set body"
    for x sc cr fs sr b
    using assms p that analyzeStatement_returns [of x] by (auto simp: list_all_iff)
  from analyzeStatements_returns [of body globalScope None Map.empty a, OF this]
  obtain r a1 where "analyzeStatements body globalScope None Map.empty a = Inr (r, a1)"
    by auto
  with p d show ?thesis
    by (simp add: analyzeProgram_def analyze_def del: analyzeStatements.simps)
qed

section \<open>Properties of the code generator\<close>

lemma normalizeName_id: "normalizeName name = name"
  by (simp add: normalizeName_def)

text \<open>An identifier is written to the output as it is spelled where it is used.\<close>

lemma emitExpression_Identifier: "emitExpression (Identifier name sp) = name"
  by (simp add: normalizeName_def)

text \<open>
  Names are resolved by their lowercased form, in the analyzer's scopes and in the
  generator's type table alike.
\<close>

lemma Scope_lookup_case_insensitive:
  "toLowerCase name = toLowerCase name' \<Longrightarrow> Scope_lookup scope name = Scope_lookup scope name'"
proof (induction scope)
  case (Scope symbols parent)
  show ?case
  proof (cases parent)
    case None
    with Scope.prems show ?thesis by (simp split: option.splits)
  next
    case (Some p)
    with Scope show ?thesis by (simp split: option.splits)
  qed
qed

lemma lookupType_case_insensitive:
  "toLowerCase name = toLowerCase name' \<Longrightarrow> lookupType sem g name = lookupType sem g name'"
  by (simp add: lookupType_def)

text \<open>
  The generated program for the totals program of \<open>compiler.test.ts\<close>, without the
  prelude.  The test expects the \<open>for\<close> line and the \<open>__output\<close> line.
\<close>

lemma generate_totalsProgram:
  "case analyzeProgram totalsProgram of
     Inl e \<Rightarrow> False
   | Inr semanticResult \<Rightarrow>
       generateLines [] semanticResult totalsProgram
         = [''def __main__():'',
            ''    Total = 0'',
            ''    Index = 0'',
            ''    for Index in __inclusive_range(1, 3, 1):'',
            ''        Total = ((Total) + (Index))'',
            ''    __output(Total)'',
            '''',
            ''__main__()'']"
  by code_simp

text \<open>
  A \<open>FOR\<close> loop with the \<open>REAL\<close> step \<open>0.5\<close> passes the analyzer, which asks for numeric
  bounds and step only, and the step reaches \<open>__inclusive_range\<close> as it is written.
\<close>

lemma generate_realStepProgram:
  "diagnosticCodes (analyzeProgram realStepProgram) = Inr []
   \<and> (case analyzeProgram realStepProgram of
         Inl e \<Rightarrow> False
       | Inr semanticResult \<Rightarrow>
           generateLines [] semanticResult realStepProgram
             = [''def __main__():'',
                ''    Index = 0'',
                ''    for Index in __inclusive_range(1, 3, 0.5):'',
                ''        __output(Index)'',
                '''',
                ''__main__()''])"
  by code_simp

text \<open>
  C3.  \<open>DECLARE Total : INTEGER\<close> followed by \<open>OUTPUT total\<close>: the analyzer resolves
  \<open>total\<close> to the declared \<open>Total\<close> and reports nothing, and the generated program binds
  \<open>Total\<close> and reads \<open>total\<close>, another name in Python.  The specification says the emitted code
  uses the spelling of the first declaration at every occurrence.
\<close>

theorem mixed_case_emitted_verbatim:
  "diagnosticCodes (analyzeProgram mixedCaseProgram) = Inr []
   \<and> (case analyzeProgram mixedCaseProgram of
         Inl e \<Rightarrow> False
       | Inr semanticResult \<Rightarrow>
           generateLines [] semanticResult mixedCaseProgram
             = [''def __main__():'', ''    Total = 0'', ''    __output(total)'', '''',
                ''__main__()''])"
  by code_simp

section \<open>Properties of the facade\<close>

lemma compareDiagnostics_le: "compareDiagnostics a b \<le> 0 \<longleftrightarrow> diagnosticLe a b"
  by (auto simp: compareDiagnostics_def diagnosticLe_def localeCompare_def)

lemma diagnosticLe_total: "diagnosticLe a b \<or> diagnosticLe b a"
  by (auto simp: diagnosticLe_def)

lemma diagnosticLe_trans: "diagnosticLe a b \<Longrightarrow> diagnosticLe b c \<Longrightarrow> diagnosticLe a c"
  by (auto simp: diagnosticLe_def)

lemma set_insertBy: "set (insertBy f x xs) = insert x (set xs)"
  by (induction xs) auto

lemma set_Array_sort: "set (Array_sort f xs) = set xs"
  by (induction xs) (simp_all add: Array_sort_def set_insertBy)

lemma length_insertBy: "length (insertBy f x xs) = Suc (length xs)"
  by (induction xs) auto

lemma length_Array_sort: "length (Array_sort f xs) = length xs"
  by (induction xs) (simp_all add: Array_sort_def length_insertBy)

lemma sorted_insertBy:
  "sorted_wrt diagnosticLe xs \<Longrightarrow> sorted_wrt diagnosticLe (insertBy compareDiagnostics x xs)"
proof (induction xs)
  case Nil
  then show ?case by simp
next
  case (Cons y ys)
  show ?case
  proof (cases "compareDiagnostics x y \<le> 0")
    case True
    then have xy: "diagnosticLe x y"
      by (simp add: compareDiagnostics_le)
    have "\<forall>z \<in> set ys. diagnosticLe x z"
      using Cons.prems xy by (auto intro: diagnosticLe_trans)
    with True xy Cons.prems show ?thesis by simp
  next
    case False
    then have yx: "diagnosticLe y x"
      using diagnosticLe_total [of x y] by (simp add: compareDiagnostics_le)
    have "sorted_wrt diagnosticLe (insertBy compareDiagnostics x ys)"
      using Cons by simp
    moreover have "\<forall>z \<in> set (insertBy compareDiagnostics x ys). diagnosticLe y z"
      using Cons.prems yx by (auto simp: set_insertBy)
    ultimately show ?thesis
      using False by simp
  qed
qed

lemma sorted_Array_sort: "sorted_wrt diagnosticLe (Array_sort compareDiagnostics xs)"
  by (induction xs) (simp_all add: Array_sort_def sorted_insertBy)

lemma compilePseudocode_result:
  assumes "compilePseudocode imports request = Inr result"
  obtains ast parseDiagnostics semanticResult where
    "parseSource imports (source request) = (ast, parseDiagnostics)"
    "analyzeProgram ast = Inr semanticResult"
    "CompileResult.diagnostics result
       = Array_sort compareDiagnostics (parseDiagnostics @ Analyzer.diagnostics semanticResult)"
    "success result
       = (\<not> list_ex (\<lambda>d. severity d = Error) (CompileResult.diagnostics result))"
    "pythonCode result
       = (if success result
          then Some (generatePythonCode (preludeLines imports) ast semanticResult) else None)"
proof -
  obtain ast parseDiagnostics where p: "parseSource imports (source request) = (ast, parseDiagnostics)"
    by (cases "parseSource imports (source request)")
  from assms p obtain semanticResult where s: "analyzeProgram ast = Inr semanticResult"
    by (cases "analyzeProgram ast") (simp_all add: compilePseudocode_def)
  let ?ds = "Array_sort compareDiagnostics (parseDiagnostics @ Analyzer.diagnostics semanticResult)"
  have r: "result =
      (if list_ex (\<lambda>d. severity d = Error) ?ds then
         \<lparr>success = False, CompileResult.diagnostics = ?ds,
          astJson = Some (stringifyAst imports ast), pythonCode = None\<rparr>
       else
         \<lparr>success = True, CompileResult.diagnostics = ?ds,
          astJson = Some (stringifyAst imports ast),
          pythonCode = Some (generatePythonCode (preludeLines imports) ast semanticResult)\<rparr>)"
    using assms p s by (simp add: compilePseudocode_def Let_def split: if_splits)
  show thesis
  proof (rule that [OF p s])
    show "CompileResult.diagnostics result = ?ds"
      by (simp add: r)
    show "success result
            = (\<not> list_ex (\<lambda>d. severity d = Error) (CompileResult.diagnostics result))"
      by (simp add: r)
    show "pythonCode result
            = (if success result
               then Some (generatePythonCode (preludeLines imports) ast semanticResult) else None)"
      by (simp add: r)
  qed
qed

text \<open>
  C1.  Whenever \<open>compilePseudocode\<close> returns a result, \<open>success\<close> is true exactly when no
  diagnostic of the returned list has severity \<open>error\<close>, and exactly when \<open>pythonCode\<close> is
  present.  The returned list holds the diagnostics of the parser and of the analyzer,
  all of them and nothing else.
\<close>

theorem compilePseudocode_success_iff:
  assumes "compilePseudocode imports request = Inr result"
  shows "(success result \<longleftrightarrow> \<not> (\<exists>d \<in> set (CompileResult.diagnostics result). severity d = Error))
         \<and> (success result \<longleftrightarrow> pythonCode result \<noteq> None)
         \<and> (\<exists>ast parseDiagnostics semanticResult.
               parseSource imports (source request) = (ast, parseDiagnostics)
               \<and> analyzeProgram ast = Inr semanticResult
               \<and> set (CompileResult.diagnostics result)
                   = set parseDiagnostics \<union> set (Analyzer.diagnostics semanticResult)
               \<and> length (CompileResult.diagnostics result)
                   = length parseDiagnostics + length (Analyzer.diagnostics semanticResult))"
proof -
  from assms obtain ast parseDiagnostics semanticResult where
    p: "parseSource imports (source request) = (ast, parseDiagnostics)" and
    s: "analyzeProgram ast = Inr semanticResult" and
    d: "CompileResult.diagnostics result
          = Array_sort compareDiagnostics (parseDiagnostics @ Analyzer.diagnostics semanticResult)" and
    ok: "success result
          = (\<not> list_ex (\<lambda>d. severity d = Error) (CompileResult.diagnostics result))" and
    py: "pythonCode result
          = (if success result
             then Some (generatePythonCode (preludeLines imports) ast semanticResult) else None)"
    by (rule compilePseudocode_result)
  have "success result \<longleftrightarrow> \<not> (\<exists>d \<in> set (CompileResult.diagnostics result). severity d = Error)"
    by (simp add: ok list_ex_iff)
  moreover have "success result \<longleftrightarrow> pythonCode result \<noteq> None"
    by (simp add: py)
  moreover have "set (CompileResult.diagnostics result)
                   = set parseDiagnostics \<union> set (Analyzer.diagnostics semanticResult)"
    by (simp add: d set_Array_sort)
  moreover have "length (CompileResult.diagnostics result)
                   = length parseDiagnostics + length (Analyzer.diagnostics semanticResult)"
    by (simp add: d length_Array_sort)
  ultimately show ?thesis
    using p s by blast
qed

text \<open>
  C8.  Whenever \<open>compilePseudocode\<close> returns a result, its diagnostic list is ordered by
  line, then column, then code: every diagnostic is at most every later one in that
  order, adjacent pairs in particular.
\<close>

theorem compilePseudocode_sorted:
  assumes "compilePseudocode imports request = Inr result"
  shows "sorted_wrt diagnosticLe (CompileResult.diagnostics result)"
  using assms
proof (rule compilePseudocode_result)
  fix ast parseDiagnostics semanticResult
  assume "CompileResult.diagnostics result
            = Array_sort compareDiagnostics (parseDiagnostics @ Analyzer.diagnostics semanticResult)"
  then show ?thesis
    by (simp add: sorted_Array_sort)
qed

text \<open>
  The facade at two programs: the empty one, which compiles, and \<open>Value <- 7\<close>, which
  does not.
\<close>

lemma compile_emptyProgram:
  "case compilePseudocode
          \<lparr>parseSource = \<lambda>src. (emptyProgram, []), stringifyAst = \<lambda>ast. [], preludeLines = []\<rparr>
          \<lparr>source = [], filename = ''main.pseudo'', strict = ()\<rparr> of
     Inl e \<Rightarrow> False
   | Inr result \<Rightarrow> success result \<and> CompileResult.diagnostics result = []"
  by code_simp

lemma compile_undeclaredProgram:
  "case compilePseudocode
          \<lparr>parseSource = \<lambda>src. (undeclaredProgram, []), stringifyAst = \<lambda>ast. [],
           preludeLines = []\<rparr>
          \<lparr>source = ''Value <- 7'', filename = ''main.pseudo'', strict = ()\<rparr> of
     Inl e \<Rightarrow> False
   | Inr result \<Rightarrow>
       \<not> success result \<and> map code (CompileResult.diagnostics result) = [''SEM019'']"
  by code_simp

theorem compilePseudocode_success_iff_witness:
  "(\<exists>result.
      compilePseudocode
        \<lparr>parseSource = \<lambda>src. (emptyProgram, []), stringifyAst = \<lambda>ast. [], preludeLines = []\<rparr>
        \<lparr>source = [], filename = ''main.pseudo'', strict = ()\<rparr> = Inr result
      \<and> success result \<and> pythonCode result \<noteq> None
      \<and> \<not> (\<exists>d \<in> set (CompileResult.diagnostics result). severity d = Error))
   \<and> (\<exists>result.
      compilePseudocode
        \<lparr>parseSource = \<lambda>src. (undeclaredProgram, []), stringifyAst = \<lambda>ast. [],
         preludeLines = []\<rparr>
        \<lparr>source = ''Value <- 7'', filename = ''main.pseudo'', strict = ()\<rparr> = Inr result
      \<and> \<not> success result \<and> pythonCode result = None
      \<and> (\<exists>d \<in> set (CompileResult.diagnostics result). severity d = Error))"
proof
  let ?imports = "\<lparr>parseSource = \<lambda>src. (emptyProgram, []), stringifyAst = \<lambda>ast. [],
                   preludeLines = []\<rparr>"
  let ?request = "\<lparr>source = [], filename = ''main.pseudo'', strict = ()\<rparr>"
  from compile_emptyProgram obtain result where
    r: "compilePseudocode ?imports ?request = Inr result" and ok: "success result"
    by (cases "compilePseudocode ?imports ?request") auto
  from compilePseudocode_success_iff [OF r] ok
  have "pythonCode result \<noteq> None"
    and "\<not> (\<exists>d \<in> set (CompileResult.diagnostics result). severity d = Error)"
    by blast+
  with r ok show "\<exists>result. compilePseudocode ?imports ?request = Inr result
      \<and> success result \<and> pythonCode result \<noteq> None
      \<and> \<not> (\<exists>d \<in> set (CompileResult.diagnostics result). severity d = Error)"
    by blast
next
  let ?imports = "\<lparr>parseSource = \<lambda>src. (undeclaredProgram, []), stringifyAst = \<lambda>ast. [],
                   preludeLines = []\<rparr>"
  let ?request = "\<lparr>source = ''Value <- 7'', filename = ''main.pseudo'', strict = ()\<rparr>"
  from compile_undeclaredProgram obtain result where
    r: "compilePseudocode ?imports ?request = Inr result" and no: "\<not> success result"
    by (cases "compilePseudocode ?imports ?request") auto
  from compilePseudocode_success_iff [OF r] no
  have "pythonCode result = None"
    and "\<exists>d \<in> set (CompileResult.diagnostics result). severity d = Error"
    by blast+
  with r no show "\<exists>result. compilePseudocode ?imports ?request = Inr result
      \<and> \<not> success result \<and> pythonCode result = None
      \<and> (\<exists>d \<in> set (CompileResult.diagnostics result). severity d = Error)"
    by blast
qed

text \<open>
  The facade at a program with three diagnostics that the analyzer pushes out of order:
  \<open>OUTPUT y + x\<close> is reported as \<open>SEM019\<close> at column 8, \<open>SEM019\<close> at column 12 and then
  \<open>SEM022\<close> at column 8.
\<close>

lemma compile_unorderedProgram:
  "diagnosticPlaces (analyzeProgram unorderedProgram)
     = Inr [(1, 8, ''SEM019''), (1, 12, ''SEM019''), (1, 8, ''SEM022'')]
   \<and> (case compilePseudocode
            \<lparr>parseSource = \<lambda>src. (unorderedProgram, []), stringifyAst = \<lambda>ast. [],
             preludeLines = []\<rparr>
            \<lparr>source = ''OUTPUT y + x'', filename = ''main.pseudo'', strict = ()\<rparr> of
         Inl e \<Rightarrow> False
       | Inr result \<Rightarrow>
           map (\<lambda>d. (line d, column d, code d)) (CompileResult.diagnostics result)
             = [(1, 8, ''SEM019''), (1, 8, ''SEM022''), (1, 12, ''SEM019'')])"
  by code_simp

theorem compilePseudocode_sorted_witness:
  "\<exists>result.
      compilePseudocode
        \<lparr>parseSource = \<lambda>src. (unorderedProgram, []), stringifyAst = \<lambda>ast. [],
         preludeLines = []\<rparr>
        \<lparr>source = ''OUTPUT y + x'', filename = ''main.pseudo'', strict = ()\<rparr> = Inr result
      \<and> map (\<lambda>d. (line d, column d, code d)) (CompileResult.diagnostics result)
           = [(1, 8, ''SEM019''), (1, 8, ''SEM022''), (1, 12, ''SEM019'')]
      \<and> sorted_wrt diagnosticLe (CompileResult.diagnostics result)"
proof -
  let ?imports = "\<lparr>parseSource = \<lambda>src. (unorderedProgram, []), stringifyAst = \<lambda>ast. [],
                   preludeLines = []\<rparr>"
  let ?request = "\<lparr>source = ''OUTPUT y + x'', filename = ''main.pseudo'', strict = ()\<rparr>"
  from compile_unorderedProgram obtain result where
    r: "compilePseudocode ?imports ?request = Inr result" and
    ds: "map (\<lambda>d. (line d, column d, code d)) (CompileResult.diagnostics result)
           = [(1, 8, ''SEM019''), (1, 8, ''SEM022''), (1, 12, ''SEM019'')]"
    by (cases "compilePseudocode ?imports ?request") auto
  from compilePseudocode_sorted [OF r] r ds show ?thesis
    by (intro exI [of _ result] conjI)
qed

text \<open>
  The facade returns a result whenever the tree the parser built calls no routine of an
  inherited name (the call stack apart, as above).
\<close>

lemma compilePseudocode_returns:
  assumes "safeProgram (fst (parseSource imports (source request)))"
  shows "\<exists>result. compilePseudocode imports request = Inr result"
proof -
  obtain ast parseDiagnostics where p: "parseSource imports (source request) = (ast, parseDiagnostics)"
    by (cases "parseSource imports (source request)")
  with assms analyze_returns [of ast] obtain semanticResult where
    "analyzeProgram ast = Inr semanticResult"
    by auto
  with p show ?thesis
    by (simp add: compilePseudocode_def Let_def)
qed

end
